(* ===== verification/FD_Prelude.thy ===== *)
theory FD_Prelude
  imports Main
begin

text \<open>
  Shared vocabulary of the development: the exceptions the JavaScript engine can raise in
  the code under \<^verbatim>\<open>src/\<close>, the completion type of an operation that may throw after
  it has already written to the state, the append-only arenas that stand for the
  JavaScript heap, and the list facts (\<open>count_list\<close>, \<open>list_all\<close>, \<open>nth\<close> of an
  extended or updated list) that every component proof uses. The collections
  \<open>fd_defs\<close> (definitions that proofs unfold as a group) and \<open>fd_frame\<close> (fields that an
  operation leaves alone) are filled by the component theories.
\<close>

named_theorems fd_defs "definitions of the model that are unfolded as a group"
named_theorems fd_frame "frame facts: what an operation leaves unchanged"
named_theorems fd_wf "well-formedness facts used as introduction rules"

section \<open>Exceptions and completions\<close>

text \<open>
  The only exception the sources can raise themselves is a \<open>TypeError\<close>: reading a
  property of \<open>undefined\<close> (\<open>state.callback\<close> for a name with no template), reading a
  property of \<open>null\<close> (\<open>this.element.$element\<close> of an instance that was never attached)
  and calling a value that is not a function.
\<close>

datatype reason = ReadOfUndefined | ReadOfNull | NotCallable

datatype error = TypeError reason

text \<open>
  JavaScript does not roll back: an operation that throws leaves every write it made
  before. A completion therefore carries the state in both cases.
\<close>

type_synonym 's completion = "(error \<times> 's) + 's"

abbreviation Normal :: "'s \<Rightarrow> 's completion" where
  "Normal s \<equiv> Inr s"

abbreviation Throw :: "error \<Rightarrow> 's \<Rightarrow> (error \<times> 's) + 'c" where
  "Throw e s \<equiv> Inl (e, s)"

definition state_of :: "'s completion \<Rightarrow> 's" where
  "state_of c = (case c of Inl (e, s) \<Rightarrow> s | Inr s \<Rightarrow> s)"

definition thrown :: "'s completion \<Rightarrow> error option" where
  "thrown c = (case c of Inl (e, s) \<Rightarrow> Some e | Inr s \<Rightarrow> None)"

lemma state_of_simps [simp]:
  "state_of (Normal s) = s" "state_of (Throw e s) = s"
  by (simp_all add: state_of_def)

lemma thrown_simps [simp]:
  "thrown (Normal s) = None" "thrown (Throw e s) = Some e"
  by (simp_all add: thrown_def)

lemma thrown_Inl [simp]: "thrown (Inl x) = Some (fst x)"
  by (cases x) simp

lemma thrown_None_iff: "thrown c = None \<longleftrightarrow> c = Normal (state_of c)"
  by (cases c) (auto simp: thrown_def state_of_def)

lemma completion_cases:
  obtains (normal) s where "c = Normal s" | (throw) e s where "c = Throw e s"
  by (cases c) auto

text \<open>
  An operation that also returns a value has a \<open>result\<close>. Sequencing: the second
  operation runs in the state the first one left, unless the first one threw.
\<close>

type_synonym ('a, 's) result = "(error \<times> 's) + ('a \<times> 's)"

definition bind_result :: "('a, 's) result \<Rightarrow> ('a \<Rightarrow> 's \<Rightarrow> (error \<times> 's) + 'c) \<Rightarrow> (error \<times> 's) + 'c" where
  "bind_result r f = (case r of Inl x \<Rightarrow> Inl x | Inr (a, s) \<Rightarrow> f a s)"

definition bind_completion :: "'s completion \<Rightarrow> ('s \<Rightarrow> (error \<times> 's) + 'c) \<Rightarrow> (error \<times> 's) + 'c" where
  "bind_completion c f = (case c of Inl x \<Rightarrow> Inl x | Inr s \<Rightarrow> f s)"

lemma bind_result_simps [simp]:
  "bind_result (Inl x) f = Inl x" "bind_result (Inr p) f = f (fst p) (snd p)"
  by (simp_all add: bind_result_def split: prod.splits)

lemma bind_completion_simps [simp]:
  "bind_completion (Inl x) f = Inl x" "bind_completion (Normal s) f = f s"
  by (simp_all add: bind_completion_def)

lemma bind_completion_Normal [simp]: "bind_completion c Normal = c"
  by (cases c) simp_all

lemma bind_result_cases:
  assumes "bind_result r f = c"
  obtains (throw) x where "r = Inl x" "c = Inl x"
    | (normal) a s where "r = Inr (a, s)" "c = f a s"
  using assms by (cases r) (auto simp: bind_result_def)

lemma bind_completion_cases:
  assumes "bind_completion r f = c"
  obtains (throw) x where "r = Inl x" "c = Inl x"
    | (normal) s where "r = Normal s" "c = f s"
  using assms by (cases r) (auto simp: bind_completion_def)

lemma thrown_bind_completionI: "thrown c \<noteq> None \<Longrightarrow> thrown (bind_completion c f) \<noteq> None"
  by (cases c) simp_all

lemma thrown_bind_resultI:
  "(\<And>a s. r = Inr (a, s) \<Longrightarrow> thrown (f a s) \<noteq> None) \<Longrightarrow> thrown (bind_result r f) \<noteq> None"
  by (cases r) auto

lemma thrown_bind_completion_thenI:
  "(\<And>s. c = Normal s \<Longrightarrow> thrown (f s) \<noteq> None) \<Longrightarrow> thrown (bind_completion c f) \<noteq> None"
  by (cases c) auto

text \<open>Sequencing keeps an invariant that every step keeps.\<close>

lemma inv_bind_result:
  assumes "\<And>x. r = Inl x \<Longrightarrow> I (snd x)"
    and "\<And>a s. r = Inr (a, s) \<Longrightarrow> I (state_of (f a s))"
  shows "I (state_of (bind_result r f))"
  using assms by (cases r) (auto simp: state_of_def)

lemma inv_bind_completion:
  assumes "I (state_of c)" and "\<And>s. c = Normal s \<Longrightarrow> I (state_of (f s))"
  shows "I (state_of (bind_completion c f))"
  using assms by (cases c) (auto simp: state_of_def)

section \<open>Arenas\<close>

text \<open>
  Objects created by \<open>new\<close> live in an arena: a list to which \<open>new\<close> appends, so that
  the address of an object is its index and stays valid for ever (nothing in the sources
  deletes an object). A field write is \<open>modify\<close> at the address.
\<close>

type_synonym addr = nat

definition modify :: "addr \<Rightarrow> ('a \<Rightarrow> 'a) \<Rightarrow> 'a list \<Rightarrow> 'a list" where
  "modify a f heap = (if a < length heap then heap[a := f (heap ! a)] else heap)"

lemma length_modify [simp]: "length (modify a f heap) = length heap"
  by (simp add: modify_def)

lemma nth_modify:
  "b < length heap \<Longrightarrow> modify a f heap ! b = (if b = a then f (heap ! b) else heap ! b)"
  by (simp add: modify_def)

lemma nth_modify_same [simp]: "a < length heap \<Longrightarrow> modify a f heap ! a = f (heap ! a)"
  by (simp add: modify_def)

lemma nth_modify_other [simp]: "b \<noteq> a \<Longrightarrow> modify a f heap ! b = heap ! b"
  by (simp add: modify_def)

lemma modify_proj: "(\<And>x. g (f x) = g x) \<Longrightarrow> g (modify a f heap ! b) = g (heap ! b)"
  by (cases "b = a") (auto simp: modify_def)

lemma modify_append:
  "a < length heap \<Longrightarrow> modify a f (heap @ more) = modify a f heap @ more"
  by (simp add: modify_def list_update_append1 nth_append)

lemma nth_snoc_old [simp]: "a < length heap \<Longrightarrow> (heap @ [obj]) ! a = heap ! a"
  by (simp add: nth_append)

lemma nth_snoc_new: "(heap @ [obj]) ! length heap = obj"
  by simp

section \<open>Lists: occurrences, universal checks, indices\<close>

lemma count_list_snoc [simp]:
  "count_list (xs @ [y]) x = count_list xs x + (if x = y then 1 else 0)"
  by (simp add: count_list_append)

lemma count_list_0_iff: "count_list xs x = 0 \<longleftrightarrow> x \<notin> set xs"
  by (induction xs) auto

lemma count_list_pos_iff: "0 < count_list xs x \<longleftrightarrow> x \<in> set xs"
  using count_list_0_iff [of xs x] by auto

lemma list_all_nth: "list_all P xs \<Longrightarrow> i < length xs \<Longrightarrow> P (xs ! i)"
  by (simp add: list_all_length)

lemma list_all_upt_iff: "list_all P [0..<n] \<longleftrightarrow> (\<forall>i<n. P i)"
  by (auto simp: list_all_iff)

lemma list_all_mono: "list_all P xs \<Longrightarrow> (\<And>x. x \<in> set xs \<Longrightarrow> P x \<Longrightarrow> Q x) \<Longrightarrow> list_all Q xs"
  by (auto simp: list_all_iff)

lemma map_of_eq_Some_distinct:
  "distinct (map fst ps) \<Longrightarrow> map_of ps k = Some v \<longleftrightarrow> (k, v) \<in> set ps"
  by (auto dest: map_of_SomeD)

lemma set_option_list: "t \<in> set (case x of None \<Rightarrow> [] | Some y \<Rightarrow> [y]) \<longleftrightarrow> x = Some t"
  by (cases x) auto

lemma map_of_None_iff: "map_of ps k = None \<longleftrightarrow> k \<notin> fst ` set ps"
  by (simp add: map_of_eq_None_iff)

section \<open>Folding an operation that may fail over a list\<close>

text \<open>
  A \<^verbatim>\<open>for\<close> loop whose body may throw or may not return: the loop stops at the first
  body that does not complete normally and returns what that body returned.
\<close>

fun for_each :: "('a \<Rightarrow> 's \<Rightarrow> 's completion option) \<Rightarrow> 'a list \<Rightarrow> 's \<Rightarrow> 's completion option" where
  "for_each body [] s = Some (Normal s)"
| "for_each body (x # xs) s =
     (case body x s of
        Some (Inr s') \<Rightarrow> for_each body xs s'
      | r \<Rightarrow> r)"

lemma for_each_append:
  "for_each body (xs @ ys) s =
     (case for_each body xs s of
        Some (Inr s') \<Rightarrow> for_each body ys s'
      | r \<Rightarrow> r)"
  by (induction xs arbitrary: s) (auto split: option.splits sum.splits)

lemma for_each_cong [fundef_cong]:
  "xs = ys \<Longrightarrow> s = t \<Longrightarrow> (\<And>x u. x \<in> set ys \<Longrightarrow> f x u = g x u) \<Longrightarrow>
   for_each f xs s = for_each g ys t"
  by (induction ys arbitrary: xs s t) (auto split: option.splits sum.splits)

lemma for_each_Normal:
  "(\<And>x u. x \<in> set xs \<Longrightarrow> \<exists>u'. body x u = Some (Normal u')) \<Longrightarrow>
   \<exists>s'. for_each body xs s = Some (Normal s')"
proof (induction xs arbitrary: s)
  case Nil
  then show ?case by simp
next
  case (Cons x xs)
  from Cons.prems [of x s] obtain u where u: "body x s = Some (Normal u)"
    by auto
  from Cons.IH [of u] Cons.prems obtain s' where "for_each body xs u = Some (Normal s')"
    by auto
  with u show ?case by simp
qed

section \<open>Outcomes of a run that may not return\<close>

text \<open>
  A run on fuel has three outcomes: it starved (\<open>None\<close>), it returned, or it threw.
\<close>

definition throws :: "'s completion option \<Rightarrow> bool" where
  "throws r \<longleftrightarrow> (case r of Some (Inl x) \<Rightarrow> True | _ \<Rightarrow> False)"

lemma throws_simps [simp]:
  "\<not> throws None" "\<not> throws (Some (Normal s))" "throws (Some (Inl x))"
  by (simp_all add: throws_def)

lemma outcome_cases:
  obtains (starved) "r = None" | (returned) s where "r = Some (Normal s)" | (threw) "throws r"
proof (cases r)
  case None
  then show ?thesis by (rule starved)
next
  case (Some c)
  then show ?thesis by (cases c) (auto intro: returned threw)
qed

lemma for_each_inv:
  assumes "for_each body xs s = Some (Normal s')" and "P s"
    and "\<And>x u u'. x \<in> set xs \<Longrightarrow> P u \<Longrightarrow> body x u = Some (Normal u') \<Longrightarrow> P u'"
  shows "P s'"
  using assms
proof (induction xs arbitrary: s)
  case Nil
  then show ?case by simp
next
  case (Cons x xs)
  from Cons.prems(1) obtain u where u: "body x s = Some (Normal u)"
    and rest: "for_each body xs u = Some (Normal s')"
    by (cases "body x s" rule: outcome_cases) (auto simp: throws_def split: option.splits sum.splits)
  from Cons.prems(3) [OF _ Cons.prems(2) u] have "P u" by simp
  with rest Cons.prems(3) show ?case by (intro Cons.IH [of u]) auto
qed

lemma for_each_no_throw:
  assumes "\<And>x u. x \<in> set xs \<Longrightarrow> \<not> throws (body x u)"
  shows "\<not> throws (for_each body xs s)"
  using assms
proof (induction xs arbitrary: s)
  case Nil
  then show ?case by simp
next
  case (Cons x xs)
  from Cons.prems [of x s] show ?case
    by (cases "body x s" rule: outcome_cases) (use Cons in auto)
qed

lemma for_each_Some_mono:
  assumes "for_each f xs s = Some r"
    and "\<And>x u r. x \<in> set xs \<Longrightarrow> f x u = Some r \<Longrightarrow> g x u = Some r"
  shows "for_each g xs s = Some r"
  using assms
  by (induction xs arbitrary: s) (auto split: option.splits sum.splits)

lemma for_each_terminates:
  assumes "\<And>x u. x \<in> set xs \<Longrightarrow> body x u \<noteq> None"
  shows "for_each body xs s \<noteq> None"
  using assms
  by (induction xs arbitrary: s) (auto split: option.splits sum.splits)

lemma for_each_None_inv:
  assumes "x \<in> set xs" and "P s"
    and "\<And>u. P u \<Longrightarrow> body x u = None"
    and "\<And>y u. y \<in> set xs \<Longrightarrow> P u \<Longrightarrow> \<not> throws (body y u)"
    and "\<And>y u u'. y \<in> set xs \<Longrightarrow> P u \<Longrightarrow> body y u = Some (Normal u') \<Longrightarrow> P u'"
  shows "for_each body xs s = None"
  using assms
proof (induction xs arbitrary: s)
  case Nil
  from Nil(1) show ?case by simp
next
  case (Cons y xs)
  show ?case
  proof (cases "body y s" rule: outcome_cases)
    case starved
    then show ?thesis by simp
  next
    case threw
    have "\<not> throws (body y s)" using Cons.prems(2) by (intro Cons.prems(4)) simp_all
    with threw show ?thesis by simp
  next
    case (returned u)
    have u: "P u"
      using Cons.prems(2) returned by (intro Cons.prems(5) [of y s u]) simp_all
    have "body x s = None" using Cons.prems(2) by (rule Cons.prems(3))
    with returned have "x \<noteq> y" by auto
    with Cons.prems(1) have "x \<in> set xs" by simp
    then have "for_each body xs u = None" using u
    proof (rule Cons.IH)
      show "body x v = None" if "P v" for v
        using that by (rule Cons.prems(3))
      show "\<not> throws (body z v)" if "z \<in> set xs" "P v" for z v
        using that by (intro Cons.prems(4)) simp_all
      show "P v'" if "z \<in> set xs" "P v" "body z v = Some (Normal v')" for z v v'
        using that by (intro Cons.prems(5) [of z v v']) simp_all
    qed
    with returned show ?thesis by simp
  qed
qed

section \<open>A loop whose body may throw\<close>

text \<open>
  A \<^verbatim>\<open>for\<close> loop whose body always completes, normally or by a throw: the loop stops
  at the first throw.
\<close>

fun for_loop :: "('a \<Rightarrow> 's \<Rightarrow> 's completion) \<Rightarrow> 'a list \<Rightarrow> 's \<Rightarrow> 's completion" where
  "for_loop body [] s = Normal s"
| "for_loop body (x # xs) s = bind_completion (body x s) (for_loop body xs)"

lemma for_each_Some: "for_each (\<lambda>x s. Some (body x s)) xs s = Some (for_loop body xs s)"
proof (induction xs arbitrary: s)
  case Nil
  then show ?case by simp
next
  case (Cons x xs)
  then show ?case by (cases "body x s") simp_all
qed

lemma for_loop_cong [fundef_cong]:
  "xs = ys \<Longrightarrow> s = t \<Longrightarrow> (\<And>x u. x \<in> set ys \<Longrightarrow> f x u = g x u) \<Longrightarrow>
   for_loop f xs s = for_loop g ys t"
proof (induction ys arbitrary: xs s t)
  case Nil
  then show ?case by simp
next
  case (Cons y ys)
  then show ?case by (cases "g y t") simp_all
qed

lemma for_loop_Normal:
  assumes "\<And>x u. x \<in> set xs \<Longrightarrow> thrown (body x u) = None"
  shows "thrown (for_loop body xs s) = None"
  using assms
proof (induction xs arbitrary: s)
  case Nil
  then show ?case by simp
next
  case (Cons x xs)
  from Cons.prems [of x s] obtain u where "body x s = Normal u"
    by (cases "body x s") (auto simp: thrown_def)
  with Cons show ?case by simp
qed

end
