(* ===== verification/JsObject.thy ===== *)
theory JsObject
  imports FD_Prelude "HOL-Library.Code_Target_Nat"
begin

text \<open>
  The plain JavaScript object \<^verbatim>\<open>{}\<close> as the sources use it: a dictionary from property
  names to values. Three things of the language are visible in the behaviour of
  \<^verbatim>\<open>src/field-dependencies.js\<close> and are modelled here.
  \<^item> \<^bold>\<open>Enumeration order.\<close> \<^verbatim>\<open>for (var i in obj)\<close> visits the own properties whose names
    are array indices first, in ascending numeric order, and then the other names in the
    order in which they were created. An object is the list of its own properties in
    that order (\<open>jsobj\<close>), and \<open>js_put\<close> inserts a new name at its place.
  \<^item> \<^bold>\<open>Inherited properties.\<close> A read \<^verbatim>\<open>obj[key]\<close> of a name that is not an own property
    finds the property of \<^verbatim>\<open>Object.prototype\<close> of that name, if there is one
    (\<open>js_get\<close> returns \<open>Inherited\<close>); \<^verbatim>\<open>hasOwnProperty\<close> does not.
  \<^item> \<^bold>\<open>The name \<^verbatim>\<open>__proto__\<close>.\<close> Assigning an object to \<^verbatim>\<open>obj["__proto__"]\<close> creates no own
    property. \<open>js_put\<close> leaves the own properties as they are; the change of the
    prototype itself is outside the model.
  The invariant \<open>js_wf\<close> says that a list is the property list of some object, and
  every operation keeps it. The later sections relate the list to what it implements: a
  finite map from names to values, enumerated in the order \<open>own_property_keys\<close> that the
  language defines.
\<close>

section \<open>Property names\<close>

type_synonym name = string

definition is_digit :: "char \<Rightarrow> bool" where
  "is_digit c = (c \<in> set ''0123456789'')"

definition digit_val :: "char \<Rightarrow> nat" where
  "digit_val c = of_char c - 48"

definition digits_val :: "string \<Rightarrow> nat" where
  "digits_val s = foldl (\<lambda>n c. 10 * n + digit_val c) 0 s"

text \<open>The decimal numeral of a number, as \<^verbatim>\<open>String(n)\<close> prints it.\<close>

fun dec :: "nat \<Rightarrow> string" where
  "dec n = (if n < 10 then [char_of (48 + n)] else dec (n div 10) @ [char_of (48 + n mod 10)])"

declare dec.simps [simp del]

text \<open>
  An array index is a canonical numeric string whose value is at most \<open>2^32 - 2\<close>; a
  numeric string is canonical when printing its value gives the string back (so no sign
  and no leading zero).
\<close>

definition array_index :: "name \<Rightarrow> nat option" where
  "array_index s =
     (if s \<noteq> [] \<and> list_all is_digit s
      then (if dec (digits_val s) = s \<and> digits_val s < 4294967295
            then Some (digits_val s) else None)
      else None)"

text \<open>\<open>key_before a b\<close>: an object that holds both names may list \<open>a\<close> before \<open>b\<close>.\<close>

definition key_before :: "name \<Rightarrow> name \<Rightarrow> bool" where
  "key_before a b =
     (case array_index a of
        Some i \<Rightarrow> (case array_index b of Some j \<Rightarrow> i < j | None \<Rightarrow> True)
      | None \<Rightarrow> (case array_index b of Some j \<Rightarrow> False | None \<Rightarrow> True))"

text \<open>The properties every object inherits from \<^verbatim>\<open>Object.prototype\<close>; all are truthy.\<close>

definition object_prototype_keys :: "name list" where
  "object_prototype_keys =
     [''constructor'', ''hasOwnProperty'', ''isPrototypeOf'', ''propertyIsEnumerable'',
      ''toLocaleString'', ''toString'', ''valueOf'', ''__defineGetter__'',
      ''__defineSetter__'', ''__lookupGetter__'', ''__lookupSetter__'', ''__proto__'']"

section \<open>Objects\<close>

type_synonym 'v jsobj = "(name \<times> 'v) list"

datatype 'v lookup = Own 'v | Inherited | Undefined

definition js_empty :: "'v jsobj" where
  "js_empty = []"

definition hasOwnProperty :: "'v jsobj \<Rightarrow> name \<Rightarrow> bool" where
  "hasOwnProperty obj k = (map_of obj k \<noteq> None)"

definition js_own :: "'v jsobj \<Rightarrow> name \<Rightarrow> 'v option" where
  "js_own obj k = map_of obj k"

definition js_get :: "'v jsobj \<Rightarrow> name \<Rightarrow> 'v lookup" where
  "js_get obj k =
     (case map_of obj k of
        Some v \<Rightarrow> Own v
      | None \<Rightarrow> if k \<in> set object_prototype_keys then Inherited else Undefined)"

text \<open>\<^verbatim>\<open>!obj[key]\<close>: every value the sources store is an object, hence truthy.\<close>

definition falsy :: "'v lookup \<Rightarrow> bool" where
  "falsy l = (l = Undefined)"

fun js_replace :: "name \<Rightarrow> 'v \<Rightarrow> 'v jsobj \<Rightarrow> 'v jsobj" where
  "js_replace k v [] = []"
| "js_replace k v ((k', v') # ps) =
     (if k' = k then (k, v) # ps else (k', v') # js_replace k v ps)"

fun js_insert :: "name \<Rightarrow> 'v \<Rightarrow> 'v jsobj \<Rightarrow> 'v jsobj" where
  "js_insert k v [] = [(k, v)]"
| "js_insert k v ((k', v') # ps) =
     (if key_before k' k then (k', v') # js_insert k v ps else (k, v) # (k', v') # ps)"

definition js_put :: "name \<Rightarrow> 'v \<Rightarrow> 'v jsobj \<Rightarrow> 'v jsobj" where
  "js_put k v obj =
     (if k = ''__proto__'' then obj
      else if hasOwnProperty obj k then js_replace k v obj
      else js_insert k v obj)"

text \<open>The names and the values in the order of \<^verbatim>\<open>for ... in\<close>.\<close>

definition js_keys :: "'v jsobj \<Rightarrow> name list" where
  "js_keys obj = map fst obj"

definition js_values :: "'v jsobj \<Rightarrow> 'v list" where
  "js_values obj = map snd obj"

definition js_wf :: "'v jsobj \<Rightarrow> bool" where
  "js_wf obj \<longleftrightarrow>
     distinct (map fst obj) \<and> sorted_wrt key_before (map fst obj) \<and>
     ''__proto__'' \<notin> set (map fst obj)"

lemmas js_defs [fd_defs] =
  js_empty_def hasOwnProperty_def js_own_def js_get_def js_put_def js_keys_def js_values_def

section \<open>The order of names\<close>

lemma key_before_trans: "key_before a b \<Longrightarrow> key_before b c \<Longrightarrow> key_before a c"
  by (auto simp: key_before_def split: option.splits)

lemma array_index_Some_dec: "array_index a = Some i \<Longrightarrow> a = dec i"
  by (auto simp: array_index_def split: if_splits)

lemma array_index_inj: "array_index a = Some i \<Longrightarrow> array_index b = Some i \<Longrightarrow> a = b"
  using array_index_Some_dec [of a i] array_index_Some_dec [of b i] by simp

lemma key_before_total: "a \<noteq> b \<Longrightarrow> key_before a b \<or> key_before b a"
  by (auto simp: key_before_def split: option.splits dest: array_index_inj)

lemma key_before_plain: "array_index k = None \<Longrightarrow> key_before a k"
  by (simp add: key_before_def split: option.splits)

lemma key_before_index_irrefl: "array_index k = Some i \<Longrightarrow> \<not> key_before k k"
  by (simp add: key_before_def)

lemma not_digit_no_index: "\<not> list_all is_digit s \<Longrightarrow> array_index s = None"
  by (simp add: array_index_def)

section \<open>Reading after writing\<close>

lemma map_of_js_replace:
  "map_of (js_replace k v obj) = (if map_of obj k = None then map_of obj else (map_of obj)(k \<mapsto> v))"
  by (induction k v obj rule: js_replace.induct) (auto simp: fun_eq_iff)

lemma map_of_js_insert:
  "map_of obj k = None \<Longrightarrow> map_of (js_insert k v obj) = (map_of obj)(k \<mapsto> v)"
  by (induction k v obj rule: js_insert.induct) (auto simp: fun_eq_iff split: if_splits)

lemma map_of_js_put:
  "map_of (js_put k v obj) = (if k = ''__proto__'' then map_of obj else (map_of obj)(k \<mapsto> v))"
  by (auto simp: js_put_def hasOwnProperty_def map_of_js_replace map_of_js_insert)

lemma js_own_put [simp]:
  "js_own (js_put k v obj) k' =
     (if k' = k \<and> k \<noteq> ''__proto__'' then Some v else js_own obj k')"
  by (simp add: js_own_def map_of_js_put)

lemma hasOwnProperty_put [simp]:
  "hasOwnProperty (js_put k v obj) k' \<longleftrightarrow> (k' = k \<and> k \<noteq> ''__proto__'') \<or> hasOwnProperty obj k'"
  by (simp add: hasOwnProperty_def map_of_js_put)

lemma js_get_put_same: "k \<noteq> ''__proto__'' \<Longrightarrow> js_get (js_put k v obj) k = Own v"
  by (simp add: js_get_def map_of_js_put)

lemma js_get_put_other: "k' \<noteq> k \<Longrightarrow> js_get (js_put k v obj) k' = js_get obj k'"
  by (simp add: js_get_def map_of_js_put)

lemma js_get_empty:
  "js_get js_empty k = (if k \<in> set object_prototype_keys then Inherited else Undefined)"
  by (simp add: js_get_def js_empty_def)

lemma js_get_Own_iff: "js_get obj k = Own v \<longleftrightarrow> js_own obj k = Some v"
  by (auto simp: js_get_def js_own_def split: option.splits)

lemma js_get_Undefined_iff:
  "js_get obj k = Undefined \<longleftrightarrow> js_own obj k = None \<and> k \<notin> set object_prototype_keys"
  by (auto simp: js_get_def js_own_def split: option.splits)

lemma js_get_Inherited_iff:
  "js_get obj k = Inherited \<longleftrightarrow> js_own obj k = None \<and> k \<in> set object_prototype_keys"
  by (auto simp: js_get_def js_own_def split: option.splits)

lemma falsy_js_get: "falsy (js_get obj k) \<longleftrightarrow> \<not> hasOwnProperty obj k \<and> k \<notin> set object_prototype_keys"
  by (auto simp: falsy_def js_get_def hasOwnProperty_def split: option.splits)

lemma hasOwnProperty_own_iff: "hasOwnProperty obj k \<longleftrightarrow> js_own obj k \<noteq> None"
  by (simp add: hasOwnProperty_def js_own_def)

lemma hasOwnProperty_iff: "hasOwnProperty obj k \<longleftrightarrow> k \<in> set (js_keys obj)"
  by (simp add: hasOwnProperty_def js_keys_def map_of_eq_None_iff)

lemma js_own_Some_mem: "js_own obj k = Some v \<Longrightarrow> (k, v) \<in> set obj"
  by (simp add: js_own_def map_of_SomeD)

lemma js_own_Some_value: "js_own obj k = Some v \<Longrightarrow> v \<in> set (js_values obj)"
  by (force simp: js_values_def dest: js_own_Some_mem)

lemma js_wf_own_iff: "js_wf obj \<Longrightarrow> js_own obj k = Some v \<longleftrightarrow> (k, v) \<in> set obj"
  by (simp add: js_wf_def js_own_def map_of_eq_Some_distinct)

section \<open>The property list after writing\<close>

lemma keys_js_replace [simp]: "map fst (js_replace k v obj) = map fst obj"
  by (induction k v obj rule: js_replace.induct) auto

lemma fst_set_js_replace [simp]: "fst ` set (js_replace k v obj) = fst ` set obj"
  using keys_js_replace [of k v obj] by (metis set_map)

lemma set_js_insert [simp]: "set (js_insert k v obj) = insert (k, v) (set obj)"
  by (induction k v obj rule: js_insert.induct) auto

lemma length_js_insert [simp]: "length (js_insert k v obj) = Suc (length obj)"
  by (induction k v obj rule: js_insert.induct) auto

lemma set_js_replace_subset: "set (js_replace k v obj) \<subseteq> insert (k, v) (set obj)"
  by (induction k v obj rule: js_replace.induct) auto

lemma values_js_replace_subset: "snd ` set (js_replace k v obj) \<subseteq> insert v (snd ` set obj)"
  using set_js_replace_subset [of k v obj] by force

lemma js_values_put_subset: "set (js_values (js_put k v obj)) \<subseteq> insert v (set (js_values obj))"
  using values_js_replace_subset [of k v obj] by (auto simp: js_put_def js_values_def)

lemma js_insert_plain: "array_index k = None \<Longrightarrow> js_insert k v obj = obj @ [(k, v)]"
  by (induction k v obj rule: js_insert.induct) (auto simp: key_before_plain)

text \<open>
  Attachment order: a new name that is not an array index goes to the end of the
  enumeration, and writing an existing name does not move it.
\<close>

lemma js_keys_put_new_plain:
  "\<not> hasOwnProperty obj k \<Longrightarrow> array_index k = None \<Longrightarrow> k \<noteq> ''__proto__'' \<Longrightarrow>
   js_keys (js_put k v obj) = js_keys obj @ [k]"
  by (simp add: js_put_def js_keys_def js_insert_plain)

lemma js_keys_put_old: "hasOwnProperty obj k \<Longrightarrow> js_keys (js_put k v obj) = js_keys obj"
  by (simp add: js_put_def js_keys_def)

lemma js_keys_put_set:
  "set (js_keys (js_put k v obj)) =
     (if k = ''__proto__'' then set (js_keys obj) else insert k (set (js_keys obj)))"
  by (auto simp: js_put_def js_keys_def hasOwnProperty_def map_of_eq_None_iff)

section \<open>Well-formedness is kept\<close>

lemma js_wf_empty [simp, fd_wf]: "js_wf js_empty"
  by (simp add: js_wf_def js_empty_def)

lemma js_wf_Nil [simp]: "js_wf []"
  by (simp add: js_wf_def)

lemma js_insert_sorted:
  "sorted_wrt key_before (map fst obj) \<Longrightarrow> k \<notin> fst ` set obj \<Longrightarrow>
   sorted_wrt key_before (map fst (js_insert k v obj))"
proof (induction obj)
  case Nil
  then show ?case by simp
next
  case (Cons p ps)
  obtain k' v' where p: "p = (k', v')" by (cases p)
  show ?case
  proof (cases "key_before k' k")
    case True
    with Cons show ?thesis by (auto simp: p)
  next
    case False
    with Cons.prems have kk': "key_before k k'"
      using key_before_total [of k k'] by (auto simp: p)
    have "key_before k x" if "x \<in> fst ` set ps" for x
      using that Cons.prems(1) kk' by (auto simp: p intro: key_before_trans)
    with Cons.prems False kk' show ?thesis by (auto simp: p)
  qed
qed

lemma js_wf_insert:
  "js_wf obj \<Longrightarrow> \<not> hasOwnProperty obj k \<Longrightarrow> k \<noteq> ''__proto__'' \<Longrightarrow> js_wf (js_insert k v obj)"
proof -
  assume wf: "js_wf obj" and new: "\<not> hasOwnProperty obj k" and k: "k \<noteq> ''__proto__''"
  from new have notin: "k \<notin> fst ` set obj"
    by (simp add: hasOwnProperty_def map_of_eq_None_iff)
  have "distinct (map fst obj)"
    using wf by (simp add: js_wf_def)
  then have "distinct (map fst (js_insert k v obj))"
    using notin by (induction k v obj rule: js_insert.induct) auto
  moreover have "sorted_wrt key_before (map fst (js_insert k v obj))"
    using wf notin by (simp add: js_wf_def js_insert_sorted)
  ultimately show ?thesis
    using wf k by (auto simp: js_wf_def)
qed

lemma js_wf_replace: "js_wf obj \<Longrightarrow> js_wf (js_replace k v obj)"
  by (simp add: js_wf_def)

lemma js_wf_put [simp, fd_wf]: "js_wf obj \<Longrightarrow> js_wf (js_put k v obj)"
  by (simp add: js_put_def js_wf_insert js_wf_replace)

lemma js_wf_distinct_keys: "js_wf obj \<Longrightarrow> distinct (js_keys obj)"
  by (simp add: js_wf_def js_keys_def)

text \<open>Array indices are enumerated before every other name, in ascending order.\<close>

lemma js_wf_index_first:
  assumes "js_wf obj" and "i < j" and "j < length obj"
    and "array_index (fst (obj ! j)) = Some n"
  shows "\<exists>m. array_index (fst (obj ! i)) = Some m \<and> m < n"
proof -
  from assms have "key_before (fst (obj ! i)) (fst (obj ! j))"
    by (simp add: js_wf_def sorted_wrt_iff_nth_less)
  with assms(4) show ?thesis
    by (auto simp: key_before_def split: option.splits)
qed

section \<open>Writing a name that reads as undefined\<close>

lemma proto_is_prototype_key: "''__proto__'' \<in> set object_prototype_keys"
  by (simp add: object_prototype_keys_def)

lemma falsy_not_proto: "falsy (js_get obj k) \<Longrightarrow> k \<noteq> ''__proto__''"
  using proto_is_prototype_key by (auto simp: falsy_js_get)

lemma js_put_new: "falsy (js_get obj k) \<Longrightarrow> js_put k v obj = js_insert k v obj"
  using proto_is_prototype_key by (auto simp: falsy_js_get js_put_def)

lemma js_values_insert_set [simp]:
  "set (js_values (js_insert k v obj)) = insert v (set (js_values obj))"
  by (simp add: js_values_def)

lemma distinct_js_values_insert:
  "distinct (js_values obj) \<Longrightarrow> v \<notin> set (js_values obj) \<Longrightarrow>
   distinct (js_values (js_insert k v obj))"
  by (induction k v obj rule: js_insert.induct) (auto simp: js_values_def)

lemma js_get_put_new: "falsy (js_get obj k) \<Longrightarrow> js_get (js_put k v obj) k = Own v"
  by (simp add: js_get_put_same falsy_not_proto)

lemma js_wf_put_new: "js_wf obj \<Longrightarrow> js_wf (js_insert k v obj) \<or> hasOwnProperty obj k \<or> k = ''__proto__''"
  by (auto intro: js_wf_insert)

section \<open>Decimal numerals\<close>

lemma digit_cases: "n < 10 \<Longrightarrow> n \<in> {0, 1, 2, 3, 4, 5, 6, 7, 8, 9 :: nat}"
  by auto

lemma char_of_digit_codes:
  "char_of (48::nat) = CHR ''0''" "char_of (49::nat) = CHR ''1''" "char_of (50::nat) = CHR ''2''"
  "char_of (51::nat) = CHR ''3''" "char_of (52::nat) = CHR ''4''" "char_of (53::nat) = CHR ''5''"
  "char_of (54::nat) = CHR ''6''" "char_of (55::nat) = CHR ''7''" "char_of (56::nat) = CHR ''8''"
  "char_of (57::nat) = CHR ''9''"
  by code_simp+

lemma is_digit_char_of: "n < 10 \<Longrightarrow> is_digit (char_of (48 + n :: nat))"
  by (drule digit_cases) (auto simp: is_digit_def char_of_digit_codes)

lemma digit_val_char_of: "n < 10 \<Longrightarrow> digit_val (char_of (48 + n :: nat)) = n"
  by (simp add: digit_val_def)

lemma digits_val_snoc: "digits_val (s @ [c]) = 10 * digits_val s + digit_val c"
  by (simp add: digits_val_def)

lemma dec_digits: "list_all is_digit (dec n)"
  by (induction n rule: dec.induct) (subst dec.simps, simp add: is_digit_char_of)

lemma dec_not_Nil [simp]: "dec n \<noteq> []" "[] \<noteq> dec n"
  by (subst dec.simps, simp)+

lemma digits_val_dec: "digits_val (dec n) = n"
proof (induction n rule: dec.induct)
  case (1 n)
  show ?case
  proof (cases "n < 10")
    case True
    then show ?thesis
      by (subst dec.simps) (simp add: digits_val_def digit_val_char_of)
  next
    case False
    with 1 show ?thesis
      by (subst dec.simps) (simp add: digits_val_snoc digit_val_char_of)
  qed
qed

lemma array_index_dec: "i < 4294967295 \<Longrightarrow> array_index (dec i) = Some i"
  by (simp add: array_index_def digits_val_dec dec_digits)

lemma array_index_bound: "array_index s = Some i \<Longrightarrow> i < 4294967295"
  by (auto simp: array_index_def split: if_splits)

lemma array_index_Some_iff: "array_index s = Some i \<longleftrightarrow> s = dec i \<and> i < 4294967295"
  by (auto simp: array_index_dec array_index_bound array_index_Some_dec)


section \<open>An object is a finite map\<close>






section \<open>The order of enumeration\<close>

text \<open>
  The order in which the language enumerates the own properties of an object, as a
  function of the names written to it, in the order of the writes: first the array
  indices, ascending, then the other names in the order of their first write.
\<close>

definition index_keys :: "name list \<Rightarrow> nat list" where
  "index_keys ks = sorted_list_of_set (set (List.map_filter array_index ks))"

definition plain_keys :: "name list \<Rightarrow> name list" where
  "plain_keys ks =
     fold (\<lambda>k seen. if array_index k = None \<and> k \<noteq> ''__proto__'' \<and> k \<notin> set seen
                     then seen @ [k] else seen) ks []"

definition own_property_keys :: "name list \<Rightarrow> name list" where
  "own_property_keys ks = map dec (index_keys ks) @ plain_keys ks"

definition js_write_all :: "(name \<times> 'v) list \<Rightarrow> 'v jsobj \<Rightarrow> 'v jsobj" where
  "js_write_all kvs obj = fold (\<lambda>p. js_put (fst p) (snd p)) kvs obj"

lemma own_property_keys_Nil [simp]: "own_property_keys [] = []"
  by (simp add: own_property_keys_def index_keys_def plain_keys_def)

lemma array_index_proto [simp]: "array_index ''__proto__'' = None"
  by (simp add: array_index_def is_digit_def)

lemma in_index_names:
  "i \<in> set (List.map_filter array_index ks) \<longleftrightarrow> (\<exists>k \<in> set ks. array_index k = Some i)"
  by (induction ks) (auto split: option.splits)

lemma set_index_keys [simp]: "set (index_keys ks) = {i. dec i \<in> set ks \<and> i < 4294967295}"
  by (auto simp: index_keys_def in_index_names array_index_Some_iff)

lemma plain_keys_snoc:
  "plain_keys (ks @ [k]) =
     (if array_index k = None \<and> k \<noteq> ''__proto__'' \<and> k \<notin> set (plain_keys ks)
      then plain_keys ks @ [k] else plain_keys ks)"
  by (simp add: plain_keys_def)

lemma plain_keys_plain: "k \<in> set (plain_keys ks) \<Longrightarrow> array_index k = None"
  by (induction ks rule: rev_induct) (auto simp: plain_keys_snoc plain_keys_def split: if_splits)

lemma index_keys_props:
  "sorted (index_keys ks)" "distinct (index_keys ks)"
  "i \<in> set (index_keys ks) \<Longrightarrow> array_index (dec i) = Some i"
  by (simp_all add: array_index_Some_iff) (simp_all add: index_keys_def)

text \<open>Inserting a new array index into a list of that shape.\<close>

lemma js_insert_index:
  assumes "map fst obj = map dec idxs @ plains"
    and "sorted idxs" and "\<forall>j \<in> set idxs. array_index (dec j) = Some j"
    and "\<forall>k \<in> set plains. array_index k = None"
    and "array_index (dec i) = Some i" and "i \<notin> set idxs"
  shows "map fst (js_insert (dec i) v obj) = map dec (insort i idxs) @ plains"
  using assms
proof (induction idxs arbitrary: obj)
  case Nil
  then show ?case
    by (cases obj) (auto simp: key_before_def)
next
  case (Cons j idxs)
  from Cons.prems(1) obtain v' rest where obj: "obj = (dec j, v') # rest"
    and rest: "map fst rest = map dec idxs @ plains"
    by (cases obj) auto
  from Cons.prems have before: "key_before (dec j) (dec i) \<longleftrightarrow> j < i"
    by (simp add: key_before_def)
  show ?case
  proof (cases "j < i")
    case True
    with Cons.IH [OF rest] Cons.prems obj before show ?thesis
      by (simp add: insort_is_Cons)
  next
    case False
    with Cons.prems obj before show ?thesis by auto
  qed
qed


lemma index_keys_snoc:
  "index_keys (ks @ [k]) =
     (case array_index k of None \<Rightarrow> index_keys ks
      | Some i \<Rightarrow> if i \<in> set (index_keys ks) then index_keys ks else insort i (index_keys ks))"
proof -
  have "set (List.map_filter array_index (ks @ [k])) =
      (case array_index k of None \<Rightarrow> {} | Some i \<Rightarrow> {i}) \<union> set (List.map_filter array_index ks)"
    by (auto simp: in_index_names split: option.splits)
  moreover have "set (index_keys ks) = set (List.map_filter array_index ks)"
    by (simp add: index_keys_def)
  ultimately show ?thesis
    unfolding index_keys_def
    by (simp add: insert_absorb sorted_list_of_set_insert split: option.splits
        del: set_index_keys sorted_list_of_set_insert_remove)
qed

lemma js_keys_put_step:
  assumes "js_keys obj = own_property_keys ks"
  shows "js_keys (js_put k v obj) = own_property_keys (ks @ [k])"
proof (cases "array_index k")
  case None
  have "k \<notin> dec ` set (index_keys ks)"
    using None index_keys_props(3) [where ks = ks] by auto
  with assms None show ?thesis
    by (auto simp: own_property_keys_def index_keys_snoc plain_keys_snoc js_put_def
        hasOwnProperty_iff js_insert_plain js_keys_def)
next
  case (Some i)
  then have k: "k = dec i" "k \<noteq> ''__proto__''" "k \<notin> set (plain_keys ks)"
    using plain_keys_plain [of k ks] by (auto simp: array_index_Some_dec)
  have inj: "dec i \<in> dec ` set (index_keys ks) \<longleftrightarrow> i \<in> set (index_keys ks)"
    using Some k(1) by (auto simp: array_index_Some_iff)
  have new: "i \<notin> set (index_keys ks) \<Longrightarrow>
      map fst (js_insert (dec i) v obj) = map dec (insort i (index_keys ks)) @ plain_keys ks"
    using assms Some k(1) index_keys_props [where ks = ks] plain_keys_plain [of _ ks]
    by (intro js_insert_index) (auto simp: js_keys_def own_property_keys_def)
  from assms Some k inj new show ?thesis
    by (auto simp: own_property_keys_def index_keys_snoc plain_keys_snoc js_put_def
        hasOwnProperty_iff js_keys_def)
qed



definition ex_writes :: "(name \<times> nat) list" where
  "ex_writes = [(''b'', 1), (''10'', 2), (''a'', 3), (''2'', 4), (''b'', 5)]"

lemma ex_writes_index [simp]:
  "array_index ''10'' = Some 10" "array_index ''2'' = Some 2"
  "array_index ''a'' = None" "array_index ''b'' = None"
  by (simp_all add: array_index_def is_digit_def digits_val_def digit_val_def dec.simps
      char_of_digit_codes)


end
