(* ===== verification/Nodes.thy ===== *)
theory Nodes
  imports JsObject
begin

text \<open>
  The three constructors of \<^verbatim>\<open>src/field-dependencies.js\<close> (\<^verbatim>\<open>Element\<close>, \<^verbatim>\<open>State\<close>,
  \<^verbatim>\<open>Modifier\<close>) and the methods that wire instances together. Objects reference each
  other (a State lists its Modifiers, a Modifier lists its States, both point back to their
  Element), so an instance is an address into an arena of its class and the three arenas
  form the \<open>heap\<close>. A field the constructor sets to \<^verbatim>\<open>null\<close> is an \<open>option\<close>; the
  callback is an \<open>option\<close> too, because \<^verbatim>\<open>new State(state.callback)\<close> can be handed
  \<^verbatim>\<open>undefined\<close>.

  The type \<open>'h\<close> is the host reference (the jQuery object \<^verbatim>\<open>$element\<close>); \<open>'w\<close> is the
  state of the page that the user's callbacks read and write. A State callback is a
  predicate \<open>'h \<Rightarrow> 'w \<Rightarrow> bool\<close>, a Modifier callback a transformer \<open>'h \<Rightarrow> 'w \<Rightarrow> 'w\<close>.

  \<open>heap_wf\<close> is the shape every heap built by the program has; each method keeps it
  under the condition its caller establishes. The last section shows in which order an
  Element visits the States attached to it.
\<close>

section \<open>Instances and the heap\<close>

type_synonym eref = addr
type_synonym sref = addr
type_synonym mref = addr

record ('h, 'w) State =
  state_element :: "eref option"
  state_callback :: "('h \<Rightarrow> 'w \<Rightarrow> bool) option"
  state_modifiers :: "mref list"

record ('h, 'w) Modifier =
  mod_element :: "eref option"
  mod_callback :: "('h \<Rightarrow> 'w \<Rightarrow> 'w) option"
  mod_states :: "sref list"

record 'h Element =
  elem_host :: 'h
  elem_states :: "sref jsobj"
  elem_modifiers :: "mref jsobj"

record ('h, 'w) heap =
  element_heap :: "'h Element list"
  state_heap :: "('h, 'w) State list"
  modifier_heap :: "('h, 'w) Modifier list"

section \<open>Constructors\<close>

definition new_State :: "('h \<Rightarrow> 'w \<Rightarrow> bool) option \<Rightarrow> ('h, 'w) State" where
  "new_State callback = \<lparr>state_element = None, state_callback = callback, state_modifiers = []\<rparr>"

definition new_Modifier :: "('h \<Rightarrow> 'w \<Rightarrow> 'w) option \<Rightarrow> ('h, 'w) Modifier" where
  "new_Modifier callback = \<lparr>mod_element = None, mod_callback = callback, mod_states = []\<rparr>"

definition new_Element :: "'h \<Rightarrow> 'h Element" where
  "new_Element host = \<lparr>elem_host = host, elem_states = js_empty, elem_modifiers = js_empty\<rparr>"

text \<open>\<^verbatim>\<open>new\<close> places the instance in its arena and yields its address.\<close>

definition alloc_State ::
  "('h, 'w) State \<Rightarrow> ('h, 'w, 'z) heap_scheme \<Rightarrow> sref \<times> ('h, 'w, 'z) heap_scheme" where
  "alloc_State st h = (length (state_heap h), h\<lparr>state_heap := state_heap h @ [st]\<rparr>)"

definition alloc_Modifier ::
  "('h, 'w) Modifier \<Rightarrow> ('h, 'w, 'z) heap_scheme \<Rightarrow> mref \<times> ('h, 'w, 'z) heap_scheme" where
  "alloc_Modifier md h = (length (modifier_heap h), h\<lparr>modifier_heap := modifier_heap h @ [md]\<rparr>)"

definition alloc_Element ::
  "'h Element \<Rightarrow> ('h, 'w, 'z) heap_scheme \<Rightarrow> eref \<times> ('h, 'w, 'z) heap_scheme" where
  "alloc_Element el h = (length (element_heap h), h\<lparr>element_heap := element_heap h @ [el]\<rparr>)"

section \<open>Methods of State\<close>

definition State_setElement ::
  "sref \<Rightarrow> eref \<Rightarrow> ('h, 'w, 'z) heap_scheme \<Rightarrow> ('h, 'w, 'z) heap_scheme" where
  "State_setElement s element h =
     h\<lparr>state_heap := modify s (\<lambda>st. st\<lparr>state_element := Some element\<rparr>) (state_heap h)\<rparr>"

definition State_addModifier ::
  "sref \<Rightarrow> mref \<Rightarrow> ('h, 'w, 'z) heap_scheme \<Rightarrow> ('h, 'w, 'z) heap_scheme" where
  "State_addModifier s modifier h =
     h\<lparr>state_heap :=
         modify s (\<lambda>st. st\<lparr>state_modifiers := state_modifiers st @ [modifier]\<rparr>) (state_heap h)\<rparr>"

text \<open>
  \<^verbatim>\<open>isActive\<close> is \<^verbatim>\<open>this.callback(this.element.$element)\<close>: the argument is evaluated
  first, so a \<^verbatim>\<open>null\<close> element is reported before a missing callback.
\<close>

definition State_isActive :: "sref \<Rightarrow> ('h, 'w, 'z) heap_scheme \<Rightarrow> 'w \<Rightarrow> error + bool" where
  "State_isActive s h w =
     (case state_element (state_heap h ! s) of
        None \<Rightarrow> Inl (TypeError ReadOfNull)
      | Some e \<Rightarrow>
          (case state_callback (state_heap h ! s) of
             None \<Rightarrow> Inl (TypeError NotCallable)
           | Some callback \<Rightarrow> Inr (callback (elem_host (element_heap h ! e)) w)))"

section \<open>Methods of Modifier\<close>

definition Modifier_setElement ::
  "mref \<Rightarrow> eref \<Rightarrow> ('h, 'w, 'z) heap_scheme \<Rightarrow> ('h, 'w, 'z) heap_scheme" where
  "Modifier_setElement m element h =
     h\<lparr>modifier_heap := modify m (\<lambda>md. md\<lparr>mod_element := Some element\<rparr>) (modifier_heap h)\<rparr>"

definition Modifier_subscribe ::
  "mref \<Rightarrow> sref \<Rightarrow> ('h, 'w, 'z) heap_scheme \<Rightarrow> ('h, 'w, 'z) heap_scheme" where
  "Modifier_subscribe m state h =
     (let h1 = State_addModifier state m h
      in h1\<lparr>modifier_heap :=
              modify m (\<lambda>md. md\<lparr>mod_states := mod_states md @ [state]\<rparr>) (modifier_heap h1)\<rparr>)"

section \<open>Methods of Element\<close>

definition Element_attachState ::
  "eref \<Rightarrow> name \<Rightarrow> sref \<Rightarrow> ('h, 'w, 'z) heap_scheme \<Rightarrow> ('h, 'w, 'z) heap_scheme" where
  "Element_attachState e key state h =
     (let h1 = State_setElement state e h
      in h1\<lparr>element_heap :=
              modify e (\<lambda>el. el\<lparr>elem_states := js_put key state (elem_states el)\<rparr>)
                (element_heap h1)\<rparr>)"

definition Element_getState :: "eref \<Rightarrow> name \<Rightarrow> ('h, 'w, 'z) heap_scheme \<Rightarrow> sref lookup" where
  "Element_getState e key h = js_get (elem_states (element_heap h ! e)) key"

definition Element_attachModifier ::
  "eref \<Rightarrow> name \<Rightarrow> mref \<Rightarrow> ('h, 'w, 'z) heap_scheme \<Rightarrow> ('h, 'w, 'z) heap_scheme" where
  "Element_attachModifier e key modifier h =
     (let h1 = Modifier_setElement modifier e h
      in h1\<lparr>element_heap :=
              modify e (\<lambda>el. el\<lparr>elem_modifiers := js_put key modifier (elem_modifiers el)\<rparr>)
                (element_heap h1)\<rparr>)"

definition Element_getModifier :: "eref \<Rightarrow> name \<Rightarrow> ('h, 'w, 'z) heap_scheme \<Rightarrow> mref lookup" where
  "Element_getModifier e key h = js_get (elem_modifiers (element_heap h ! e)) key"

text \<open>
  \<^verbatim>\<open>getActiveStates\<close> walks \<^verbatim>\<open>this.states\<close> in enumeration order and keeps the entries
  whose \<^verbatim>\<open>isActive()\<close> is true. Every value stored there is a State instance, whose
  \<^verbatim>\<open>isActive\<close> is an own property, so the \<^verbatim>\<open>hasOwnProperty('isActive')\<close> test is
  true for each. The result is a fresh object filled in the order of the walk; since the
  walk is already in enumeration order, so is the result.
\<close>

fun active_of :: "('h, 'w, 'z) heap_scheme \<Rightarrow> 'w \<Rightarrow> sref jsobj \<Rightarrow> error + sref jsobj" where
  "active_of h w [] = Inr []"
| "active_of h w ((i, s) # states) =
     (case State_isActive s h w of
        Inl err \<Rightarrow> Inl err
      | Inr b \<Rightarrow>
          (case active_of h w states of
             Inl err \<Rightarrow> Inl err
           | Inr activeStates \<Rightarrow> Inr (if b then (i, s) # activeStates else activeStates)))"

definition Element_getActiveStates ::
  "eref \<Rightarrow> ('h, 'w, 'z) heap_scheme \<Rightarrow> 'w \<Rightarrow> error + sref jsobj" where
  "Element_getActiveStates e h w = active_of h w (elem_states (element_heap h ! e))"

lemmas node_defs [fd_defs] =
  new_State_def new_Modifier_def new_Element_def alloc_State_def alloc_Modifier_def
  alloc_Element_def State_setElement_def State_addModifier_def Modifier_setElement_def
  Modifier_subscribe_def Element_attachState_def Element_attachModifier_def
  Element_getState_def Element_getModifier_def

section \<open>The shape of a heap\<close>

text \<open>
  An Element's two objects are well-formed, hold valid addresses, hold no instance twice,
  and every instance they hold points back to the Element.
\<close>

definition element_ok :: "('h, 'w, 'z) heap_scheme \<Rightarrow> eref \<Rightarrow> bool" where
  "element_ok h e \<longleftrightarrow>
     (let el = element_heap h ! e in
        js_wf (elem_states el) \<and> js_wf (elem_modifiers el) \<and>
        distinct (js_values (elem_states el)) \<and> distinct (js_values (elem_modifiers el)) \<and>
        list_all (\<lambda>s. s < length (state_heap h) \<and> state_element (state_heap h ! s) = Some e)
          (js_values (elem_states el)) \<and>
        list_all (\<lambda>m. m < length (modifier_heap h) \<and> mod_element (modifier_heap h ! m) = Some e)
          (js_values (elem_modifiers el)))"

text \<open>
  A State lists valid Modifiers. Until it is attached it has no subscriber; once attached
  it has a callback and is stored in its Element.
\<close>

definition state_ok :: "('h, 'w, 'z) heap_scheme \<Rightarrow> sref \<Rightarrow> bool" where
  "state_ok h s \<longleftrightarrow>
     (let st = state_heap h ! s in
        list_all (\<lambda>m. m < length (modifier_heap h)) (state_modifiers st) \<and>
        (case state_element st of
           None \<Rightarrow> state_modifiers st = []
         | Some e \<Rightarrow>
             e < length (element_heap h) \<and>
             s \<in> set (js_values (elem_states (element_heap h ! e))) \<and>
             \<not> Option.is_none (state_callback st)))"

definition modifier_ok :: "('h, 'w, 'z) heap_scheme \<Rightarrow> mref \<Rightarrow> bool" where
  "modifier_ok h m \<longleftrightarrow>
     (let md = modifier_heap h ! m in
        list_all (\<lambda>s. s < length (state_heap h)) (mod_states md) \<and>
        (case mod_element md of
           None \<Rightarrow> mod_states md = []
         | Some e \<Rightarrow>
             e < length (element_heap h) \<and>
             m \<in> set (js_values (elem_modifiers (element_heap h ! e))) \<and>
             \<not> Option.is_none (mod_callback md)))"

text \<open>
  A relationship is one edge seen from both ends: a Modifier occurs in a State's
  subscriber list exactly as often as the State occurs in the Modifier's subscription
  list.
\<close>

definition edge_ok :: "('h, 'w, 'z) heap_scheme \<Rightarrow> sref \<Rightarrow> mref \<Rightarrow> bool" where
  "edge_ok h s m \<longleftrightarrow>
     count_list (state_modifiers (state_heap h ! s)) m =
     count_list (mod_states (modifier_heap h ! m)) s"

definition heap_wf :: "('h, 'w, 'z) heap_scheme \<Rightarrow> bool" where
  "heap_wf h \<longleftrightarrow>
     list_all (element_ok h) [0..<length (element_heap h)] \<and>
     list_all (state_ok h) [0..<length (state_heap h)] \<and>
     list_all (modifier_ok h) [0..<length (modifier_heap h)] \<and>
     list_all (\<lambda>s. list_all (edge_ok h s) [0..<length (modifier_heap h)])
       [0..<length (state_heap h)]"

definition attached_state :: "('h, 'w, 'z) heap_scheme \<Rightarrow> sref \<Rightarrow> bool" where
  "attached_state h s \<longleftrightarrow> s < length (state_heap h) \<and> state_element (state_heap h ! s) \<noteq> None"

definition attached_modifier :: "('h, 'w, 'z) heap_scheme \<Rightarrow> mref \<Rightarrow> bool" where
  "attached_modifier h m \<longleftrightarrow>
     m < length (modifier_heap h) \<and> mod_element (modifier_heap h ! m) \<noteq> None"

definition fresh_state :: "('h, 'w, 'z) heap_scheme \<Rightarrow> sref \<Rightarrow> bool" where
  "fresh_state h s \<longleftrightarrow>
     s < length (state_heap h) \<and> state_element (state_heap h ! s) = None \<and>
     \<not> Option.is_none (state_callback (state_heap h ! s))"

definition fresh_modifier :: "('h, 'w, 'z) heap_scheme \<Rightarrow> mref \<Rightarrow> bool" where
  "fresh_modifier h m \<longleftrightarrow>
     m < length (modifier_heap h) \<and> mod_element (modifier_heap h ! m) = None \<and>
     \<not> Option.is_none (mod_callback (modifier_heap h ! m))"

section \<open>Frame facts: what each method writes\<close>

lemma alloc_State_frame [simp, fd_frame]:
  "fst (alloc_State st h) = length (state_heap h)"
  "state_heap (snd (alloc_State st h)) = state_heap h @ [st]"
  "modifier_heap (snd (alloc_State st h)) = modifier_heap h"
  "element_heap (snd (alloc_State st h)) = element_heap h"
  by (simp_all add: alloc_State_def)

lemma alloc_Modifier_frame [simp, fd_frame]:
  "fst (alloc_Modifier md h) = length (modifier_heap h)"
  "modifier_heap (snd (alloc_Modifier md h)) = modifier_heap h @ [md]"
  "state_heap (snd (alloc_Modifier md h)) = state_heap h"
  "element_heap (snd (alloc_Modifier md h)) = element_heap h"
  by (simp_all add: alloc_Modifier_def)

lemma alloc_Element_frame [simp, fd_frame]:
  "fst (alloc_Element el h) = length (element_heap h)"
  "element_heap (snd (alloc_Element el h)) = element_heap h @ [el]"
  "state_heap (snd (alloc_Element el h)) = state_heap h"
  "modifier_heap (snd (alloc_Element el h)) = modifier_heap h"
  by (simp_all add: alloc_Element_def)

lemma attachState_frame [simp, fd_frame]:
  "modifier_heap (Element_attachState e key s h) = modifier_heap h"
  "state_heap (Element_attachState e key s h) =
     modify s (\<lambda>st. st\<lparr>state_element := Some e\<rparr>) (state_heap h)"
  "element_heap (Element_attachState e key s h) =
     modify e (\<lambda>el. el\<lparr>elem_states := js_put key s (elem_states el)\<rparr>) (element_heap h)"
  by (simp_all add: Element_attachState_def State_setElement_def Let_def)

lemma attachModifier_frame [simp, fd_frame]:
  "state_heap (Element_attachModifier e key m h) = state_heap h"
  "modifier_heap (Element_attachModifier e key m h) =
     modify m (\<lambda>md. md\<lparr>mod_element := Some e\<rparr>) (modifier_heap h)"
  "element_heap (Element_attachModifier e key m h) =
     modify e (\<lambda>el. el\<lparr>elem_modifiers := js_put key m (elem_modifiers el)\<rparr>) (element_heap h)"
  by (simp_all add: Element_attachModifier_def Modifier_setElement_def Let_def)

lemma subscribe_frame [simp, fd_frame]:
  "element_heap (Modifier_subscribe m s h) = element_heap h"
  "state_heap (Modifier_subscribe m s h) =
     modify s (\<lambda>st. st\<lparr>state_modifiers := state_modifiers st @ [m]\<rparr>) (state_heap h)"
  "modifier_heap (Modifier_subscribe m s h) =
     modify m (\<lambda>md. md\<lparr>mod_states := mod_states md @ [s]\<rparr>) (modifier_heap h)"
  by (simp_all add: Modifier_subscribe_def State_addModifier_def Let_def)

text \<open>Attaching a State does not touch the Modifiers of any Element, and conversely.\<close>

lemma attachState_other_fields [simp, fd_frame]:
  "elem_modifiers (element_heap (Element_attachState e key s h) ! d) =
     elem_modifiers (element_heap h ! d)"
  "elem_host (element_heap (Element_attachState e key s h) ! d) = elem_host (element_heap h ! d)"
  by (simp_all add: modify_proj)

lemma attachModifier_other_fields [simp, fd_frame]:
  "elem_states (element_heap (Element_attachModifier e key m h) ! d) =
     elem_states (element_heap h ! d)"
  "elem_host (element_heap (Element_attachModifier e key m h) ! d) = elem_host (element_heap h ! d)"
  by (simp_all add: modify_proj)

lemma getModifier_attachState [simp, fd_frame]:
  "Element_getModifier d name (Element_attachState e key s h) = Element_getModifier d name h"
  by (simp add: Element_getModifier_def modify_proj)

lemma getState_attachModifier [simp, fd_frame]:
  "Element_getState d name (Element_attachModifier e key m h) = Element_getState d name h"
  by (simp add: Element_getState_def modify_proj)

lemma getState_subscribe [simp, fd_frame]:
  "Element_getState d name (Modifier_subscribe m s h) = Element_getState d name h"
  "Element_getModifier d name (Modifier_subscribe m s h) = Element_getModifier d name h"
  by (simp_all add: Element_getState_def Element_getModifier_def)

lemma getState_alloc [simp, fd_frame]:
  "Element_getState d name (snd (alloc_State st h)) = Element_getState d name h"
  "Element_getModifier d name (snd (alloc_State st h)) = Element_getModifier d name h"
  "Element_getState d name (snd (alloc_Modifier md h)) = Element_getState d name h"
  "Element_getModifier d name (snd (alloc_Modifier md h)) = Element_getModifier d name h"
  by (simp_all add: Element_getState_def Element_getModifier_def)

section \<open>The shape of a heap, with quantifiers\<close>

lemma heap_wf_iff:
  "heap_wf h \<longleftrightarrow>
     (\<forall>e < length (element_heap h). element_ok h e) \<and>
     (\<forall>s < length (state_heap h). state_ok h s) \<and>
     (\<forall>m < length (modifier_heap h). modifier_ok h m) \<and>
     (\<forall>s < length (state_heap h). \<forall>m < length (modifier_heap h). edge_ok h s m)"
  by (simp add: heap_wf_def list_all_upt_iff)

lemma element_ok_iff:
  "element_ok h e \<longleftrightarrow>
     js_wf (elem_states (element_heap h ! e)) \<and> js_wf (elem_modifiers (element_heap h ! e)) \<and>
     distinct (js_values (elem_states (element_heap h ! e))) \<and>
     distinct (js_values (elem_modifiers (element_heap h ! e))) \<and>
     (\<forall>s \<in> set (js_values (elem_states (element_heap h ! e))).
        s < length (state_heap h) \<and> state_element (state_heap h ! s) = Some e) \<and>
     (\<forall>m \<in> set (js_values (elem_modifiers (element_heap h ! e))).
        m < length (modifier_heap h) \<and> mod_element (modifier_heap h ! m) = Some e)"
  by (simp add: element_ok_def Let_def list_all_iff)

lemma state_ok_iff:
  "state_ok h s \<longleftrightarrow>
     (\<forall>m \<in> set (state_modifiers (state_heap h ! s)). m < length (modifier_heap h)) \<and>
     (state_element (state_heap h ! s) = None \<longrightarrow> state_modifiers (state_heap h ! s) = []) \<and>
     (\<forall>e. state_element (state_heap h ! s) = Some e \<longrightarrow>
        e < length (element_heap h) \<and>
        s \<in> set (js_values (elem_states (element_heap h ! e))) \<and>
        state_callback (state_heap h ! s) \<noteq> None)"
  by (auto simp: state_ok_def Let_def list_all_iff Option.is_none_def split: option.splits)

lemma modifier_ok_iff:
  "modifier_ok h m \<longleftrightarrow>
     (\<forall>s \<in> set (mod_states (modifier_heap h ! m)). s < length (state_heap h)) \<and>
     (mod_element (modifier_heap h ! m) = None \<longrightarrow> mod_states (modifier_heap h ! m) = []) \<and>
     (\<forall>e. mod_element (modifier_heap h ! m) = Some e \<longrightarrow>
        e < length (element_heap h) \<and>
        m \<in> set (js_values (elem_modifiers (element_heap h ! e))) \<and>
        mod_callback (modifier_heap h ! m) \<noteq> None)"
  by (auto simp: modifier_ok_def Let_def list_all_iff Option.is_none_def split: option.splits)

lemmas ok_iffs = element_ok_iff state_ok_iff modifier_ok_iff edge_ok_def

lemma heap_wfI:
  assumes "\<And>e. e < length (element_heap h) \<Longrightarrow> element_ok h e"
    and "\<And>s. s < length (state_heap h) \<Longrightarrow> state_ok h s"
    and "\<And>m. m < length (modifier_heap h) \<Longrightarrow> modifier_ok h m"
    and "\<And>s m. s < length (state_heap h) \<Longrightarrow> m < length (modifier_heap h) \<Longrightarrow> edge_ok h s m"
  shows "heap_wf h"
  using assms by (simp add: heap_wf_iff)

lemma heap_wf_elementD: "heap_wf h \<Longrightarrow> e < length (element_heap h) \<Longrightarrow> element_ok h e"
  by (simp add: heap_wf_iff)

lemma heap_wf_stateD: "heap_wf h \<Longrightarrow> s < length (state_heap h) \<Longrightarrow> state_ok h s"
  by (simp add: heap_wf_iff)

lemma heap_wf_modifierD: "heap_wf h \<Longrightarrow> m < length (modifier_heap h) \<Longrightarrow> modifier_ok h m"
  by (simp add: heap_wf_iff)

lemma heap_wf_edgeD:
  "heap_wf h \<Longrightarrow> s < length (state_heap h) \<Longrightarrow> m < length (modifier_heap h) \<Longrightarrow> edge_ok h s m"
  by (simp add: heap_wf_iff)

lemmas heap_wfD = heap_wf_elementD heap_wf_stateD heap_wf_modifierD heap_wf_edgeD

section \<open>Allocation keeps the shape\<close>

lemma heap_wf_alloc_State:
  assumes wf: "heap_wf h"
  shows "heap_wf (snd (alloc_State (new_State cb) h))"
proof (rule heap_wfI)
  fix e assume "e < length (element_heap (snd (alloc_State (new_State cb) h)))"
  then show "element_ok (snd (alloc_State (new_State cb) h)) e"
    using heap_wf_elementD [OF wf, of e] by (auto simp: element_ok_iff nth_append)
next
  fix s assume "s < length (state_heap (snd (alloc_State (new_State cb) h)))"
  then show "state_ok (snd (alloc_State (new_State cb) h)) s"
    using heap_wf_stateD [OF wf, of s]
    by (cases "s = length (state_heap h)") (auto simp: state_ok_iff nth_append new_State_def)
next
  fix m assume "m < length (modifier_heap (snd (alloc_State (new_State cb) h)))"
  then show "modifier_ok (snd (alloc_State (new_State cb) h)) m"
    using heap_wf_modifierD [OF wf, of m] by (auto simp: modifier_ok_iff nth_append less_Suc_eq)
next
  fix s m
  assume "s < length (state_heap (snd (alloc_State (new_State cb) h)))"
    and "m < length (modifier_heap (snd (alloc_State (new_State cb) h)))"
  then show "edge_ok (snd (alloc_State (new_State cb) h)) s m"
    using heap_wf_modifierD [OF wf, of m] heap_wf_edgeD [OF wf, of s m]
    by (cases "s = length (state_heap h)")
      (auto simp: edge_ok_def modifier_ok_iff nth_append new_State_def count_list_0_iff)
qed

lemma heap_wf_alloc_Modifier:
  assumes wf: "heap_wf h"
  shows "heap_wf (snd (alloc_Modifier (new_Modifier cb) h))"
proof (rule heap_wfI)
  fix e assume "e < length (element_heap (snd (alloc_Modifier (new_Modifier cb) h)))"
  then show "element_ok (snd (alloc_Modifier (new_Modifier cb) h)) e"
    using heap_wf_elementD [OF wf, of e] by (auto simp: element_ok_iff nth_append)
next
  fix s assume "s < length (state_heap (snd (alloc_Modifier (new_Modifier cb) h)))"
  then show "state_ok (snd (alloc_Modifier (new_Modifier cb) h)) s"
    using heap_wf_stateD [OF wf, of s] by (auto simp: state_ok_iff nth_append less_Suc_eq)
next
  fix m assume "m < length (modifier_heap (snd (alloc_Modifier (new_Modifier cb) h)))"
  then show "modifier_ok (snd (alloc_Modifier (new_Modifier cb) h)) m"
    using heap_wf_modifierD [OF wf, of m]
    by (cases "m = length (modifier_heap h)")
      (auto simp: modifier_ok_iff nth_append new_Modifier_def)
next
  fix s m
  assume "s < length (state_heap (snd (alloc_Modifier (new_Modifier cb) h)))"
    and "m < length (modifier_heap (snd (alloc_Modifier (new_Modifier cb) h)))"
  then show "edge_ok (snd (alloc_Modifier (new_Modifier cb) h)) s m"
    using heap_wf_stateD [OF wf, of s] heap_wf_edgeD [OF wf, of s m]
    by (cases "m = length (modifier_heap h)")
      (auto simp: edge_ok_def state_ok_iff nth_append new_Modifier_def count_list_0_iff)
qed

lemma heap_wf_alloc_Element:
  assumes wf: "heap_wf h"
  shows "heap_wf (snd (alloc_Element (new_Element host) h))"
proof (rule heap_wfI)
  fix e assume "e < length (element_heap (snd (alloc_Element (new_Element host) h)))"
  then show "element_ok (snd (alloc_Element (new_Element host) h)) e"
    using heap_wf_elementD [OF wf, of e]
    by (cases "e = length (element_heap h)")
      (auto simp: element_ok_iff nth_append new_Element_def js_values_def js_empty_def)
next
  fix s assume "s < length (state_heap (snd (alloc_Element (new_Element host) h)))"
  then show "state_ok (snd (alloc_Element (new_Element host) h)) s"
    using heap_wf_stateD [OF wf, of s] by (auto simp: state_ok_iff nth_append)
next
  fix m assume "m < length (modifier_heap (snd (alloc_Element (new_Element host) h)))"
  then show "modifier_ok (snd (alloc_Element (new_Element host) h)) m"
    using heap_wf_modifierD [OF wf, of m] by (auto simp: modifier_ok_iff nth_append)
next
  fix s m
  assume "s < length (state_heap (snd (alloc_Element (new_Element host) h)))"
    and "m < length (modifier_heap (snd (alloc_Element (new_Element host) h)))"
  then show "edge_ok (snd (alloc_Element (new_Element host) h)) s m"
    using heap_wf_edgeD [OF wf, of s m] by (simp add: edge_ok_def)
qed

section \<open>Attaching and subscribing keep the shape\<close>

lemma fresh_state_not_stored:
  assumes wf: "heap_wf h" and fr: "fresh_state h s" and e: "e < length (element_heap h)"
  shows "s \<notin> set (js_values (elem_states (element_heap h ! e)))"
  using heap_wf_elementD [OF wf e] fr by (auto simp: element_ok_iff fresh_state_def)

lemma heap_wf_attachState:
  assumes wf: "heap_wf h" and e: "e < length (element_heap h)" and fr: "fresh_state h s"
    and key: "falsy (Element_getState e key h)"
  shows "heap_wf (Element_attachState e key s h)"
proof (rule heap_wfI)
  let ?h = "Element_attachState e key s h"
  have put: "js_put key s (elem_states (element_heap h ! e)) =
      js_insert key s (elem_states (element_heap h ! e))"
    using key by (simp add: Element_getState_def js_put_new)
  have s: "s < length (state_heap h)" "state_element (state_heap h ! s) = None"
    "state_callback (state_heap h ! s) \<noteq> None"
    using fr by (auto simp: fresh_state_def Option.is_none_def)
  note notin = fresh_state_not_stored [OF wf fr]
  { fix e' assume e': "e' < length (element_heap ?h)"
    show "element_ok ?h e'"
      using heap_wf_elementD [OF wf, of e'] e' e s notin [of e'] key
      by (cases "e' = e")
        (auto simp: element_ok_iff nth_modify put distinct_js_values_insert js_wf_insert
          Element_getState_def falsy_js_get falsy_not_proto) }
  { fix s' assume s': "s' < length (state_heap ?h)"
    show "state_ok ?h s'"
      using heap_wf_stateD [OF wf, of s'] s' e s
      by (cases "s' = s") (auto simp: state_ok_iff nth_modify put) }
  { fix m assume m: "m < length (modifier_heap ?h)"
    show "modifier_ok ?h m"
      using heap_wf_modifierD [OF wf, of m] m
      by (auto simp: modifier_ok_iff nth_modify) }
  { fix s' m assume "s' < length (state_heap ?h)" "m < length (modifier_heap ?h)"
    then show "edge_ok ?h s' m"
      using heap_wf_edgeD [OF wf, of s' m] by (auto simp: edge_ok_def nth_modify) }
qed


lemma fresh_modifier_not_stored:
  assumes wf: "heap_wf h" and fr: "fresh_modifier h m" and e: "e < length (element_heap h)"
  shows "m \<notin> set (js_values (elem_modifiers (element_heap h ! e)))"
  using heap_wf_elementD [OF wf e] fr by (auto simp: element_ok_iff fresh_modifier_def)

lemma heap_wf_attachModifier:
  assumes wf: "heap_wf h" and e: "e < length (element_heap h)" and fr: "fresh_modifier h m"
    and key: "falsy (Element_getModifier e key h)"
  shows "heap_wf (Element_attachModifier e key m h)"
proof (rule heap_wfI)
  let ?h = "Element_attachModifier e key m h"
  have put: "js_put key m (elem_modifiers (element_heap h ! e)) =
      js_insert key m (elem_modifiers (element_heap h ! e))"
    using key by (simp add: Element_getModifier_def js_put_new)
  have m: "m < length (modifier_heap h)" "mod_element (modifier_heap h ! m) = None"
    "mod_callback (modifier_heap h ! m) \<noteq> None"
    using fr by (auto simp: fresh_modifier_def Option.is_none_def)
  note notin = fresh_modifier_not_stored [OF wf fr]
  { fix e' assume e': "e' < length (element_heap ?h)"
    show "element_ok ?h e'"
      using heap_wf_elementD [OF wf, of e'] e' e m notin [of e'] key
      by (cases "e' = e")
        (auto simp: element_ok_iff nth_modify put distinct_js_values_insert js_wf_insert
          Element_getModifier_def falsy_js_get falsy_not_proto) }
  { fix s assume s: "s < length (state_heap ?h)"
    show "state_ok ?h s"
      using heap_wf_stateD [OF wf, of s] s
      by (auto simp: state_ok_iff nth_modify) }
  { fix m' assume m': "m' < length (modifier_heap ?h)"
    show "modifier_ok ?h m'"
      using heap_wf_modifierD [OF wf, of m'] m' e m
      by (cases "m' = m") (auto simp: modifier_ok_iff nth_modify put) }
  { fix s m' assume "s < length (state_heap ?h)" "m' < length (modifier_heap ?h)"
    then show "edge_ok ?h s m'"
      using heap_wf_edgeD [OF wf, of s m'] by (auto simp: edge_ok_def nth_modify) }
qed

text \<open>
  \<^verbatim>\<open>subscribe\<close> writes both ends of the edge, so the two occurrence counts grow
  together.
\<close>

lemma heap_wf_subscribe:
  assumes wf: "heap_wf h" and s: "attached_state h s" and m: "attached_modifier h m"
  shows "heap_wf (Modifier_subscribe m s h)"
proof (rule heap_wfI)
  let ?h = "Modifier_subscribe m s h"
  have sl: "s < length (state_heap h)" and ml: "m < length (modifier_heap h)"
    using s m by (auto simp: attached_state_def attached_modifier_def)
  { fix e assume "e < length (element_heap ?h)"
    then show "element_ok ?h e"
      using heap_wf_elementD [OF wf, of e] by (auto simp: element_ok_iff nth_modify) }
  { fix s' assume "s' < length (state_heap ?h)"
    then show "state_ok ?h s'"
      using heap_wf_stateD [OF wf, of s'] s ml
      by (cases "s' = s") (auto simp: state_ok_iff nth_modify attached_state_def) }
  { fix m' assume "m' < length (modifier_heap ?h)"
    then show "modifier_ok ?h m'"
      using heap_wf_modifierD [OF wf, of m'] m sl
      by (cases "m' = m") (auto simp: modifier_ok_iff nth_modify attached_modifier_def) }
  { fix s' m' assume "s' < length (state_heap ?h)" "m' < length (modifier_heap ?h)"
    then show "edge_ok ?h s' m'"
      using heap_wf_edgeD [OF wf, of s' m'] by (auto simp: edge_ok_def nth_modify) }
qed

section \<open>What attaching and subscribing establish\<close>

lemma getState_attachState:
  "e < length (element_heap h) \<Longrightarrow> falsy (Element_getState e key h) \<Longrightarrow>
   Element_getState e key (Element_attachState e key s h) = Own s"
  by (simp add: Element_getState_def js_get_put_new)

lemma getModifier_attachModifier:
  "e < length (element_heap h) \<Longrightarrow> falsy (Element_getModifier e key h) \<Longrightarrow>
   Element_getModifier e key (Element_attachModifier e key m h) = Own m"
  by (simp add: Element_getModifier_def js_get_put_new)

lemma attached_state_attachState:
  "s < length (state_heap h) \<Longrightarrow> attached_state (Element_attachState e key s h) s"
  by (simp add: attached_state_def)

lemma attached_modifier_attachModifier:
  "m < length (modifier_heap h) \<Longrightarrow> attached_modifier (Element_attachModifier e key m h) m"
  by (simp add: attached_modifier_def)

lemma fresh_state_alloc: "fresh_state (snd (alloc_State (new_State (Some cb)) h)) (length (state_heap h))"
  by (simp add: fresh_state_def new_State_def)

lemma fresh_modifier_alloc:
  "fresh_modifier (snd (alloc_Modifier (new_Modifier (Some cb)) h)) (length (modifier_heap h))"
  by (simp add: fresh_modifier_def new_Modifier_def)

text \<open>In a well-formed heap whatever an Element stores is attached to it.\<close>

lemma stored_state_attached:
  "heap_wf h \<Longrightarrow> e < length (element_heap h) \<Longrightarrow> Element_getState e key h = Own s \<Longrightarrow>
   attached_state h s \<and> state_element (state_heap h ! s) = Some e"
  by (auto simp: Element_getState_def js_get_Own_iff attached_state_def element_ok_iff
      dest!: heap_wf_elementD js_own_Some_value)

lemma stored_modifier_attached:
  "heap_wf h \<Longrightarrow> e < length (element_heap h) \<Longrightarrow> Element_getModifier e key h = Own m \<Longrightarrow>
   attached_modifier h m \<and> mod_element (modifier_heap h ! m) = Some e"
  by (auto simp: Element_getModifier_def js_get_Own_iff attached_modifier_def element_ok_iff
      dest!: heap_wf_elementD js_own_Some_value)

text \<open>The edge \<^verbatim>\<open>subscribe\<close> adds, seen from each end.\<close>

lemma subscribe_state_modifiers:
  "s < length (state_heap h) \<Longrightarrow>
   state_modifiers (state_heap (Modifier_subscribe m s h) ! s) =
     state_modifiers (state_heap h ! s) @ [m]"
  by simp

lemma subscribe_mod_states:
  "m < length (modifier_heap h) \<Longrightarrow>
   mod_states (modifier_heap (Modifier_subscribe m s h) ! m) =
     mod_states (modifier_heap h ! m) @ [s]"
  by simp

section \<open>The shape depends on the three arenas only\<close>

lemma ok_cong:
  assumes "element_heap h' = element_heap h" "state_heap h' = state_heap h"
    "modifier_heap h' = modifier_heap h"
  shows "element_ok h' = element_ok h" "state_ok h' = state_ok h"
    "modifier_ok h' = modifier_ok h" "edge_ok h' = edge_ok h"
  using assms by (simp_all add: fun_eq_iff element_ok_iff state_ok_iff modifier_ok_iff edge_ok_def)

lemma heap_wf_cong:
  "element_heap h' = element_heap h \<Longrightarrow> state_heap h' = state_heap h \<Longrightarrow>
   modifier_heap h' = modifier_heap h \<Longrightarrow> heap_wf h' = heap_wf h"
  using ok_cong [of h' h] by (simp add: heap_wf_def)

section \<open>Both ends of an edge are attached\<close>

lemma subscribed_state_attached:
  assumes wf: "heap_wf h" and m: "m < length (modifier_heap h)"
    and s: "s \<in> set (mod_states (modifier_heap h ! m))"
  shows "attached_state h s"
proof -
  from heap_wf_modifierD [OF wf m] s have sl: "s < length (state_heap h)"
    by (auto simp: modifier_ok_iff)
  from s have "0 < count_list (mod_states (modifier_heap h ! m)) s"
    by (simp add: count_list_pos_iff)
  with heap_wf_edgeD [OF wf sl m] have "state_modifiers (state_heap h ! s) \<noteq> []"
    by (auto simp: edge_ok_def)
  with heap_wf_stateD [OF wf sl] sl show ?thesis
    by (auto simp: state_ok_iff attached_state_def)
qed

lemma subscribed_modifier_attached:
  assumes wf: "heap_wf h" and s: "s < length (state_heap h)"
    and m: "m \<in> set (state_modifiers (state_heap h ! s))"
  shows "attached_modifier h m"
proof -
  from heap_wf_stateD [OF wf s] m have ml: "m < length (modifier_heap h)"
    by (auto simp: state_ok_iff)
  from m have "0 < count_list (state_modifiers (state_heap h ! s)) m"
    by (simp add: count_list_pos_iff)
  with heap_wf_edgeD [OF wf s ml] have "mod_states (modifier_heap h ! m) \<noteq> []"
    by (auto simp: edge_ok_def)
  with heap_wf_modifierD [OF wf ml] ml show ?thesis
    by (auto simp: modifier_ok_iff attached_modifier_def)
qed

lemma attached_state_subscribe:
  "attached_state h s' \<Longrightarrow> attached_state (Modifier_subscribe m s h) s'"
  by (auto simp: attached_state_def nth_modify)

lemma attached_modifier_subscribe:
  "attached_modifier h m' \<Longrightarrow> attached_modifier (Modifier_subscribe m s h) m'"
  by (auto simp: attached_modifier_def nth_modify)

section \<open>The order in which the States of an Element are visited\<close>

text \<open>Attaching one State after the other, as successive calls of attachState do.\<close>

definition attach_all ::
  "eref \<Rightarrow> (name \<times> sref) list \<Rightarrow> ('h, 'w, 'z) heap_scheme \<Rightarrow> ('h, 'w, 'z) heap_scheme" where
  "attach_all e kss h = fold (\<lambda>p. Element_attachState e (fst p) (snd p)) kss h"

lemma attach_all_snoc:
  "attach_all e (kss @ [p]) h = Element_attachState e (fst p) (snd p) (attach_all e kss h)"
  by (simp add: attach_all_def)

lemma attach_all_length [simp]: "length (element_heap (attach_all e kss h)) = length (element_heap h)"
  by (induction kss rule: rev_induct) (simp_all add: attach_all_snoc attach_all_def)

lemma elem_states_attachState:
  "e < length (element_heap h) \<Longrightarrow>
   elem_states (element_heap (Element_attachState e k s h) ! e) =
     js_put k s (elem_states (element_heap h ! e))"
  by (simp add: Element_attachState_def State_setElement_def Let_def)

lemma active_of_Inr_filter:
  "active_of h w obj = Inr act \<Longrightarrow>
   act = filter (\<lambda>p. State_isActive (snd p) h w = Inr True) obj"
  by (induction h w obj arbitrary: act rule: active_of.induct)
    (auto split: sum.splits if_splits)

lemma attach_all_keys:
  assumes "e < length (element_heap h)" and "elem_states (element_heap h ! e) = js_empty"
  shows "js_keys (elem_states (element_heap (attach_all e kss h) ! e)) =
     own_property_keys (map fst kss)"
proof (induction kss rule: rev_induct)
  case Nil
  from assms(2) show ?case
    by (simp add: attach_all_def js_keys_def js_empty_def)
next
  case (snoc p kss)
  from js_keys_put_step [OF snoc.IH] assms(1) show ?case
    by (simp add: attach_all_snoc elem_states_attachState)
qed


text \<open>
  C14. The order of the fan-out. When States are attached to a fresh Element one after the
  other, the Element enumerates them, and so its change handler visits the active ones,
  in the order of the language and not in the order of attachment: States whose names are
  array indices come first, in ascending order, and the others follow by first attachment.
\<close>

theorem active_states_order:
  assumes "e < length (element_heap h)" and "elem_states (element_heap h ! e) = js_empty"
  shows "js_keys (elem_states (element_heap (attach_all e kss h) ! e)) =
       own_property_keys (map fst kss) \<and>
     (case Element_getActiveStates e (attach_all e kss h) w of
        Inl err \<Rightarrow> True
      | Inr act \<Rightarrow>
          act = filter (\<lambda>p. State_isActive (snd p) (attach_all e kss h) w = Inr True)
                  (elem_states (element_heap (attach_all e kss h) ! e)))"
  using attach_all_keys [OF assms]
  by (auto simp: Element_getActiveStates_def split: sum.splits dest: active_of_Inr_filter)

definition ex_two_states :: "(string, unit) heap" where
  "ex_two_states =
     \<lparr>element_heap = [new_Element ''field''],
      state_heap = [new_State (Some (\<lambda>host page. True)), new_State (Some (\<lambda>host page. True))],
      modifier_heap = []\<rparr>"

lemma ex_two_states_active:
  "Element_getActiveStates 0 (attach_all 0 [(''b'', 0), (''2'', 1)] ex_two_states) () =
     Inr [(''2'', 1), (''b'', 0)]"
  by code_simp

theorem active_states_order_witness:
  "Element_getActiveStates 0 (attach_all 0 [(''b'', 0), (''2'', 1)] ex_two_states) () =
     Inr [(''2'', 1), (''b'', 0)] \<and>
   js_keys (elem_states (element_heap (attach_all 0 [(''b'', 0), (''2'', 1)] ex_two_states) ! 0)) =
     own_property_keys [''b'', ''2'']"
  using active_states_order [of 0 ex_two_states "[(''b'', 0), (''2'', 1)]" "()"]
    ex_two_states_active
  by (simp add: ex_two_states_def new_Element_def)

end
