(* ===== verification/Registry.thy ===== *)
theory Registry
  imports Nodes
begin

text \<open>
  The three key/object stores of \<^verbatim>\<open>src/field-dependencies.js\<close> and the state of the
  module as a whole. \<^verbatim>\<open>statesContainer\<close> and \<^verbatim>\<open>modifiersContainer\<close> hold the templates
  that \<^verbatim>\<open>addState\<close> and \<^verbatim>\<open>addModifier\<close> register; \<^verbatim>\<open>get\<close> clones a template into a
  new instance. \<^verbatim>\<open>elementsContainer\<close> resolves a host reference to the one Element of
  its key. All three, the key callback and the heap are fields of the record \<open>engine\<close>:
  the module keeps them in variables that live as long as the page does.

  A template is referenced by its container only, so the container holds it by value.
  The key callback returns a string or \<^verbatim>\<open>undefined\<close> (\<open>None\<close>), which a property
  access turns into the name \<^verbatim>\<open>"undefined"\<close>.
\<close>

section \<open>The state of the module\<close>

record ('h, 'w) engine = "('h, 'w) heap" +
  statesContainer :: "('h, 'w) State jsobj"
  modifiersContainer :: "('h, 'w) Modifier jsobj"
  getElementKey :: "'h \<Rightarrow> name option"
  elements :: "eref jsobj"

definition to_key :: "name option \<Rightarrow> name" where
  "to_key v = (case v of None \<Rightarrow> ''undefined'' | Some s \<Rightarrow> s)"

text \<open>
  The module as it is after the script has run: empty stores, and the default key
  callback, which reads the \<^verbatim>\<open>id\<close> attribute of the host (the parameter \<open>attr_id\<close>).
\<close>

definition FieldDependencies_init :: "('h \<Rightarrow> name option) \<Rightarrow> ('h, 'w) engine" where
  "FieldDependencies_init attr_id =
     \<lparr>element_heap = [], state_heap = [], modifier_heap = [],
      statesContainer = js_empty, modifiersContainer = js_empty,
      getElementKey = attr_id, elements = js_empty\<rparr>"

section \<open>statesContainer and modifiersContainer\<close>

definition statesContainer_add ::
  "name \<Rightarrow> ('h, 'w) State \<Rightarrow> ('h, 'w) engine \<Rightarrow> ('h, 'w) engine" where
  "statesContainer_add key state eng = eng\<lparr>statesContainer := js_put key state (statesContainer eng)\<rparr>"

text \<open>
  \<^verbatim>\<open>get\<close> reads \<^verbatim>\<open>this.states[key]\<close> and then its \<^verbatim>\<open>callback\<close>. With no template of
  that name the first read gives \<^verbatim>\<open>undefined\<close> and the second throws. A name inherited
  from \<^verbatim>\<open>Object.prototype\<close> gives a value that has no \<^verbatim>\<open>callback\<close>; the clone is made
  with an undefined callback.
\<close>

definition statesContainer_get :: "name \<Rightarrow> ('h, 'w) engine \<Rightarrow> (sref, ('h, 'w) engine) result" where
  "statesContainer_get key eng =
     (case js_get (statesContainer eng) key of
        Undefined \<Rightarrow> Inl (TypeError ReadOfUndefined, eng)
      | Own state \<Rightarrow> Inr (alloc_State (new_State (state_callback state)) eng)
      | Inherited \<Rightarrow> Inr (alloc_State (new_State None) eng))"

definition modifiersContainer_add ::
  "name \<Rightarrow> ('h, 'w) Modifier \<Rightarrow> ('h, 'w) engine \<Rightarrow> ('h, 'w) engine" where
  "modifiersContainer_add key modifier eng =
     eng\<lparr>modifiersContainer := js_put key modifier (modifiersContainer eng)\<rparr>"

definition modifiersContainer_get :: "name \<Rightarrow> ('h, 'w) engine \<Rightarrow> (mref, ('h, 'w) engine) result" where
  "modifiersContainer_get key eng =
     (case js_get (modifiersContainer eng) key of
        Undefined \<Rightarrow> Inl (TypeError ReadOfUndefined, eng)
      | Own modifier \<Rightarrow> Inr (alloc_Modifier (new_Modifier (mod_callback modifier)) eng)
      | Inherited \<Rightarrow> Inr (alloc_Modifier (new_Modifier None) eng))"

section \<open>elementsContainer\<close>

text \<open>
  \<^verbatim>\<open>get\<close> calls \<^verbatim>\<open>this.elements.hasOwnProperty(key)\<close>. The method is looked up on the
  store itself first: once an Element is stored under the key \<^verbatim>\<open>"hasOwnProperty"\<close>, the
  lookup finds that Element and the call throws.
\<close>

definition elementsContainer_get :: "'h \<Rightarrow> ('h, 'w) engine \<Rightarrow> error + eref option" where
  "elementsContainer_get host eng =
     (let key = to_key (getElementKey eng host) in
        if hasOwnProperty (elements eng) ''hasOwnProperty'' then Inl (TypeError NotCallable)
        else if hasOwnProperty (elements eng) key then Inr (js_own (elements eng) key)
        else Inr None)"

definition elementsContainer_resolve :: "'h \<Rightarrow> ('h, 'w) engine \<Rightarrow> (eref, ('h, 'w) engine) result" where
  "elementsContainer_resolve host eng =
     (case elementsContainer_get host eng of
        Inl err \<Rightarrow> Inl (err, eng)
      | Inr (Some element) \<Rightarrow> Inr (element, eng)
      | Inr None \<Rightarrow>
          (let key = to_key (getElementKey eng host);
               (element, eng1) = alloc_Element (new_Element host) eng
           in Inr (element, eng1\<lparr>elements := js_put key element (elements eng1)\<rparr>)))"

section \<open>The public operations on the stores\<close>

definition addState :: "name \<Rightarrow> ('h \<Rightarrow> 'w \<Rightarrow> bool) \<Rightarrow> ('h, 'w) engine \<Rightarrow> ('h, 'w) engine" where
  "addState name callback eng = statesContainer_add name (new_State (Some callback)) eng"

definition addModifier :: "name \<Rightarrow> ('h \<Rightarrow> 'w \<Rightarrow> 'w) \<Rightarrow> ('h, 'w) engine \<Rightarrow> ('h, 'w) engine" where
  "addModifier name callback eng = modifiersContainer_add name (new_Modifier (Some callback)) eng"

definition setElementKeyCallback :: "('h \<Rightarrow> name option) \<Rightarrow> ('h, 'w) engine \<Rightarrow> ('h, 'w) engine" where
  "setElementKeyCallback callback eng = eng\<lparr>getElementKey := callback\<rparr>"

lemmas registry_defs [fd_defs] =
  statesContainer_add_def statesContainer_get_def modifiersContainer_add_def
  modifiersContainer_get_def elementsContainer_get_def elementsContainer_resolve_def
  addState_def addModifier_def setElementKeyCallback_def

section \<open>The shape of the stores\<close>

definition state_template_ok :: "('h, 'w) State \<Rightarrow> bool" where
  "state_template_ok st \<longleftrightarrow>
     state_element st = None \<and> state_modifiers st = [] \<and> \<not> Option.is_none (state_callback st)"

definition modifier_template_ok :: "('h, 'w) Modifier \<Rightarrow> bool" where
  "modifier_template_ok md \<longleftrightarrow>
     mod_element md = None \<and> mod_states md = [] \<and> \<not> Option.is_none (mod_callback md)"

definition templates_ok :: "('h, 'w) engine \<Rightarrow> bool" where
  "templates_ok eng \<longleftrightarrow>
     js_wf (statesContainer eng) \<and> js_wf (modifiersContainer eng) \<and>
     list_all state_template_ok (js_values (statesContainer eng)) \<and>
     list_all modifier_template_ok (js_values (modifiersContainer eng))"

text \<open>
  The Element store holds valid addresses and no Element twice: one key, one Element.
\<close>

definition registry_ok :: "('h, 'w) engine \<Rightarrow> bool" where
  "registry_ok eng \<longleftrightarrow>
     js_wf (elements eng) \<and> distinct (js_values (elements eng)) \<and>
     list_all (\<lambda>e. e < length (element_heap eng)) (js_values (elements eng))"

text \<open>
  A name under which an Element stores an instance is never a name of
  \<^verbatim>\<open>Object.prototype\<close>, and a template of that name is registered.
\<close>

definition element_names_ok :: "('h, 'w) engine \<Rightarrow> 'h Element \<Rightarrow> bool" where
  "element_names_ok eng el \<longleftrightarrow>
     list_all (\<lambda>k. k \<notin> set object_prototype_keys \<and> hasOwnProperty (statesContainer eng) k)
       (js_keys (elem_states el)) \<and>
     list_all (\<lambda>k. k \<notin> set object_prototype_keys \<and> hasOwnProperty (modifiersContainer eng) k)
       (js_keys (elem_modifiers el))"

definition names_ok :: "('h, 'w) engine \<Rightarrow> bool" where
  "names_ok eng \<longleftrightarrow> list_all (element_names_ok eng) (element_heap eng)"

definition engine_wf :: "('h, 'w) engine \<Rightarrow> bool" where
  "engine_wf eng \<longleftrightarrow> heap_wf eng \<and> registry_ok eng \<and> templates_ok eng \<and> names_ok eng"

lemma engine_wfD:
  assumes "engine_wf eng"
  shows "heap_wf eng" and "registry_ok eng" and "templates_ok eng" and "names_ok eng"
  using assms by (simp_all add: engine_wf_def)

lemma names_ok_iff:
  "names_ok eng \<longleftrightarrow>
     (\<forall>e < length (element_heap eng).
        (\<forall>k. hasOwnProperty (elem_states (element_heap eng ! e)) k \<longrightarrow>
           k \<notin> set object_prototype_keys \<and> hasOwnProperty (statesContainer eng) k) \<and>
        (\<forall>k. hasOwnProperty (elem_modifiers (element_heap eng ! e)) k \<longrightarrow>
           k \<notin> set object_prototype_keys \<and> hasOwnProperty (modifiersContainer eng) k))"
proof -
  have "names_ok eng \<longleftrightarrow>
      (\<forall>e < length (element_heap eng). element_names_ok eng (element_heap eng ! e))"
    by (simp add: names_ok_def list_all_length)
  then show ?thesis
    by (auto simp: element_names_ok_def list_all_iff hasOwnProperty_iff)
qed

lemma names_ok_stateD:
  assumes "names_ok eng" and "e < length (element_heap eng)"
    and "hasOwnProperty (elem_states (element_heap eng ! e)) k"
  shows "k \<notin> set object_prototype_keys" and "hasOwnProperty (statesContainer eng) k"
  using assms by (simp_all add: names_ok_iff)

lemma names_ok_modifierD:
  assumes "names_ok eng" and "e < length (element_heap eng)"
    and "hasOwnProperty (elem_modifiers (element_heap eng ! e)) k"
  shows "k \<notin> set object_prototype_keys" and "hasOwnProperty (modifiersContainer eng) k"
  using assms by (simp_all add: names_ok_iff)

lemma names_ok_cong:
  "element_heap eng' = element_heap eng \<Longrightarrow> statesContainer eng' = statesContainer eng \<Longrightarrow>
   modifiersContainer eng' = modifiersContainer eng \<Longrightarrow> names_ok eng' = names_ok eng"
  by (simp add: names_ok_iff)

section \<open>The heap does not see the stores\<close>

lemma heap_wf_store_update [simp]:
  "heap_wf (eng\<lparr>statesContainer := sc\<rparr>) = heap_wf eng"
  "heap_wf (eng\<lparr>modifiersContainer := mc\<rparr>) = heap_wf eng"
  "heap_wf (eng\<lparr>getElementKey := f\<rparr>) = heap_wf eng"
  "heap_wf (eng\<lparr>elements := els\<rparr>) = heap_wf eng"
  by (rule heap_wf_cong; simp)+

section \<open>The initial module and the template stores\<close>

lemma engine_wf_init: "engine_wf (FieldDependencies_init attr_id)"
  by (simp add: engine_wf_def FieldDependencies_init_def heap_wf_def registry_ok_def
      templates_ok_def names_ok_def js_values_def js_empty_def)

lemma engine_wf_addState: "engine_wf eng \<Longrightarrow> engine_wf (addState name callback eng)"
  using js_values_put_subset [of name "new_State (Some callback)" "statesContainer eng"]
  by (auto simp: engine_wf_def addState_def statesContainer_add_def registry_ok_def
      templates_ok_def names_ok_iff list_all_iff state_template_ok_def new_State_def)

lemma engine_wf_addModifier: "engine_wf eng \<Longrightarrow> engine_wf (addModifier name callback eng)"
  using js_values_put_subset [of name "new_Modifier (Some callback)" "modifiersContainer eng"]
  by (auto simp: engine_wf_def addModifier_def modifiersContainer_add_def registry_ok_def
      templates_ok_def names_ok_iff list_all_iff modifier_template_ok_def new_Modifier_def)

lemma engine_wf_setElementKeyCallback:
  "engine_wf eng \<Longrightarrow> engine_wf (setElementKeyCallback callback eng)"
  by (simp add: engine_wf_def setElementKeyCallback_def registry_ok_def templates_ok_def
      names_ok_iff)

text \<open>Registering a template is last-write-wins, and reading it back clones its callback.\<close>

lemma statesContainer_get_addState:
  "name \<noteq> ''__proto__'' \<Longrightarrow>
   statesContainer_get name (addState name callback eng) =
     Inr (alloc_State (new_State (Some callback)) (addState name callback eng))"
  by (simp add: statesContainer_get_def addState_def statesContainer_add_def js_get_put_same
      new_State_def)

lemma statesContainer_get_Undefined:
  "js_get (statesContainer eng) name = Undefined \<Longrightarrow>
   statesContainer_get name eng = Throw (TypeError ReadOfUndefined) eng"
  by (simp add: statesContainer_get_def)

lemma statesContainer_get_Own:
  "js_get (statesContainer eng) name = Own st \<Longrightarrow>
   statesContainer_get name eng = Inr (alloc_State (new_State (state_callback st)) eng)"
  by (simp add: statesContainer_get_def)

lemma modifiersContainer_get_Undefined:
  "js_get (modifiersContainer eng) name = Undefined \<Longrightarrow>
   modifiersContainer_get name eng = Throw (TypeError ReadOfUndefined) eng"
  by (simp add: modifiersContainer_get_def)

lemma modifiersContainer_get_Own:
  "js_get (modifiersContainer eng) name = Own md \<Longrightarrow>
   modifiersContainer_get name eng = Inr (alloc_Modifier (new_Modifier (mod_callback md)) eng)"
  by (simp add: modifiersContainer_get_def)

lemma state_template_callback:
  "templates_ok eng \<Longrightarrow> js_get (statesContainer eng) name = Own st \<Longrightarrow>
   \<exists>cb. state_callback st = Some cb"
  by (auto simp: templates_ok_def list_all_iff state_template_ok_def js_get_Own_iff
      Option.is_none_def dest!: js_own_Some_value)

lemma modifier_template_callback:
  "templates_ok eng \<Longrightarrow> js_get (modifiersContainer eng) name = Own md \<Longrightarrow>
   \<exists>cb. mod_callback md = Some cb"
  by (auto simp: templates_ok_def list_all_iff modifier_template_ok_def js_get_Own_iff
      Option.is_none_def dest!: js_own_Some_value)

text \<open>
  For a name that is not inherited, \<^verbatim>\<open>get\<close> either throws and changes nothing, or
  appends one unattached instance that has a callback.
\<close>

lemma statesContainer_get_cases:
  assumes "engine_wf eng" and "name \<notin> set object_prototype_keys"
  obtains (unknown) "js_get (statesContainer eng) name = Undefined"
      "statesContainer_get name eng = Throw (TypeError ReadOfUndefined) eng"
    | (known) cb where "hasOwnProperty (statesContainer eng) name"
      "statesContainer_get name eng = Inr (alloc_State (new_State (Some cb)) eng)"
proof (cases "js_get (statesContainer eng) name")
  case (Own st)
  with assms(1) obtain cb where "state_callback st = Some cb"
    using state_template_callback [of eng name st] by (auto simp: engine_wf_def)
  with Own show ?thesis
    by (auto intro: known simp: statesContainer_get_Own js_get_Own_iff hasOwnProperty_def js_own_def)
next
  case Inherited
  with assms(2) show ?thesis by (simp add: js_get_Inherited_iff)
next
  case Undefined
  then show ?thesis by (auto intro: unknown simp: statesContainer_get_Undefined)
qed

lemma modifiersContainer_get_cases:
  assumes "engine_wf eng" and "name \<notin> set object_prototype_keys"
  obtains (unknown) "js_get (modifiersContainer eng) name = Undefined"
      "modifiersContainer_get name eng = Throw (TypeError ReadOfUndefined) eng"
    | (known) cb where "hasOwnProperty (modifiersContainer eng) name"
      "modifiersContainer_get name eng = Inr (alloc_Modifier (new_Modifier (Some cb)) eng)"
proof (cases "js_get (modifiersContainer eng) name")
  case (Own md)
  with assms(1) obtain cb where "mod_callback md = Some cb"
    using modifier_template_callback [of eng name md] by (auto simp: engine_wf_def)
  with Own show ?thesis
    by (auto intro: known
        simp: modifiersContainer_get_Own js_get_Own_iff hasOwnProperty_def js_own_def)
next
  case Inherited
  with assms(2) show ?thesis by (simp add: js_get_Inherited_iff)
next
  case Undefined
  then show ?thesis by (auto intro: unknown simp: modifiersContainer_get_Undefined)
qed

lemma engine_wf_heap_update:
  "engine_wf eng \<Longrightarrow> heap_wf eng' \<Longrightarrow> names_ok eng' \<Longrightarrow> elements eng' = elements eng \<Longrightarrow>
   statesContainer eng' = statesContainer eng \<Longrightarrow>
   modifiersContainer eng' = modifiersContainer eng \<Longrightarrow>
   length (element_heap eng) \<le> length (element_heap eng') \<Longrightarrow> engine_wf eng'"
  by (auto simp: engine_wf_def registry_ok_def templates_ok_def list_all_iff)

lemma alloc_State_stores [simp, fd_frame]:
  "elements (snd (alloc_State st eng)) = elements eng"
  "statesContainer (snd (alloc_State st eng)) = statesContainer eng"
  "modifiersContainer (snd (alloc_State st eng)) = modifiersContainer eng"
  "getElementKey (snd (alloc_State st eng)) = getElementKey eng"
  by (simp_all add: alloc_State_def)

lemma alloc_Modifier_stores [simp, fd_frame]:
  "elements (snd (alloc_Modifier md eng)) = elements eng"
  "statesContainer (snd (alloc_Modifier md eng)) = statesContainer eng"
  "modifiersContainer (snd (alloc_Modifier md eng)) = modifiersContainer eng"
  "getElementKey (snd (alloc_Modifier md eng)) = getElementKey eng"
  by (simp_all add: alloc_Modifier_def)

lemma attachState_stores [simp, fd_frame]:
  "elements (Element_attachState e key s eng) = elements eng"
  "statesContainer (Element_attachState e key s eng) = statesContainer eng"
  "modifiersContainer (Element_attachState e key s eng) = modifiersContainer eng"
  "getElementKey (Element_attachState e key s eng) = getElementKey eng"
  by (simp_all add: Element_attachState_def State_setElement_def Let_def)

lemma attachModifier_stores [simp, fd_frame]:
  "elements (Element_attachModifier e key m eng) = elements eng"
  "statesContainer (Element_attachModifier e key m eng) = statesContainer eng"
  "modifiersContainer (Element_attachModifier e key m eng) = modifiersContainer eng"
  "getElementKey (Element_attachModifier e key m eng) = getElementKey eng"
  by (simp_all add: Element_attachModifier_def Modifier_setElement_def Let_def)

lemma subscribe_stores [simp, fd_frame]:
  "elements (Modifier_subscribe m s eng) = elements eng"
  "statesContainer (Modifier_subscribe m s eng) = statesContainer eng"
  "modifiersContainer (Modifier_subscribe m s eng) = modifiersContainer eng"
  "getElementKey (Modifier_subscribe m s eng) = getElementKey eng"
  by (simp_all add: Modifier_subscribe_def State_addModifier_def Let_def)

section \<open>Resolving an Element\<close>

text \<open>The three outcomes of \<^verbatim>\<open>resolve\<close>: the store is unusable, the key is known, the key is new.\<close>

lemma resolve_cases:
  obtains (broken) "hasOwnProperty (elements eng) ''hasOwnProperty''"
      "elementsContainer_resolve host eng = Throw (TypeError NotCallable) eng"
    | (known) e where "\<not> hasOwnProperty (elements eng) ''hasOwnProperty''"
      "js_own (elements eng) (to_key (getElementKey eng host)) = Some e"
      "elementsContainer_resolve host eng = Inr (e, eng)"
    | (new) "\<not> hasOwnProperty (elements eng) ''hasOwnProperty''"
      "js_own (elements eng) (to_key (getElementKey eng host)) = None"
      "elementsContainer_resolve host eng =
         Inr (length (element_heap eng),
              eng\<lparr>element_heap := element_heap eng @ [new_Element host],
                  elements := js_put (to_key (getElementKey eng host)) (length (element_heap eng))
                                (elements eng)\<rparr>)"
proof (cases "hasOwnProperty (elements eng) ''hasOwnProperty''")
  case True
  then show ?thesis
    by (intro broken) (simp_all add: elementsContainer_resolve_def elementsContainer_get_def)
next
  case False
  show ?thesis
  proof (cases "js_own (elements eng) (to_key (getElementKey eng host))")
    case None
    with False show ?thesis
      by (intro new)
        (simp_all add: elementsContainer_resolve_def elementsContainer_get_def Let_def
          hasOwnProperty_def js_own_def alloc_Element_def)
  next
    case (Some e)
    with False show ?thesis
      by (intro known [of e])
        (simp_all add: elementsContainer_resolve_def elementsContainer_get_def Let_def
          hasOwnProperty_def js_own_def)
  qed
qed

lemma engine_wf_resolve:
  assumes wf: "engine_wf eng" and r: "elementsContainer_resolve host eng = Inr (e, eng')"
  shows "engine_wf eng' \<and> e < length (element_heap eng')"
proof (cases rule: resolve_cases [of eng host])
  case broken
  with r show ?thesis by simp
next
  case (known e0)
  with r wf show ?thesis
    by (auto simp: engine_wf_def registry_ok_def list_all_iff dest!: js_own_Some_value)
next
  case new
  let ?k = "to_key (getElementKey eng host)" and ?n = "length (element_heap eng)"
  have eng': "eng' = eng\<lparr>element_heap := element_heap eng @ [new_Element host],
      elements := js_put ?k ?n (elements eng)\<rparr>" and e: "e = ?n"
    using r new by auto
  have "heap_wf (snd (alloc_Element (new_Element host) eng))"
    using wf by (simp add: engine_wf_def heap_wf_alloc_Element)
  then have h: "heap_wf eng'"
    by (simp add: eng' alloc_Element_def)
  have n: "?n \<notin> set (js_values (elements eng))"
    using wf by (auto simp: engine_wf_def registry_ok_def list_all_iff)
  have "distinct (js_values (js_put ?k ?n (elements eng)))"
    using wf n new(2)
    by (auto simp: js_put_def hasOwnProperty_def js_own_def engine_wf_def registry_ok_def
        intro: distinct_js_values_insert)
  moreover have "\<forall>x \<in> set (js_values (js_put ?k ?n (elements eng))). x < Suc ?n"
    using wf js_values_put_subset [of ?k ?n "elements eng"]
    by (auto simp: engine_wf_def registry_ok_def list_all_iff less_Suc_eq)
  moreover have "names_ok eng'"
    using wf
    by (auto simp: eng' engine_wf_def names_ok_iff nth_append new_Element_def js_empty_def
        hasOwnProperty_def)
  ultimately show ?thesis
    using wf h by (simp add: eng' e engine_wf_def registry_ok_def templates_ok_def list_all_iff)
qed

lemma resolve_frame:
  assumes "elementsContainer_resolve host eng = Inr (e, eng')"
  shows "length (element_heap eng) \<le> length (element_heap eng')"
    and "state_heap eng' = state_heap eng" and "modifier_heap eng' = modifier_heap eng"
    and "statesContainer eng' = statesContainer eng"
    and "modifiersContainer eng' = modifiersContainer eng"
    and "getElementKey eng' = getElementKey eng"
    and "e0 < length (element_heap eng) \<Longrightarrow> element_heap eng' ! e0 = element_heap eng ! e0"
  using assms by (cases rule: resolve_cases [of eng host]; auto simp: nth_append)+

lemma resolve_throw_unchanged:
  "elementsContainer_resolve host eng = Inl x \<Longrightarrow> snd x = eng"
  by (cases rule: resolve_cases [of eng host]) auto

section \<open>Registry: one key, one Element\<close>

lemma resolve_registered:
  assumes "\<not> hasOwnProperty (elements eng) ''hasOwnProperty''"
    and "js_own (elements eng) (to_key (getElementKey eng host)) = Some e"
  shows "elementsContainer_resolve host eng = Inr (e, eng)"
  using assms by (cases rule: resolve_cases [of eng host]) auto

lemma resolve_registers:
  assumes r: "elementsContainer_resolve host eng = Inr (e, eng')"
    and k: "to_key (getElementKey eng host) \<noteq> ''__proto__''"
  shows "js_own (elements eng') (to_key (getElementKey eng host)) = Some e"
  using r k by (cases rule: resolve_cases [of eng host]) auto

lemma resolve_usable:
  assumes r: "elementsContainer_resolve host eng = Inr (e, eng')"
    and k: "to_key (getElementKey eng host) \<noteq> ''hasOwnProperty''"
  shows "\<not> hasOwnProperty (elements eng') ''hasOwnProperty''"
  using r k by (cases rule: resolve_cases [of eng host]) auto

lemma resolve_succeeds:
  assumes "\<not> hasOwnProperty (elements eng) ''hasOwnProperty''"
  shows "\<exists>e eng'. elementsContainer_resolve host eng = Inr (e, eng')"
  using assms by (cases rule: resolve_cases [of eng host]) auto

lemma resolve_keeps:
  assumes "elementsContainer_resolve host eng = Inr (e, eng')"
    and "js_own (elements eng) k = Some e0"
  shows "js_own (elements eng') k = Some e0"
  using assms by (cases rule: resolve_cases [of eng host]) auto

subsection \<open>A module with one Element, for the witnesses\<close>

definition ex_registry0 :: "(string, unit) engine" where
  "ex_registry0 = FieldDependencies_init (\<lambda>h. if h = ''anonymous'' then None else Some ''undefined'')"

definition ex_registry1 :: "(string, unit) engine" where
  "ex_registry1 =
     ex_registry0\<lparr>element_heap := [new_Element ''anonymous''], elements := [(''undefined'', 0)]\<rparr>"

lemma ex_registry_resolve:
  "elementsContainer_resolve ''anonymous'' ex_registry0 = Inr (0, ex_registry1)"
  by (simp add: ex_registry0_def ex_registry1_def FieldDependencies_init_def fd_defs to_key_def
      Let_def)

lemma ex_registry_keys:
  "getElementKey ex_registry0 ''anonymous'' = None"
  "getElementKey ex_registry0 ''named'' = Some ''undefined''"
  by (simp_all add: ex_registry0_def FieldDependencies_init_def)

definition ex_broken0 :: "(string, unit) engine" where
  "ex_broken0 = FieldDependencies_init Some"

definition ex_broken1 :: "(string, unit) engine" where
  "ex_broken1 =
     ex_broken0\<lparr>element_heap := [new_Element ''hasOwnProperty''],
                 elements := [(''hasOwnProperty'', 0)]\<rparr>"

lemma ex_broken_resolve:
  "elementsContainer_resolve ''hasOwnProperty'' ex_broken0 = Inr (0, ex_broken1)"
  by (simp add: ex_broken0_def ex_broken1_def FieldDependencies_init_def fd_defs to_key_def
      Let_def)

subsection \<open>The theorems\<close>

text \<open>
  C9. Singleton resolution: once a host has been resolved, resolving any host with the
  same key returns the same Element and leaves the module as it is. (The keys
  \<^verbatim>\<open>__proto__\<close> and \<^verbatim>\<open>hasOwnProperty\<close> are the two for which this fails.)
\<close>

theorem resolve_singleton:
  assumes "elementsContainer_resolve h1 eng = Inr (e, eng')"
    and "to_key (getElementKey eng h2) = to_key (getElementKey eng h1)"
    and "to_key (getElementKey eng h1) \<notin> {''__proto__'', ''hasOwnProperty''}"
  shows "elementsContainer_resolve h2 eng' = Inr (e, eng')"
proof -
  have "getElementKey eng' = getElementKey eng"
    using assms(1) by (rule resolve_frame)
  with assms show ?thesis
    by (intro resolve_registered) (auto dest: resolve_registers resolve_usable)
qed

theorem resolve_singleton_witness:
  "elementsContainer_resolve ''anonymous'' ex_registry0 = Inr (0, ex_registry1) \<and>
   elementsContainer_resolve ''named'' ex_registry1 = Inr (0, ex_registry1)"
  using resolve_singleton [OF ex_registry_resolve, of "''named''"] ex_registry_resolve
  by (simp add: ex_registry_keys to_key_def)

text \<open>
  C35. Once an Element is stored under the key \<^verbatim>\<open>hasOwnProperty\<close>, the store's own
  \<^verbatim>\<open>hasOwnProperty\<close> method is shadowed by that Element and every later resolution throws
  a TypeError, whatever the host.
\<close>

theorem resolve_hasOwnProperty_breaks:
  assumes "elementsContainer_resolve h eng = Inr (e, eng')"
    and "to_key (getElementKey eng h) = ''hasOwnProperty''"
  shows "elementsContainer_resolve h' eng' = Throw (TypeError NotCallable) eng'"
proof -
  from assms have "hasOwnProperty (elements eng') ''hasOwnProperty''"
    by (cases rule: resolve_cases [of eng h]) (auto simp: hasOwnProperty_own_iff)
  then show ?thesis
    by (cases rule: resolve_cases [of eng' h']) auto
qed

theorem resolve_hasOwnProperty_breaks_witness:
  "elementsContainer_resolve ''hasOwnProperty'' ex_broken0 = Inr (0, ex_broken1) \<and>
   elementsContainer_resolve ''other'' ex_broken1 = Throw (TypeError NotCallable) ex_broken1"
  using resolve_hasOwnProperty_breaks [OF ex_broken_resolve, of "''other''"] ex_broken_resolve
  by (simp add: ex_broken0_def FieldDependencies_init_def to_key_def)

text \<open>
  C36. A host for which the key callback returns \<^verbatim>\<open>undefined\<close> is stored under the name
  \<^verbatim>\<open>"undefined"\<close>: it shares its Element with every other host without a key and
  with a host whose key is the string \<^verbatim>\<open>"undefined"\<close>.
\<close>

theorem resolve_missing_key_shared:
  assumes "elementsContainer_resolve h1 eng = Inr (e, eng')"
    and "getElementKey eng h1 = None" and "getElementKey eng h2 = Some ''undefined''"
  shows "elementsContainer_resolve h2 eng' = Inr (e, eng')"
proof -
  have key: "to_key (getElementKey eng h1) = ''undefined''"
    using assms(2) by (simp add: to_key_def)
  have "getElementKey eng' = getElementKey eng"
    using assms(1) by (rule resolve_frame)
  moreover have "js_own (elements eng') ''undefined'' = Some e"
    using resolve_registers [OF assms(1)] key by simp
  moreover have "\<not> hasOwnProperty (elements eng') ''hasOwnProperty''"
    using resolve_usable [OF assms(1)] key by simp
  ultimately show ?thesis
    using assms(3) by (intro resolve_registered) (simp_all add: to_key_def)
qed

theorem resolve_missing_key_shared_witness:
  "elementsContainer_resolve ''anonymous'' ex_registry0 = Inr (0, ex_registry1) \<and>
   elementsContainer_resolve ''named'' ex_registry1 = Inr (0, ex_registry1)"
  using resolve_missing_key_shared [OF ex_registry_resolve ex_registry_keys] ex_registry_resolve
  by simp

section \<open>Registering a template and reading it back\<close>

text \<open>
  C29. Templates. Registration is last write wins; \<^verbatim>\<open>get\<close> hands out a new instance with
  the callback of the template as it is at that moment, unattached and without
  subscribers; and two calls of \<^verbatim>\<open>get\<close> never hand out the same instance. The one name for
  which this fails is \<^verbatim>\<open>__proto__\<close>, which cannot be registered.
\<close>

theorem template_roundtrip:
  assumes "name \<noteq> ''__proto__''"
  shows "\<exists>s eng1 s' eng2.
           statesContainer_get name (addState name cb' (addState name cb eng)) = Inr (s, eng1) \<and>
           statesContainer_get name eng1 = Inr (s', eng2) \<and> s \<noteq> s' \<and>
           state_heap eng2 = state_heap eng @ [new_State (Some cb'), new_State (Some cb')] \<and>
           element_heap eng2 = element_heap eng \<and> modifier_heap eng2 = modifier_heap eng"
  using assms
  by (simp add: statesContainer_get_def addState_def statesContainer_add_def js_get_put_same
      alloc_State_def new_State_def)

theorem template_roundtrip_witness:
  "\<exists>s eng1 s' eng2.
      statesContainer_get ''checked''
        (addState ''checked'' (\<lambda>h w. True) (addState ''checked'' (\<lambda>h w. False)
           (FieldDependencies_init Some :: (string, unit) engine))) = Inr (s, eng1) \<and>
      statesContainer_get ''checked'' eng1 = Inr (s', eng2) \<and> s \<noteq> s' \<and>
      state_heap eng2 = [new_State (Some (\<lambda>h w. True)), new_State (Some (\<lambda>h w. True))]"
  using template_roundtrip [of "''checked''" "\<lambda>h w. True" "\<lambda>h w. False"
      "FieldDependencies_init Some :: (string, unit) engine"]
  by (auto simp: FieldDependencies_init_def)

end
