(* ===== verification/Relationship.thy ===== *)
theory Relationship
  imports Registry
begin

text \<open>
  \<^verbatim>\<open>createRelationship\<close> of \<^verbatim>\<open>src/field-dependencies.js\<close>, statement by statement. Each
  statement that can throw is one definition; \<open>createRelationship\<close> sequences them with
  \<open>bind_result\<close> and \<open>bind_completion\<close>, so that a throw ends the call and leaves
  the writes made before it.
\<close>

section \<open>The statements of createRelationship\<close>

text \<open>
  \<^verbatim>\<open>if (!dependencyElement.getState(name)) dependencyElement.attachState(name, statesContainer.get(name))\<close>
\<close>

definition lazy_attachState :: "eref \<Rightarrow> name \<Rightarrow> ('h, 'w) engine \<Rightarrow> ('h, 'w) engine completion" where
  "lazy_attachState dependencyElement dependencyStateName eng =
     (if falsy (Element_getState dependencyElement dependencyStateName eng)
      then bind_result (statesContainer_get dependencyStateName eng)
             (\<lambda>state eng1. Normal (Element_attachState dependencyElement dependencyStateName state eng1))
      else Normal eng)"

definition lazy_attachModifier :: "eref \<Rightarrow> name \<Rightarrow> ('h, 'w) engine \<Rightarrow> ('h, 'w) engine completion" where
  "lazy_attachModifier dependentElement dependentModifierName eng =
     (if falsy (Element_getModifier dependentElement dependentModifierName eng)
      then bind_result (modifiersContainer_get dependentModifierName eng)
             (\<lambda>modifier eng1.
                Normal (Element_attachModifier dependentElement dependentModifierName modifier eng1))
      else Normal eng)"

text \<open>
  \<^verbatim>\<open>subModifier.subscribe(pubState)\<close> on the two values that \<^verbatim>\<open>getModifier\<close> and
  \<^verbatim>\<open>getState\<close> returned. A value inherited from \<^verbatim>\<open>Object.prototype\<close> has neither a
  \<^verbatim>\<open>subscribe\<close> nor an \<^verbatim>\<open>addModifier\<close> method; the call of the missing method throws
  before anything is written.
\<close>

definition subscribe_values ::
  "mref lookup \<Rightarrow> sref lookup \<Rightarrow> ('h, 'w) engine \<Rightarrow> ('h, 'w) engine completion" where
  "subscribe_values subModifier pubState eng =
     (case subModifier of
        Undefined \<Rightarrow> Throw (TypeError ReadOfUndefined) eng
      | Inherited \<Rightarrow> Throw (TypeError NotCallable) eng
      | Own m \<Rightarrow>
          (case pubState of
             Undefined \<Rightarrow> Throw (TypeError ReadOfUndefined) eng
           | Inherited \<Rightarrow> Throw (TypeError NotCallable) eng
           | Own s \<Rightarrow> Normal (Modifier_subscribe m s eng)))"

text \<open>
  The loop \<^verbatim>\<open>for (var key in cascadingStates) subModifier.subscribe(cascadingStates[key])\<close>.
  The keys of the array are taken when the loop starts, so entries that the body appends
  to the same array (when the dependency and the dependent are one Element) are not
  visited; the list argument is that snapshot.
\<close>

fun subscribe_each ::
  "mref lookup \<Rightarrow> sref list \<Rightarrow> ('h, 'w) engine \<Rightarrow> ('h, 'w) engine completion" where
  "subscribe_each subModifier [] eng = Normal eng"
| "subscribe_each subModifier (s # cascadingStates) eng =
     bind_completion (subscribe_values subModifier (Own s) eng)
       (subscribe_each subModifier cascadingStates)"

text \<open>
  The body of \<^verbatim>\<open>if (inheritState)\<close>. When \<^verbatim>\<open>getModifier\<close> finds an inherited value,
  the test is true, its \<^verbatim>\<open>states\<close> is \<^verbatim>\<open>undefined\<close> and the loop over it runs no
  iteration.
\<close>

definition inherit_states ::
  "eref \<Rightarrow> name \<Rightarrow> mref lookup \<Rightarrow> ('h, 'w) engine \<Rightarrow> ('h, 'w) engine completion" where
  "inherit_states dependencyElement dependentModifierName subModifier eng =
     (case Element_getModifier dependencyElement dependentModifierName eng of
        Own dm \<Rightarrow> subscribe_each subModifier (mod_states (modifier_heap eng ! dm)) eng
      | Inherited \<Rightarrow> Normal eng
      | Undefined \<Rightarrow> Normal eng)"

section \<open>createRelationship\<close>

definition createRelationship ::
  "'h \<Rightarrow> name \<Rightarrow> 'h \<Rightarrow> name \<Rightarrow> bool \<Rightarrow> ('h, 'w) engine \<Rightarrow> ('h, 'w) engine completion" where
  "createRelationship dependencyHost dependencyStateName dependentHost dependentModifierName
       inheritState eng =
     bind_result (elementsContainer_resolve dependencyHost eng) (\<lambda>dependencyElement eng.
     bind_completion (lazy_attachState dependencyElement dependencyStateName eng) (\<lambda>eng.
     bind_result (elementsContainer_resolve dependentHost eng) (\<lambda>dependentElement eng.
     bind_completion (lazy_attachModifier dependentElement dependentModifierName eng) (\<lambda>eng.
     let pubState = Element_getState dependencyElement dependencyStateName eng;
         subModifier = Element_getModifier dependentElement dependentModifierName eng
     in bind_completion (subscribe_values subModifier pubState eng) (\<lambda>eng.
          if inheritState
          then inherit_states dependencyElement dependentModifierName subModifier eng
          else Normal eng)))))"

text \<open>
  The exported \<^verbatim>\<open>createRelationship\<close> hands its fifth parameter, which it calls
  \<^verbatim>\<open>doNotInherit\<close>, to the inner function as \<^verbatim>\<open>inheritState\<close>.
\<close>

definition api_createRelationship ::
  "'h \<Rightarrow> name \<Rightarrow> 'h \<Rightarrow> name \<Rightarrow> bool \<Rightarrow> ('h, 'w) engine \<Rightarrow> ('h, 'w) engine completion" where
  "api_createRelationship dependencyHost dependencyStateName dependentHost dependentModifierName
       doNotInherit eng =
     createRelationship dependencyHost dependencyStateName dependentHost dependentModifierName
       doNotInherit eng"

section \<open>Each statement keeps the module well-formed\<close>

lemma engine_wf_alloc_State:
  assumes "engine_wf eng"
  shows "engine_wf (snd (alloc_State (new_State cb) eng))"
  using assms
  by (intro engine_wf_heap_update [OF assms])
    (simp_all add: engine_wfD heap_wf_alloc_State names_ok_cong [of _ eng])

lemma engine_wf_alloc_Modifier:
  assumes "engine_wf eng"
  shows "engine_wf (snd (alloc_Modifier (new_Modifier cb) eng))"
  using assms
  by (intro engine_wf_heap_update [OF assms])
    (simp_all add: engine_wfD heap_wf_alloc_Modifier names_ok_cong [of _ eng])

lemma names_ok_attachState:
  assumes "names_ok eng" and "falsy (Element_getState e key eng)"
    and "hasOwnProperty (statesContainer eng) key"
  shows "names_ok (Element_attachState e key s eng)"
  using assms
  by (auto simp: names_ok_iff nth_modify Element_getState_def falsy_js_get)

lemma names_ok_attachModifier:
  assumes "names_ok eng" and "falsy (Element_getModifier e key eng)"
    and "hasOwnProperty (modifiersContainer eng) key"
  shows "names_ok (Element_attachModifier e key m eng)"
  using assms
  by (auto simp: names_ok_iff nth_modify Element_getModifier_def falsy_js_get)

lemma engine_wf_attachState:
  assumes "engine_wf eng" and "e < length (element_heap eng)" and "fresh_state eng s"
    and "falsy (Element_getState e key eng)" and "hasOwnProperty (statesContainer eng) key"
  shows "engine_wf (Element_attachState e key s eng)"
  using assms
  by (intro engine_wf_heap_update [OF assms(1)])
    (simp_all add: engine_wfD heap_wf_attachState names_ok_attachState)

lemma engine_wf_attachModifier:
  assumes "engine_wf eng" and "e < length (element_heap eng)" and "fresh_modifier eng m"
    and "falsy (Element_getModifier e key eng)" and "hasOwnProperty (modifiersContainer eng) key"
  shows "engine_wf (Element_attachModifier e key m eng)"
  using assms
  by (intro engine_wf_heap_update [OF assms(1)])
    (simp_all add: engine_wfD heap_wf_attachModifier names_ok_attachModifier)

lemma engine_wf_subscribe:
  assumes "engine_wf eng" and "attached_state eng s" and "attached_modifier eng m"
  shows "engine_wf (Modifier_subscribe m s eng)"
  using assms
  by (intro engine_wf_heap_update [OF assms(1)])
    (simp_all add: engine_wfD heap_wf_subscribe names_ok_cong [of _ eng])

text \<open>
  After the lazy attach returned, the Element has a value under the name: an instance of
  its own, or an inherited one.
\<close>

lemma lazy_attachState_cases:
  assumes wf: "engine_wf eng" and e: "e < length (element_heap eng)"
  obtains (present) "\<not> falsy (Element_getState e name eng)"
      "lazy_attachState e name eng = Normal eng"
    | (unknown) "falsy (Element_getState e name eng)"
      "js_get (statesContainer eng) name = Undefined"
      "lazy_attachState e name eng = Throw (TypeError ReadOfUndefined) eng"
    | (attached) cb where "falsy (Element_getState e name eng)"
      "hasOwnProperty (statesContainer eng) name"
      "lazy_attachState e name eng =
         Normal (Element_attachState e name (length (state_heap eng))
                   (snd (alloc_State (new_State (Some cb)) eng)))"
proof (cases "falsy (Element_getState e name eng)")
  case False
  then show ?thesis by (auto intro: present simp: lazy_attachState_def)
next
  case True
  then have "name \<notin> set object_prototype_keys"
    by (simp add: Element_getState_def falsy_js_get)
  with wf show ?thesis
  proof (cases rule: statesContainer_get_cases [of eng name])
    case unknown
    with True show ?thesis by (auto intro: that(2) simp: lazy_attachState_def)
  next
    case (known cb)
    with True show ?thesis by (auto intro: that(3) simp: lazy_attachState_def)
  qed
qed

lemma lazy_attachModifier_cases:
  assumes wf: "engine_wf eng" and e: "e < length (element_heap eng)"
  obtains (present) "\<not> falsy (Element_getModifier e name eng)"
      "lazy_attachModifier e name eng = Normal eng"
    | (unknown) "falsy (Element_getModifier e name eng)"
      "js_get (modifiersContainer eng) name = Undefined"
      "lazy_attachModifier e name eng = Throw (TypeError ReadOfUndefined) eng"
    | (attached) cb where "falsy (Element_getModifier e name eng)"
      "hasOwnProperty (modifiersContainer eng) name"
      "lazy_attachModifier e name eng =
         Normal (Element_attachModifier e name (length (modifier_heap eng))
                   (snd (alloc_Modifier (new_Modifier (Some cb)) eng)))"
proof (cases "falsy (Element_getModifier e name eng)")
  case False
  then show ?thesis by (auto intro: present simp: lazy_attachModifier_def)
next
  case True
  then have "name \<notin> set object_prototype_keys"
    by (simp add: Element_getModifier_def falsy_js_get)
  with wf show ?thesis
  proof (cases rule: modifiersContainer_get_cases [of eng name])
    case unknown
    with True show ?thesis by (auto intro: that(2) simp: lazy_attachModifier_def)
  next
    case (known cb)
    with True show ?thesis by (auto intro: that(3) simp: lazy_attachModifier_def)
  qed
qed

lemma engine_wf_lazy_attachState:
  assumes wf: "engine_wf eng" and e: "e < length (element_heap eng)"
  shows "engine_wf (state_of (lazy_attachState e name eng))"
  using wf e
proof (cases rule: lazy_attachState_cases [where name = name])
  case (attached cb)
  let ?eng1 = "snd (alloc_State (new_State (Some cb)) eng)"
  have "engine_wf (Element_attachState e name (length (state_heap eng)) ?eng1)"
    using attached(1,2) e
    by (intro engine_wf_attachState engine_wf_alloc_State wf fresh_state_alloc) simp_all
  with attached show ?thesis by simp
qed (use wf in simp_all)

lemma engine_wf_lazy_attachModifier:
  assumes wf: "engine_wf eng" and e: "e < length (element_heap eng)"
  shows "engine_wf (state_of (lazy_attachModifier e name eng))"
  using wf e
proof (cases rule: lazy_attachModifier_cases [where name = name])
  case (attached cb)
  let ?eng1 = "snd (alloc_Modifier (new_Modifier (Some cb)) eng)"
  have "engine_wf (Element_attachModifier e name (length (modifier_heap eng)) ?eng1)"
    using attached(1,2) e
    by (intro engine_wf_attachModifier engine_wf_alloc_Modifier wf fresh_modifier_alloc) simp_all
  with attached show ?thesis by simp
qed (use wf in simp_all)

lemma lazy_attachState_frame:
  assumes "engine_wf eng" and "e < length (element_heap eng)"
  shows "length (element_heap (state_of (lazy_attachState e name eng))) = length (element_heap eng)"
    and "modifier_heap (state_of (lazy_attachState e name eng)) = modifier_heap eng"
    and "elements (state_of (lazy_attachState e name eng)) = elements eng"
    and "getElementKey (state_of (lazy_attachState e name eng)) = getElementKey eng"
  using assms by (cases rule: lazy_attachState_cases [where name = name]; simp)+

lemma lazy_attachModifier_frame:
  assumes "engine_wf eng" and "e < length (element_heap eng)"
  shows "length (element_heap (state_of (lazy_attachModifier e name eng))) = length (element_heap eng)"
    and "state_heap (state_of (lazy_attachModifier e name eng)) = state_heap eng"
    and "elements (state_of (lazy_attachModifier e name eng)) = elements eng"
    and "getElementKey (state_of (lazy_attachModifier e name eng)) = getElementKey eng"
  using assms by (cases rule: lazy_attachModifier_cases [where name = name]; simp)+

lemma engine_wf_subscribe_values:
  assumes "engine_wf eng"
    and "\<And>m. subModifier = Own m \<Longrightarrow> attached_modifier eng m"
    and "\<And>s. pubState = Own s \<Longrightarrow> attached_state eng s"
  shows "engine_wf (state_of (subscribe_values subModifier pubState eng))"
  using assms
  by (auto simp: subscribe_values_def engine_wf_subscribe split: lookup.splits)

lemma subscribe_values_attached:
  assumes "subscribe_values subModifier pubState eng = Normal eng'"
  shows "(attached_modifier eng m \<longrightarrow> attached_modifier eng' m) \<and>
         (attached_state eng s \<longrightarrow> attached_state eng' s)"
  using assms
  by (auto simp: subscribe_values_def attached_state_subscribe attached_modifier_subscribe
      split: lookup.splits)

lemma engine_wf_subscribe_each:
  assumes "engine_wf eng"
    and "\<And>m. subModifier = Own m \<Longrightarrow> attached_modifier eng m"
    and "\<And>s. s \<in> set cascadingStates \<Longrightarrow> attached_state eng s"
  shows "engine_wf (state_of (subscribe_each subModifier cascadingStates eng))"
  using assms
proof (induction cascadingStates arbitrary: eng)
  case Nil
  then show ?case by simp
next
  case (Cons s ss)
  show ?case
    unfolding subscribe_each.simps
  proof (rule inv_bind_completion)
    show "engine_wf (state_of (subscribe_values subModifier (Own s) eng))"
      using Cons.prems by (intro engine_wf_subscribe_values) auto
  next
    fix eng1 assume step: "subscribe_values subModifier (Own s) eng = Normal eng1"
    then have "engine_wf eng1"
      using engine_wf_subscribe_values [of eng subModifier "Own s"] Cons.prems by auto
    then show "engine_wf (state_of (subscribe_each subModifier ss eng1))"
      using Cons.prems subscribe_values_attached [OF step]
      by (intro Cons.IH) auto
  qed
qed

lemma engine_wf_inherit_states:
  assumes wf: "engine_wf eng" and d: "d < length (element_heap eng)"
    and m: "\<And>m. subModifier = Own m \<Longrightarrow> attached_modifier eng m"
  shows "engine_wf (state_of (inherit_states d name subModifier eng))"
proof (cases "Element_getModifier d name eng")
  case (Own dm)
  with wf d have dm: "dm < length (modifier_heap eng)"
    using stored_modifier_attached [of eng d name dm]
    by (auto simp: engine_wf_def attached_modifier_def)
  have "attached_state eng s" if "s \<in> set (mod_states (modifier_heap eng ! dm))" for s
    using wf dm that by (auto simp: engine_wf_def intro: subscribed_state_attached)
  with Own wf m show ?thesis
    by (simp add: inherit_states_def engine_wf_subscribe_each)
qed (use wf in \<open>simp_all add: inherit_states_def\<close>)

lemma subscribe_values_frame:
  assumes "subscribe_values subModifier pubState eng = Normal eng'"
  shows "element_heap eng' = element_heap eng" and "elements eng' = elements eng"
    and "getElementKey eng' = getElementKey eng"
  using assms by (auto simp: subscribe_values_def split: lookup.splits)

section \<open>createRelationship keeps the module well-formed\<close>

lemma engine_wf_wire:
  assumes wf: "engine_wf eng" and d: "d < length (element_heap eng)"
    and t: "t < length (element_heap eng)"
  shows "engine_wf (state_of
    (bind_completion
       (subscribe_values (Element_getModifier t mn eng) (Element_getState d sn eng) eng)
       (\<lambda>eng'. if inh then inherit_states d mn (Element_getModifier t mn eng) eng'
               else Normal eng')))"
proof (rule inv_bind_completion)
  have m: "attached_modifier eng m" if "Element_getModifier t mn eng = Own m" for m
    using wf t that stored_modifier_attached [of eng t mn m] by (simp add: engine_wf_def)
  have s: "attached_state eng s" if "Element_getState d sn eng = Own s" for s
    using wf d that stored_state_attached [of eng d sn s] by (simp add: engine_wf_def)
  show wf1: "engine_wf (state_of
      (subscribe_values (Element_getModifier t mn eng) (Element_getState d sn eng) eng))"
    using wf m s by (rule engine_wf_subscribe_values)
  fix eng1
  assume step: "subscribe_values (Element_getModifier t mn eng) (Element_getState d sn eng) eng
      = Normal eng1"
  with wf1 have "engine_wf eng1" by simp
  moreover have "d < length (element_heap eng1)"
    using d subscribe_values_frame(1) [OF step] by simp
  moreover have "attached_modifier eng1 m" if "Element_getModifier t mn eng = Own m" for m
    using m [OF that] subscribe_values_attached [OF step] by simp
  ultimately show "engine_wf (state_of
      (if inh then inherit_states d mn (Element_getModifier t mn eng) eng1 else Normal eng1))"
    by (simp add: engine_wf_inherit_states)
qed

lemma engine_wf_dependent_side:
  assumes wf: "engine_wf eng" and d: "d < length (element_heap eng)"
  shows "engine_wf (state_of
    (bind_result (elementsContainer_resolve th eng) (\<lambda>t eng.
     bind_completion (lazy_attachModifier t mn eng) (\<lambda>eng.
     let pubState = Element_getState d sn eng; subModifier = Element_getModifier t mn eng
     in bind_completion (subscribe_values subModifier pubState eng) (\<lambda>eng.
          if inh then inherit_states d mn subModifier eng else Normal eng)))))"
proof (rule inv_bind_result)
  fix x assume "elementsContainer_resolve th eng = Inl x"
  with wf show "engine_wf (snd x)" by (simp add: resolve_throw_unchanged)
next
  fix t eng1 assume r: "elementsContainer_resolve th eng = Inr (t, eng1)"
  from engine_wf_resolve [OF wf r] have wf1: "engine_wf eng1" and t: "t < length (element_heap eng1)"
    by simp_all
  from d resolve_frame(1) [OF r] have d1: "d < length (element_heap eng1)" by simp
  show "engine_wf (state_of
     (bind_completion (lazy_attachModifier t mn eng1) (\<lambda>eng.
      let pubState = Element_getState d sn eng; subModifier = Element_getModifier t mn eng
      in bind_completion (subscribe_values subModifier pubState eng) (\<lambda>eng.
           if inh then inherit_states d mn subModifier eng else Normal eng))))"
  proof (rule inv_bind_completion)
    show wf2: "engine_wf (state_of (lazy_attachModifier t mn eng1))"
      using wf1 t by (rule engine_wf_lazy_attachModifier)
    fix eng2 assume a: "lazy_attachModifier t mn eng1 = Normal eng2"
    from wf2 a have "engine_wf eng2" by simp
    moreover from lazy_attachModifier_frame(1) [OF wf1 t, of mn] a d1 t
    have "d < length (element_heap eng2)" "t < length (element_heap eng2)" by simp_all
    ultimately show "engine_wf (state_of
      (let pubState = Element_getState d sn eng2; subModifier = Element_getModifier t mn eng2
       in bind_completion (subscribe_values subModifier pubState eng2) (\<lambda>eng.
            if inh then inherit_states d mn subModifier eng else Normal eng)))"
      unfolding Let_def by (rule engine_wf_wire)
  qed
qed

lemma engine_wf_createRelationship:
  assumes wf: "engine_wf eng"
  shows "engine_wf (state_of (createRelationship dh sn th mn inh eng))"
  unfolding createRelationship_def
proof (rule inv_bind_result)
  fix x assume "elementsContainer_resolve dh eng = Inl x"
  with wf show "engine_wf (snd x)" by (simp add: resolve_throw_unchanged)
next
  fix d eng1 assume r: "elementsContainer_resolve dh eng = Inr (d, eng1)"
  from engine_wf_resolve [OF wf r] have wf1: "engine_wf eng1" and d: "d < length (element_heap eng1)"
    by simp_all
  show "engine_wf (state_of
    (bind_completion (lazy_attachState d sn eng1) (\<lambda>eng.
     bind_result (elementsContainer_resolve th eng) (\<lambda>t eng.
     bind_completion (lazy_attachModifier t mn eng) (\<lambda>eng.
     let pubState = Element_getState d sn eng; subModifier = Element_getModifier t mn eng
     in bind_completion (subscribe_values subModifier pubState eng) (\<lambda>eng.
          if inh then inherit_states d mn subModifier eng else Normal eng))))))"
  proof (rule inv_bind_completion)
    show wf2: "engine_wf (state_of (lazy_attachState d sn eng1))"
      using wf1 d by (rule engine_wf_lazy_attachState)
    fix eng2 assume a: "lazy_attachState d sn eng1 = Normal eng2"
    from wf2 a have "engine_wf eng2" by simp
    moreover from lazy_attachState_frame(1) [OF wf1 d, of sn] a d
    have "d < length (element_heap eng2)" by simp
    ultimately show "engine_wf (state_of
      (bind_result (elementsContainer_resolve th eng2) (\<lambda>t eng.
       bind_completion (lazy_attachModifier t mn eng) (\<lambda>eng.
       let pubState = Element_getState d sn eng; subModifier = Element_getModifier t mn eng
       in bind_completion (subscribe_values subModifier pubState eng) (\<lambda>eng.
            if inh then inherit_states d mn subModifier eng else Normal eng)))))"
      by (rule engine_wf_dependent_side)
  qed
qed

section \<open>What the statements leave alone\<close>

lemma getState_resolve:
  assumes "elementsContainer_resolve host eng = Inr (e, eng')" and "d < length (element_heap eng)"
  shows "Element_getState d name eng' = Element_getState d name eng"
    and "Element_getModifier d name eng' = Element_getModifier d name eng"
  using assms resolve_frame(7) [OF assms(1), of d]
  by (simp_all add: Element_getState_def Element_getModifier_def)

lemma getState_lazy_attachModifier:
  assumes "engine_wf eng" and "t < length (element_heap eng)"
  shows "Element_getState d name (state_of (lazy_attachModifier t mn eng)) =
         Element_getState d name eng"
  using assms
  by (cases rule: lazy_attachModifier_cases [where name = mn]) simp_all

lemma getModifier_lazy_attachState:
  assumes "engine_wf eng" and "e < length (element_heap eng)"
  shows "Element_getModifier t name (state_of (lazy_attachState e sn eng)) =
         Element_getModifier t name eng"
  using assms
  by (cases rule: lazy_attachState_cases [where name = sn]) simp_all

text \<open>In a well-formed module an Element has no instance under an inherited name.\<close>

lemma getState_prototype_key:
  assumes "engine_wf eng" and "d < length (element_heap eng)"
    and "name \<in> set object_prototype_keys"
  shows "Element_getState d name eng = Inherited"
proof -
  have "\<not> hasOwnProperty (elem_states (element_heap eng ! d)) name"
    using names_ok_stateD(1) [OF engine_wfD(4) [OF assms(1)] assms(2)] assms(3) by blast
  with assms(3) show ?thesis
    by (simp add: Element_getState_def js_get_Inherited_iff hasOwnProperty_own_iff)
qed

lemma getModifier_prototype_key:
  assumes "engine_wf eng" and "d < length (element_heap eng)"
    and "name \<in> set object_prototype_keys"
  shows "Element_getModifier d name eng = Inherited"
proof -
  have "\<not> hasOwnProperty (elem_modifiers (element_heap eng ! d)) name"
    using names_ok_modifierD(1) [OF engine_wfD(4) [OF assms(1)] assms(2)] assms(3) by blast
  with assms(3) show ?thesis
    by (simp add: Element_getModifier_def js_get_Inherited_iff hasOwnProperty_own_iff)
qed

lemma getState_no_template:
  assumes "engine_wf eng" and "d < length (element_heap eng)"
    and "js_get (statesContainer eng) name = Undefined"
  shows "falsy (Element_getState d name eng)"
proof -
  have "\<not> hasOwnProperty (statesContainer eng) name"
    using assms(3) by (simp add: js_get_Undefined_iff hasOwnProperty_own_iff)
  then have "\<not> hasOwnProperty (elem_states (element_heap eng ! d)) name"
    using names_ok_stateD(2) [OF engine_wfD(4) [OF assms(1)] assms(2), of name] by blast
  with assms(3) show ?thesis
    by (simp add: Element_getState_def falsy_js_get js_get_Undefined_iff)
qed

lemma getModifier_no_template:
  assumes "engine_wf eng" and "d < length (element_heap eng)"
    and "js_get (modifiersContainer eng) name = Undefined"
  shows "falsy (Element_getModifier d name eng)"
proof -
  have "\<not> hasOwnProperty (modifiersContainer eng) name"
    using assms(3) by (simp add: js_get_Undefined_iff hasOwnProperty_own_iff)
  then have "\<not> hasOwnProperty (elem_modifiers (element_heap eng ! d)) name"
    using names_ok_modifierD(2) [OF engine_wfD(4) [OF assms(1)] assms(2), of name] by blast
  with assms(3) show ?thesis
    by (simp add: Element_getModifier_def falsy_js_get js_get_Undefined_iff)
qed

lemma subscribe_values_Inherited:
  "thrown (subscribe_values subModifier Inherited eng) \<noteq> None"
  "thrown (subscribe_values Inherited pubState eng) \<noteq> None"
  by (simp_all add: subscribe_values_def split: lookup.splits)

lemma thrown_bind_result:
  "thrown (bind_result r f) \<noteq> None \<longleftrightarrow>
     (case r of Inl x \<Rightarrow> True | Inr (a, s) \<Rightarrow> thrown (f a s) \<noteq> None)"
  by (cases r) (auto simp: thrown_def)

lemma thrown_bind_completion:
  "thrown (bind_completion c f) \<noteq> None \<longleftrightarrow>
     (case c of Inl x \<Rightarrow> True | Inr s \<Rightarrow> thrown (f s) \<noteq> None)"
  by (cases c) (auto simp: thrown_def)

lemma lazy_attachState_Own:
  assumes wf: "engine_wf eng" and e: "e < length (element_heap eng)"
    and name: "name \<notin> set object_prototype_keys"
    and a: "lazy_attachState e name eng = Normal eng'"
  shows "\<exists>s. Element_getState e name eng' = Own s"
  using wf e
proof (cases rule: lazy_attachState_cases [where name = name])
  case present
  with name a show ?thesis
    by (cases "Element_getState e name eng")
      (auto simp: Element_getState_def js_get_Inherited_iff falsy_def)
next
  case (attached cb)
  with a e show ?thesis by (auto simp: getState_attachState)
qed (use a in simp)

lemma lazy_attachModifier_Own:
  assumes wf: "engine_wf eng" and e: "e < length (element_heap eng)"
    and name: "name \<notin> set object_prototype_keys"
    and a: "lazy_attachModifier e name eng = Normal eng'"
  shows "\<exists>m. Element_getModifier e name eng' = Own m"
  using wf e
proof (cases rule: lazy_attachModifier_cases [where name = name])
  case present
  with name a show ?thesis
    by (cases "Element_getModifier e name eng")
      (auto simp: Element_getModifier_def js_get_Inherited_iff falsy_def)
next
  case (attached cb)
  with a e show ?thesis by (auto simp: getModifier_attachModifier)
qed (use a in simp)

lemma lazy_attachState_known:
  assumes wf: "engine_wf eng" and e: "e < length (element_heap eng)"
    and known: "js_get (statesContainer eng) name = Own st"
  shows "lazy_attachState e name eng = Normal (state_of (lazy_attachState e name eng))"
  using wf e
  by (cases rule: lazy_attachState_cases [where name = name]) (use known in simp_all)

lemma lazy_attachModifier_known:
  assumes wf: "engine_wf eng" and e: "e < length (element_heap eng)"
    and known: "js_get (modifiersContainer eng) name = Own md"
  shows "lazy_attachModifier e name eng = Normal (state_of (lazy_attachModifier e name eng))"
  using wf e
  by (cases rule: lazy_attachModifier_cases [where name = name]) (use known in simp_all)

lemma lazy_attachState_stores:
  assumes "engine_wf eng" and "e < length (element_heap eng)"
  shows "statesContainer (state_of (lazy_attachState e name eng)) = statesContainer eng"
    and "modifiersContainer (state_of (lazy_attachState e name eng)) = modifiersContainer eng"
  using assms by (cases rule: lazy_attachState_cases [where name = name]; simp)+

lemma lazy_attachModifier_stores:
  assumes "engine_wf eng" and "e < length (element_heap eng)"
  shows "statesContainer (state_of (lazy_attachModifier e name eng)) = statesContainer eng"
    and "modifiersContainer (state_of (lazy_attachModifier e name eng)) = modifiersContainer eng"
  using assms by (cases rule: lazy_attachModifier_cases [where name = name]; simp)+

end
