(* ===== verification/Wiring.thy ===== *)
theory Wiring
  imports Relationship
begin

text \<open>
  What a call of \<^verbatim>\<open>createRelationship\<close> establishes, and what it leaves behind when it
  fails: the outcome of the call with an unknown template, with known templates, on
  Elements an earlier call has prepared, with inheritance, with a name that
  \<^verbatim>\<open>Object.prototype\<close> defines, and through the exported function with its flag. The
  definitions of this theory are vocabulary for the
  theorems (\<open>prepared\<close>) and the modules that the witnesses use.
\<close>

section \<open>A module with one State template, for the witnesses\<close>

definition ex_checked :: "(string, string \<Rightarrow> bool) engine" where
  "ex_checked = addState ''checked'' (\<lambda>h w. w h) (FieldDependencies_init Some)"

lemma ex_checked_wf: "engine_wf ex_checked"
  unfolding ex_checked_def by (intro engine_wf_addState engine_wf_init)

lemma ex_checked_stores:
  "statesContainer ex_checked = [(''checked'', new_State (Some (\<lambda>h w. w h)))]"
  "modifiersContainer ex_checked = []" "elements ex_checked = []"
  "getElementKey ex_checked = Some"
  by (simp_all add: ex_checked_def FieldDependencies_init_def fd_defs)

section \<open>The two halves of a call\<close>

text \<open>
  The dependency side: resolve the host, attach the State if the Element has none under the
  name.
\<close>

lemma dependency_side:
  assumes wf: "engine_wf eng" and usable: "\<not> hasOwnProperty (elements eng) ''hasOwnProperty''"
    and key: "to_key (getElementKey eng dh) \<notin> {''hasOwnProperty'', ''__proto__''}"
    and known: "js_get (statesContainer eng) sn = Own st"
    and sn: "sn \<notin> set object_prototype_keys"
  obtains d eng1 eng2 s where
    "elementsContainer_resolve dh eng = Inr (d, eng1)"
    "lazy_attachState d sn eng1 = Normal eng2"
    "engine_wf eng2" "d < length (element_heap eng2)"
    "Element_getState d sn eng2 = Own s"
    "js_own (elements eng2) (to_key (getElementKey eng dh)) = Some d"
    "\<not> hasOwnProperty (elements eng2) ''hasOwnProperty''"
    "getElementKey eng2 = getElementKey eng"
    "statesContainer eng2 = statesContainer eng"
    "modifiersContainer eng2 = modifiersContainer eng"
    "modifier_heap eng2 = modifier_heap eng"
proof -
  from resolve_succeeds [OF usable] obtain d eng1
    where r: "elementsContainer_resolve dh eng = Inr (d, eng1)" by blast
  from engine_wf_resolve [OF wf r] have wf1: "engine_wf eng1" and d1: "d < length (element_heap eng1)"
    by simp_all
  from known have "lazy_attachState d sn eng1 = Normal (state_of (lazy_attachState d sn eng1))"
    using resolve_frame(4) [OF r] by (intro lazy_attachState_known [OF wf1 d1]) simp
  then obtain eng2 where a: "lazy_attachState d sn eng1 = Normal eng2" by blast
  from lazy_attachState_Own [OF wf1 d1 sn a] obtain s where s: "Element_getState d sn eng2 = Own s"
    by blast
  note frame = lazy_attachState_frame [OF wf1 d1, of sn] lazy_attachState_stores [OF wf1 d1, of sn]
  show ?thesis
  proof (rule that [OF r a _ _ s])
    show "engine_wf eng2"
      using engine_wf_lazy_attachState [OF wf1 d1, of sn] a by simp
    show "d < length (element_heap eng2)"
      using frame(1) a d1 by simp
    show "js_own (elements eng2) (to_key (getElementKey eng dh)) = Some d"
      using resolve_registers [OF r] key frame(3) a by simp
    show "\<not> hasOwnProperty (elements eng2) ''hasOwnProperty''"
      using resolve_usable [OF r] key frame(3) a by simp
    show "getElementKey eng2 = getElementKey eng"
      using resolve_frame(6) [OF r] frame(4) a by simp
    show "statesContainer eng2 = statesContainer eng"
      using resolve_frame(4) [OF r] frame(5) a by simp
    show "modifiersContainer eng2 = modifiersContainer eng"
      using resolve_frame(5) [OF r] frame(6) a by simp
    show "modifier_heap eng2 = modifier_heap eng"
      using resolve_frame(3) [OF r] frame(2) a by simp
  qed
qed

text \<open>
  The dependent side: resolve the host, attach the Modifier if the Element has none under
  the name. It leaves alone what the dependency side has set up.
\<close>

lemma dependent_side:
  assumes wf: "engine_wf eng" and usable: "\<not> hasOwnProperty (elements eng) ''hasOwnProperty''"
    and key: "to_key (getElementKey eng th) \<notin> {''hasOwnProperty'', ''__proto__''}"
    and known: "js_get (modifiersContainer eng) mn = Own md"
    and mn: "mn \<notin> set object_prototype_keys"
  obtains t eng3 eng4 m where
    "elementsContainer_resolve th eng = Inr (t, eng3)"
    "lazy_attachModifier t mn eng3 = Normal eng4"
    "engine_wf eng4" "t < length (element_heap eng4)"
    "Element_getModifier t mn eng4 = Own m"
    "js_own (elements eng4) (to_key (getElementKey eng th)) = Some t"
    "\<not> hasOwnProperty (elements eng4) ''hasOwnProperty''"
    "getElementKey eng4 = getElementKey eng"
    "\<forall>k e. js_own (elements eng) k = Some e \<longrightarrow> js_own (elements eng4) k = Some e"
    "\<forall>d name. d < length (element_heap eng) \<longrightarrow>
       Element_getState d name eng4 = Element_getState d name eng"
    "length (element_heap eng) \<le> length (element_heap eng4)"
proof -
  from resolve_succeeds [OF usable] obtain t eng3
    where r: "elementsContainer_resolve th eng = Inr (t, eng3)" by blast
  from engine_wf_resolve [OF wf r] have wf3: "engine_wf eng3" and t3: "t < length (element_heap eng3)"
    by simp_all
  from known have "lazy_attachModifier t mn eng3 = Normal (state_of (lazy_attachModifier t mn eng3))"
    using resolve_frame(5) [OF r] by (intro lazy_attachModifier_known [OF wf3 t3]) simp
  then obtain eng4 where a: "lazy_attachModifier t mn eng3 = Normal eng4" by blast
  from lazy_attachModifier_Own [OF wf3 t3 mn a] obtain m
    where m: "Element_getModifier t mn eng4 = Own m" by blast
  note frame = lazy_attachModifier_frame [OF wf3 t3, of mn]
  show ?thesis
  proof (rule that [OF r a _ _ m])
    show "engine_wf eng4"
      using engine_wf_lazy_attachModifier [OF wf3 t3, of mn] a by simp
    show "t < length (element_heap eng4)"
      using frame(1) a t3 by simp
    show "js_own (elements eng4) (to_key (getElementKey eng th)) = Some t"
      using resolve_registers [OF r] key frame(3) a by simp
    show "\<not> hasOwnProperty (elements eng4) ''hasOwnProperty''"
      using resolve_usable [OF r] key frame(3) a by simp
    show "getElementKey eng4 = getElementKey eng"
      using resolve_frame(6) [OF r] frame(4) a by simp
    show "\<forall>k e. js_own (elements eng) k = Some e \<longrightarrow> js_own (elements eng4) k = Some e"
      using resolve_keeps [OF r] frame(3) a by simp
    show "\<forall>d name. d < length (element_heap eng) \<longrightarrow>
        Element_getState d name eng4 = Element_getState d name eng"
      using getState_resolve(1) [OF r] getState_lazy_attachModifier [OF wf3 t3, of _ _ mn] a
      by simp
    show "length (element_heap eng) \<le> length (element_heap eng4)"
      using resolve_frame(1) [OF r] frame(1) a by simp
  qed
qed

section \<open>Unknown templates\<close>

text \<open>
  C8. With no State template of the given name, \<^verbatim>\<open>createRelationship\<close> throws the
  TypeError of \<^verbatim>\<open>state.callback\<close> on \<^verbatim>\<open>undefined\<close>, before any State or Modifier
  instance is created or attached. The one write that may remain is the dependency Element
  itself, which is resolved first.
\<close>

theorem createRelationship_unknown_state:
  assumes wf: "engine_wf eng" and usable: "\<not> hasOwnProperty (elements eng) ''hasOwnProperty''"
    and unknown: "js_get (statesContainer eng) sn = Undefined"
  shows "\<exists>eng'. createRelationship dh sn th mn inh eng = Throw (TypeError ReadOfUndefined) eng' \<and>
           state_heap eng' = state_heap eng \<and> modifier_heap eng' = modifier_heap eng \<and>
           (element_heap eng' = element_heap eng \<or>
            element_heap eng' = element_heap eng @ [new_Element dh])"
proof -
  from resolve_succeeds [OF usable] obtain d eng1
    where r: "elementsContainer_resolve dh eng = Inr (d, eng1)" by blast
  from engine_wf_resolve [OF wf r] have wf1: "engine_wf eng1" and d: "d < length (element_heap eng1)"
    by simp_all
  have sc: "statesContainer eng1 = statesContainer eng"
    using r by (rule resolve_frame)
  with unknown have "falsy (Element_getState d sn eng1)"
    by (intro getState_no_template wf1 d) simp
  with unknown sc have "lazy_attachState d sn eng1 = Throw (TypeError ReadOfUndefined) eng1"
    by (simp add: lazy_attachState_def statesContainer_get_Undefined)
  with r have "createRelationship dh sn th mn inh eng = Throw (TypeError ReadOfUndefined) eng1"
    by (simp add: createRelationship_def)
  moreover have "element_heap eng1 = element_heap eng \<or>
      element_heap eng1 = element_heap eng @ [new_Element dh]"
    using r by (cases rule: resolve_cases [of eng dh]) auto
  ultimately show ?thesis
    using resolve_frame(2,3) [OF r] by blast
qed

theorem createRelationship_unknown_state_witness:
  "\<exists>eng'. createRelationship ''a'' ''enabled'' ''b'' ''show'' False ex_checked =
            Throw (TypeError ReadOfUndefined) eng' \<and>
          state_heap eng' = state_heap ex_checked \<and> modifier_heap eng' = modifier_heap ex_checked \<and>
          (element_heap eng' = element_heap ex_checked \<or>
           element_heap eng' = element_heap ex_checked @ [new_Element ''a''])"
  using createRelationship_unknown_state [OF ex_checked_wf, of "''enabled''" "''a''" "''b''" "''show''" False]
  by (simp add: ex_checked_stores js_defs object_prototype_keys_def)

text \<open>
  C19. With a State template but no Modifier template of the given name, the call throws
  too, but only after the State has been cloned and attached to the dependency Element:
  the failed call leaves that attachment behind.
\<close>

theorem createRelationship_unknown_modifier:
  assumes wf: "engine_wf eng" and usable: "\<not> hasOwnProperty (elements eng) ''hasOwnProperty''"
    and key: "to_key (getElementKey eng dh) \<notin> {''hasOwnProperty'', ''__proto__''}"
    and known: "js_get (statesContainer eng) sn = Own st"
    and sn: "sn \<notin> set object_prototype_keys"
    and unknown: "js_get (modifiersContainer eng) mn = Undefined"
  shows "\<exists>eng' d s. createRelationship dh sn th mn inh eng = Throw (TypeError ReadOfUndefined) eng' \<and>
           js_own (elements eng') (to_key (getElementKey eng dh)) = Some d \<and>
           Element_getState d sn eng' = Own s \<and> modifier_heap eng' = modifier_heap eng"
proof -
  from wf usable key known sn obtain d eng1 eng2 s where dep:
    "elementsContainer_resolve dh eng = Inr (d, eng1)"
    "lazy_attachState d sn eng1 = Normal eng2"
    "engine_wf eng2" "d < length (element_heap eng2)"
    "Element_getState d sn eng2 = Own s"
    "js_own (elements eng2) (to_key (getElementKey eng dh)) = Some d"
    "\<not> hasOwnProperty (elements eng2) ''hasOwnProperty''"
    "getElementKey eng2 = getElementKey eng"
    "statesContainer eng2 = statesContainer eng"
    "modifiersContainer eng2 = modifiersContainer eng"
    "modifier_heap eng2 = modifier_heap eng"
    by (rule dependency_side)
  from resolve_succeeds [OF dep(7)] obtain t eng3
    where r: "elementsContainer_resolve th eng2 = Inr (t, eng3)" by blast
  from engine_wf_resolve [OF dep(3) r] have wf3: "engine_wf eng3" and t3: "t < length (element_heap eng3)"
    by simp_all
  have mc: "js_get (modifiersContainer eng3) mn = Undefined"
    using unknown resolve_frame(5) [OF r] dep(10) by simp
  then have "lazy_attachModifier t mn eng3 = Throw (TypeError ReadOfUndefined) eng3"
    using getModifier_no_template [OF wf3 t3 mc]
    by (simp add: lazy_attachModifier_def modifiersContainer_get_Undefined)
  with dep(1,2) r have "createRelationship dh sn th mn inh eng = Throw (TypeError ReadOfUndefined) eng3"
    by (simp add: createRelationship_def)
  moreover have "js_own (elements eng3) (to_key (getElementKey eng dh)) = Some d"
    using r dep(6) by (rule resolve_keeps)
  moreover have "Element_getState d sn eng3 = Own s"
    using getState_resolve(1) [OF r dep(4)] dep(5) by simp
  moreover have "modifier_heap eng3 = modifier_heap eng"
    using resolve_frame(3) [OF r] dep(11) by simp
  ultimately show ?thesis by blast
qed

theorem createRelationship_unknown_modifier_witness:
  "\<exists>eng' d s. createRelationship ''a'' ''checked'' ''b'' ''show'' False ex_checked =
            Throw (TypeError ReadOfUndefined) eng' \<and>
          js_own (elements eng') ''a'' = Some d \<and>
          Element_getState d ''checked'' eng' = Own s \<and>
          modifier_heap eng' = modifier_heap ex_checked"
  using createRelationship_unknown_modifier [OF ex_checked_wf, of "''a''" "''checked''" _ "''show''" "''b''" False]
  by (simp add: ex_checked_stores js_defs object_prototype_keys_def to_key_def)

section \<open>A call on Elements that are prepared\<close>

text \<open>
  \<open>prepared eng dh sn th mn d s t m\<close>: both hosts are registered, as the Elements \<open>d\<close>
  and \<open>t\<close>, which hold the State \<open>s\<close> under \<open>sn\<close> and the Modifier \<open>m\<close> under \<open>mn\<close>.
  This is the situation in which an earlier successful call for the same hosts and names
  has left the module.
\<close>

definition prepared ::
  "('h, 'w) engine \<Rightarrow> 'h \<Rightarrow> name \<Rightarrow> 'h \<Rightarrow> name \<Rightarrow> eref \<Rightarrow> sref \<Rightarrow> eref \<Rightarrow> mref \<Rightarrow> bool" where
  "prepared eng dh sn th mn d s t m \<longleftrightarrow>
     elementsContainer_resolve dh eng = Inr (d, eng) \<and>
     elementsContainer_resolve th eng = Inr (t, eng) \<and>
     Element_getState d sn eng = Own s \<and> Element_getModifier t mn eng = Own m"

lemma createRelationship_prepared:
  assumes "prepared eng dh sn th mn d s t m"
  shows "createRelationship dh sn th mn inh eng =
         (if inh then inherit_states d mn (Own m) (Modifier_subscribe m s eng)
          else Normal (Modifier_subscribe m s eng))"
  using assms
  by (simp add: prepared_def createRelationship_def lazy_attachState_def lazy_attachModifier_def
      subscribe_values_def falsy_def)

section \<open>The inheritance loop\<close>

lemma subscribe_each_Own:
  "subscribe_each (Own m) ss eng = Normal (fold (Modifier_subscribe m) ss eng)"
  by (induction ss arbitrary: eng) (simp_all add: subscribe_values_def)

lemma fold_subscribe_frame:
  "element_heap (fold (Modifier_subscribe m) ss h) = element_heap h"
  "length (state_heap (fold (Modifier_subscribe m) ss h)) = length (state_heap h)"
  "length (modifier_heap (fold (Modifier_subscribe m) ss h)) = length (modifier_heap h)"
  by (induction ss arbitrary: h) simp_all

lemma fold_subscribe_mod_states:
  assumes "m < length (modifier_heap h)"
  shows "mod_states (modifier_heap (fold (Modifier_subscribe m) ss h) ! m) =
         mod_states (modifier_heap h ! m) @ ss"
  using assms by (induction ss arbitrary: h) simp_all

lemma fold_subscribe_other_modifier:
  assumes "m' \<noteq> m"
  shows "modifier_heap (fold (Modifier_subscribe m) ss h) ! m' = modifier_heap h ! m'"
  using assms by (induction ss arbitrary: h) simp_all

lemma fold_subscribe_state_modifiers:
  assumes "s < length (state_heap h)"
  shows "state_modifiers (state_heap (fold (Modifier_subscribe m) ss h) ! s) =
         state_modifiers (state_heap h ! s) @ replicate (count_list ss s) m"
  using assms
proof (induction ss arbitrary: h)
  case Nil
  then show ?case by simp
next
  case (Cons s' ss)
  then show ?case
    by (cases "s' = s") (simp_all add: replicate_append_same nth_modify)
qed


lemma fold_subscribe_stores [simp]:
  "elements (fold (Modifier_subscribe m) ss eng) = elements eng"
  "getElementKey (fold (Modifier_subscribe m) ss eng) = getElementKey eng"
  "statesContainer (fold (Modifier_subscribe m) ss eng) = statesContainer eng"
  "modifiersContainer (fold (Modifier_subscribe m) ss eng) = modifiersContainer eng"
  by (induction ss arbitrary: eng) (simp_all add: Modifier_subscribe_def State_addModifier_def Let_def)

lemma fold_subscribe_get [simp]:
  "Element_getState d name (fold (Modifier_subscribe m) ss h) = Element_getState d name h"
  "Element_getModifier d name (fold (Modifier_subscribe m) ss h) = Element_getModifier d name h"
  by (simp_all add: Element_getState_def Element_getModifier_def fold_subscribe_frame)

section \<open>A call with known templates\<close>

lemma resolve_fixpoint_iff:
  "elementsContainer_resolve host eng = Inr (e, eng) \<longleftrightarrow>
     \<not> hasOwnProperty (elements eng) ''hasOwnProperty'' \<and>
     js_own (elements eng) (to_key (getElementKey eng host)) = Some e"
proof (cases rule: resolve_cases [of eng host])
  case new
  have "eng\<lparr>element_heap := element_heap eng @ [new_Element host],
            elements := js_put (to_key (getElementKey eng host)) (length (element_heap eng))
                          (elements eng)\<rparr> \<noteq> eng" (is "?eng' \<noteq> eng")
  proof
    assume "?eng' = eng"
    then have "length (element_heap ?eng') = length (element_heap eng)" by simp
    then show False by simp
  qed
  with new show ?thesis by simp
qed auto

lemma prepared_cong:
  assumes "prepared eng dh sn th mn d s t m"
    and "elements eng' = elements eng" and "getElementKey eng' = getElementKey eng"
    and "Element_getState d sn eng' = Element_getState d sn eng"
    and "Element_getModifier t mn eng' = Element_getModifier t mn eng"
  shows "prepared eng' dh sn th mn d s t m"
  using assms by (simp add: prepared_def resolve_fixpoint_iff)

lemma inherit_states_Own:
  "inherit_states d mn (Own m) eng =
     Normal (case Element_getModifier d mn eng of
               Own dm \<Rightarrow> fold (Modifier_subscribe m) (mod_states (modifier_heap eng ! dm)) eng
             | Inherited \<Rightarrow> eng
             | Undefined \<Rightarrow> eng)"
  by (simp add: inherit_states_def subscribe_each_Own split: lookup.splits)

text \<open>
  With both templates known, the call comes to its last statements on Elements that are
  prepared.
\<close>

lemma createRelationship_known:
  assumes wf: "engine_wf eng" and usable: "\<not> hasOwnProperty (elements eng) ''hasOwnProperty''"
    and kd: "to_key (getElementKey eng dh) \<notin> {''hasOwnProperty'', ''__proto__''}"
    and kt: "to_key (getElementKey eng th) \<notin> {''hasOwnProperty'', ''__proto__''}"
    and st: "js_get (statesContainer eng) sn = Own st"
    and md: "js_get (modifiersContainer eng) mn = Own md"
    and sn: "sn \<notin> set object_prototype_keys" and mn: "mn \<notin> set object_prototype_keys"
  obtains d s t m eng4 where
    "createRelationship dh sn th mn inh eng =
       (if inh then inherit_states d mn (Own m) (Modifier_subscribe m s eng4)
        else Normal (Modifier_subscribe m s eng4))"
    "engine_wf eng4" "prepared eng4 dh sn th mn d s t m"
proof -
  from wf usable kd st sn obtain d eng1 eng2 s where dep:
    "elementsContainer_resolve dh eng = Inr (d, eng1)"
    "lazy_attachState d sn eng1 = Normal eng2"
    "engine_wf eng2" "d < length (element_heap eng2)"
    "Element_getState d sn eng2 = Own s"
    "js_own (elements eng2) (to_key (getElementKey eng dh)) = Some d"
    "\<not> hasOwnProperty (elements eng2) ''hasOwnProperty''"
    "getElementKey eng2 = getElementKey eng"
    "statesContainer eng2 = statesContainer eng"
    "modifiersContainer eng2 = modifiersContainer eng"
    "modifier_heap eng2 = modifier_heap eng"
    by (rule dependency_side)
  have kt2: "to_key (getElementKey eng2 th) \<notin> {''hasOwnProperty'', ''__proto__''}"
    and md2: "js_get (modifiersContainer eng2) mn = Own md"
    using kt md dep(8,10) by simp_all
  from dep(3,7) kt2 md2 mn obtain t eng3 eng4 m where sub:
    "elementsContainer_resolve th eng2 = Inr (t, eng3)"
    "lazy_attachModifier t mn eng3 = Normal eng4"
    "engine_wf eng4" "t < length (element_heap eng4)"
    "Element_getModifier t mn eng4 = Own m"
    "js_own (elements eng4) (to_key (getElementKey eng2 th)) = Some t"
    "\<not> hasOwnProperty (elements eng4) ''hasOwnProperty''"
    "getElementKey eng4 = getElementKey eng2"
    "\<forall>k e. js_own (elements eng2) k = Some e \<longrightarrow> js_own (elements eng4) k = Some e"
    "\<forall>d name. d < length (element_heap eng2) \<longrightarrow>
       Element_getState d name eng4 = Element_getState d name eng2"
    "length (element_heap eng2) \<le> length (element_heap eng4)"
    by (rule dependent_side)
  have s4: "Element_getState d sn eng4 = Own s"
    using sub(10) dep(4,5) by simp
  show ?thesis
  proof (rule that [OF _ sub(3)])
    show "createRelationship dh sn th mn inh eng =
       (if inh then inherit_states d mn (Own m) (Modifier_subscribe m s eng4)
        else Normal (Modifier_subscribe m s eng4))"
      using dep(1,2) sub(1,2,5) s4
      by (simp add: createRelationship_def subscribe_values_def)
    show "prepared eng4 dh sn th mn d s t m"
      using sub(5,6,7,8,9) dep(6) s4 dep(8)
      by (simp add: prepared_def resolve_fixpoint_iff)
  qed
qed


lemma prepared_bounds:
  assumes "engine_wf eng" and "prepared eng dh sn th mn d s t m"
  shows "d < length (element_heap eng)" and "t < length (element_heap eng)"
    and "s < length (state_heap eng)" and "m < length (modifier_heap eng)"
proof -
  from assms(2) have r: "elementsContainer_resolve dh eng = Inr (d, eng)"
    "elementsContainer_resolve th eng = Inr (t, eng)"
    and g: "Element_getState d sn eng = Own s" "Element_getModifier t mn eng = Own m"
    by (simp_all add: prepared_def)
  from engine_wf_resolve [OF assms(1) r(1)] engine_wf_resolve [OF assms(1) r(2)]
  show d: "d < length (element_heap eng)" and t: "t < length (element_heap eng)" by simp_all
  from stored_state_attached [OF engine_wfD(1) [OF assms(1)] d g(1)]
  show "s < length (state_heap eng)" by (simp add: attached_state_def)
  from stored_modifier_attached [OF engine_wfD(1) [OF assms(1)] t g(2)]
  show "m < length (modifier_heap eng)" by (simp add: attached_modifier_def)
qed

lemma inherited_mod_states:
  assumes "m < length (modifier_heap eng)"
  shows "mod_states (modifier_heap
           (case Element_getModifier d mn (Modifier_subscribe m s eng) of
              Own dm \<Rightarrow> fold (Modifier_subscribe m)
                          (mod_states (modifier_heap (Modifier_subscribe m s eng) ! dm))
                          (Modifier_subscribe m s eng)
            | Inherited \<Rightarrow> Modifier_subscribe m s eng
            | Undefined \<Rightarrow> Modifier_subscribe m s eng) ! m) =
         mod_states (modifier_heap eng ! m) @ [s] @
           (case Element_getModifier d mn eng of
              Own dm \<Rightarrow> if dm = m then mod_states (modifier_heap eng ! m) @ [s]
                        else mod_states (modifier_heap eng ! dm)
            | Inherited \<Rightarrow> []
            | Undefined \<Rightarrow> [])"
  using assms
  by (cases "Element_getModifier d mn eng") (simp_all add: fold_subscribe_mod_states)

section \<open>A module with both templates, for the witnesses\<close>

definition ex_templates :: "(string, string \<Rightarrow> bool) engine" where
  "ex_templates = addModifier ''show'' (\<lambda>host w h. h = host \<or> w h) ex_checked"

definition ex_wired :: "(string, string \<Rightarrow> bool) engine" where
  "ex_wired = state_of (createRelationship ''a'' ''checked'' ''b'' ''show'' False ex_templates)"

lemma ex_templates_wf: "engine_wf ex_templates"
  unfolding ex_templates_def by (intro engine_wf_addModifier ex_checked_wf)

lemma ex_wired_wf: "engine_wf ex_wired"
  unfolding ex_wired_def by (intro engine_wf_createRelationship ex_templates_wf)

lemma ex_templates_stores:
  "statesContainer ex_templates = [(''checked'', new_State (Some (\<lambda>h w. w h)))]"
  "modifiersContainer ex_templates = [(''show'', new_Modifier (Some (\<lambda>host w h. h = host \<or> w h)))]"
  "elements ex_templates = []" "getElementKey ex_templates = Some"
  by (simp_all add: ex_templates_def ex_checked_def FieldDependencies_init_def fd_defs
      object_prototype_keys_def)

lemma ex_wired_heap:
  "elements ex_wired = [(''a'', 0), (''b'', 1)]" "getElementKey ex_wired = Some"
  "element_heap ex_wired =
     [\<lparr>elem_host = ''a'', elem_states = [(''checked'', 0)], elem_modifiers = []\<rparr>,
      \<lparr>elem_host = ''b'', elem_states = [], elem_modifiers = [(''show'', 0)]\<rparr>]"
  "state_modifiers (state_heap ex_wired ! 0) = [0]"
  "mod_states (modifier_heap ex_wired ! 0) = [0]"
  "length (state_heap ex_wired) = 1" "length (modifier_heap ex_wired) = 1"
  by (simp_all add: ex_wired_def ex_templates_def ex_checked_def createRelationship_def
      lazy_attachState_def lazy_attachModifier_def subscribe_values_def
      FieldDependencies_init_def fd_defs to_key_def Let_def object_prototype_keys_def modify_def
      falsy_def key_before_def array_index_def is_digit_def)

lemma ex_wired_stores:
  "statesContainer ex_wired = statesContainer ex_templates"
  "modifiersContainer ex_wired = modifiersContainer ex_templates"
  by (simp_all add: ex_wired_def ex_templates_def ex_checked_def createRelationship_def
      lazy_attachState_def lazy_attachModifier_def subscribe_values_def
      FieldDependencies_init_def fd_defs to_key_def Let_def object_prototype_keys_def modify_def
      falsy_def)

text \<open>A field that depends on itself.\<close>

definition ex_self :: "(string, string \<Rightarrow> bool) engine" where
  "ex_self = state_of (createRelationship ''a'' ''checked'' ''a'' ''show'' False ex_templates)"

lemma ex_self_wf: "engine_wf ex_self"
  unfolding ex_self_def by (intro engine_wf_createRelationship ex_templates_wf)

lemma ex_self_heap:
  "elements ex_self = [(''a'', 0)]" "getElementKey ex_self = Some"
  "element_heap ex_self =
     [\<lparr>elem_host = ''a'', elem_states = [(''checked'', 0)], elem_modifiers = [(''show'', 0)]\<rparr>]"
  "mod_states (modifier_heap ex_self ! 0) = [0]"
  by (simp_all add: ex_self_def ex_templates_def ex_checked_def createRelationship_def
      lazy_attachState_def lazy_attachModifier_def subscribe_values_def
      FieldDependencies_init_def fd_defs to_key_def Let_def object_prototype_keys_def modify_def
      falsy_def)

lemma ex_self_prepared: "prepared ex_self ''a'' ''checked'' ''a'' ''show'' 0 0 0 0"
  by (simp add: prepared_def resolve_fixpoint_iff ex_self_heap js_defs to_key_def
      Element_getState_def Element_getModifier_def object_prototype_keys_def)

lemma ex_wired_prepared: "prepared ex_wired ''a'' ''checked'' ''b'' ''show'' 0 0 1 0"
  by (simp add: prepared_def resolve_fixpoint_iff ex_wired_heap js_defs to_key_def
      Element_getState_def Element_getModifier_def object_prototype_keys_def)

section \<open>What a successful call establishes\<close>

text \<open>
  C5. Wiring. In a well-formed module whose Element store is usable, with templates
  registered under both names, \<^verbatim>\<open>createRelationship\<close> returns normally, with or without
  inheritance. Afterwards both hosts are registered, the dependency Element holds a State
  under the State name, the dependent Element holds a Modifier under the Modifier name, and
  the two are subscribed to each other.
\<close>

theorem createRelationship_wires:
  assumes "engine_wf eng" and "\<not> hasOwnProperty (elements eng) ''hasOwnProperty''"
    and "to_key (getElementKey eng dh) \<notin> {''hasOwnProperty'', ''__proto__''}"
    and "to_key (getElementKey eng th) \<notin> {''hasOwnProperty'', ''__proto__''}"
    and "js_get (statesContainer eng) sn = Own st"
    and "js_get (modifiersContainer eng) mn = Own md"
    and "sn \<notin> set object_prototype_keys" and "mn \<notin> set object_prototype_keys"
  shows "\<exists>eng' d s t m. createRelationship dh sn th mn inh eng = Normal eng' \<and>
           prepared eng' dh sn th mn d s t m \<and>
           m \<in> set (state_modifiers (state_heap eng' ! s)) \<and>
           s \<in> set (mod_states (modifier_heap eng' ! m))"
  using assms
proof (rule createRelationship_known [where inh = inh])
  fix d s t m eng4
  assume run: "createRelationship dh sn th mn inh eng =
      (if inh then inherit_states d mn (Own m) (Modifier_subscribe m s eng4)
       else Normal (Modifier_subscribe m s eng4))"
    and wf4: "engine_wf eng4" and p: "prepared eng4 dh sn th mn d s t m"
  let ?eng5 = "Modifier_subscribe m s eng4"
  let ?ss = "case Element_getModifier d mn ?eng5 of
      Own dm \<Rightarrow> mod_states (modifier_heap ?eng5 ! dm) | Inherited \<Rightarrow> [] | Undefined \<Rightarrow> []"
  let ?eng' = "fold (Modifier_subscribe m) ?ss ?eng5"
  note b = prepared_bounds [OF wf4 p]
  have "createRelationship dh sn th mn inh eng = Normal (if inh then ?eng' else ?eng5)"
    using run by (simp add: inherit_states_Own split: lookup.splits)
  moreover have "prepared (if inh then ?eng' else ?eng5) dh sn th mn d s t m"
    using p by (auto intro!: prepared_cong [OF p])
  moreover have "m \<in> set (state_modifiers (state_heap (if inh then ?eng' else ?eng5) ! s))"
    using b(3) by (simp add: fold_subscribe_state_modifiers)
  moreover have "s \<in> set (mod_states (modifier_heap (if inh then ?eng' else ?eng5) ! m))"
    using b(4) by (simp add: fold_subscribe_mod_states)
  ultimately show ?thesis by blast
qed

theorem createRelationship_wires_witness:
  "\<exists>eng' d s t m. createRelationship ''a'' ''checked'' ''b'' ''show'' True ex_templates = Normal eng' \<and>
      prepared eng' ''a'' ''checked'' ''b'' ''show'' d s t m \<and>
      m \<in> set (state_modifiers (state_heap eng' ! s)) \<and>
      s \<in> set (mod_states (modifier_heap eng' ! m))"
  using createRelationship_wires [OF ex_templates_wf, of "''a''" "''b''" "''checked''"
      "new_State (Some (\<lambda>h w. w h))" "''show''"
      "new_Modifier (Some (\<lambda>host w h. h = host \<or> w h))" True]
  by (simp add: ex_templates_stores js_defs object_prototype_keys_def to_key_def)

text \<open>
  C18. Repeating a call. On Elements that are prepared, a call without inheritance creates
  no Element, no State and no Modifier; it subscribes the same Modifier to the same State
  once more, so that each of the two lists grows by a duplicate entry.
\<close>

theorem createRelationship_twice:
  assumes "engine_wf eng" and "prepared eng dh sn th mn d s t m"
  shows "\<exists>eng'. createRelationship dh sn th mn False eng = Normal eng' \<and>
           elements eng' = elements eng \<and> element_heap eng' = element_heap eng \<and>
           length (state_heap eng') = length (state_heap eng) \<and>
           length (modifier_heap eng') = length (modifier_heap eng) \<and>
           state_modifiers (state_heap eng' ! s) = state_modifiers (state_heap eng ! s) @ [m] \<and>
           mod_states (modifier_heap eng' ! m) = mod_states (modifier_heap eng ! m) @ [s]"
  using prepared_bounds(3,4) [OF assms]
  by (simp add: createRelationship_prepared [OF assms(2)] Modifier_subscribe_def
      State_addModifier_def Let_def)

theorem createRelationship_twice_witness:
  "\<exists>eng'. createRelationship ''a'' ''checked'' ''b'' ''show'' False ex_wired = Normal eng' \<and>
      elements eng' = elements ex_wired \<and> element_heap eng' = element_heap ex_wired \<and>
      length (state_heap eng') = 1 \<and> length (modifier_heap eng') = 1 \<and>
      state_modifiers (state_heap eng' ! 0) = [0, 0] \<and>
      mod_states (modifier_heap eng' ! 0) = [0, 0]"
  using createRelationship_twice [OF ex_wired_wf ex_wired_prepared]
  by (simp add: ex_wired_heap)

text \<open>
  C20. Inheritance. On Elements that are prepared, a call with inheritance subscribes the
  dependent's Modifier to the named State and then to every State in the list of the
  Modifier that the dependency Element holds under the same name. That list is read once,
  after the first subscription: when dependency and dependent are one Element, the
  Modifier inherits from itself and its list is doubled.
\<close>

theorem createRelationship_inherits:
  assumes "engine_wf eng" and "prepared eng dh sn th mn d s t m"
  shows "\<exists>eng'. createRelationship dh sn th mn True eng = Normal eng' \<and>
           element_heap eng' = element_heap eng \<and>
           mod_states (modifier_heap eng' ! m) =
             mod_states (modifier_heap eng ! m) @ [s] @
               (case Element_getModifier d mn eng of
                  Own dm \<Rightarrow> if dm = m then mod_states (modifier_heap eng ! m) @ [s]
                            else mod_states (modifier_heap eng ! dm)
                | Inherited \<Rightarrow> []
                | Undefined \<Rightarrow> [])"
  using inherited_mod_states [OF prepared_bounds(4) [OF assms], where d = d and mn = mn and s = s]
  by (simp add: createRelationship_prepared [OF assms(2)] inherit_states_Own fold_subscribe_frame
      split: lookup.splits)

theorem createRelationship_inherits_witness:
  "\<exists>eng'. createRelationship ''a'' ''checked'' ''a'' ''show'' True ex_self = Normal eng' \<and>
      element_heap eng' = element_heap ex_self \<and>
      mod_states (modifier_heap eng' ! 0) = [0, 0, 0, 0]"
  using createRelationship_inherits [OF ex_self_wf ex_self_prepared]
  by (simp add: ex_self_heap Element_getModifier_def js_defs object_prototype_keys_def)

text \<open>
  C10. Inheritance, seen from the result. After a call with inheritance and known
  templates, the dependent's Modifier subscribes to every State to which the Modifier of
  the same name on the dependency Element subscribes, if there is one.
\<close>

theorem createRelationship_inherits_all:
  assumes "engine_wf eng" and "\<not> hasOwnProperty (elements eng) ''hasOwnProperty''"
    and "to_key (getElementKey eng dh) \<notin> {''hasOwnProperty'', ''__proto__''}"
    and "to_key (getElementKey eng th) \<notin> {''hasOwnProperty'', ''__proto__''}"
    and "js_get (statesContainer eng) sn = Own st"
    and "js_get (modifiersContainer eng) mn = Own md"
    and "sn \<notin> set object_prototype_keys" and "mn \<notin> set object_prototype_keys"
  shows "\<exists>eng' d s t m. createRelationship dh sn th mn True eng = Normal eng' \<and>
           prepared eng' dh sn th mn d s t m \<and>
           (\<forall>dm. Element_getModifier d mn eng' = Own dm \<longrightarrow>
              set (mod_states (modifier_heap eng' ! dm)) \<subseteq> set (mod_states (modifier_heap eng' ! m)))"
  using assms
proof (rule createRelationship_known [where inh = True])
  fix d s t m eng4
  assume run: "createRelationship dh sn th mn True eng =
      (if True then inherit_states d mn (Own m) (Modifier_subscribe m s eng4)
       else Normal (Modifier_subscribe m s eng4))"
    and wf4: "engine_wf eng4" and p: "prepared eng4 dh sn th mn d s t m"
  let ?eng5 = "Modifier_subscribe m s eng4"
  let ?ss = "case Element_getModifier d mn ?eng5 of
      Own dm \<Rightarrow> mod_states (modifier_heap ?eng5 ! dm) | Inherited \<Rightarrow> [] | Undefined \<Rightarrow> []"
  let ?eng' = "fold (Modifier_subscribe m) ?ss ?eng5"
  have m: "m < length (modifier_heap ?eng5)"
    using prepared_bounds(4) [OF wf4 p] by simp
  have "createRelationship dh sn th mn True eng = Normal ?eng'"
    using run by (simp add: inherit_states_Own split: lookup.splits)
  moreover have "prepared ?eng' dh sn th mn d s t m"
    by (rule prepared_cong [OF p]) simp_all
  moreover have "set (mod_states (modifier_heap ?eng' ! dm)) \<subseteq> set (mod_states (modifier_heap ?eng' ! m))"
    if "Element_getModifier d mn ?eng' = Own dm" for dm
  proof (cases "dm = m")
    case False
    from that have "?ss = mod_states (modifier_heap ?eng5 ! dm)" by simp
    with False show ?thesis
      by (simp only: fold_subscribe_other_modifier [OF False] fold_subscribe_mod_states [OF m]) simp
  qed simp
  ultimately show ?thesis by blast
qed

theorem createRelationship_inherits_all_witness:
  "\<exists>eng' d s t m. createRelationship ''b'' ''checked'' ''c'' ''show'' True ex_wired = Normal eng' \<and>
      prepared eng' ''b'' ''checked'' ''c'' ''show'' d s t m \<and>
      (\<forall>dm. Element_getModifier d ''show'' eng' = Own dm \<longrightarrow>
         set (mod_states (modifier_heap eng' ! dm)) \<subseteq> set (mod_states (modifier_heap eng' ! m)))"
  using createRelationship_inherits_all [OF ex_wired_wf, of "''b''" "''c''" "''checked''"
      "new_State (Some (\<lambda>h w. w h))" "''show''"
      "new_Modifier (Some (\<lambda>host w h. h = host \<or> w h))"]
  by (simp add: ex_wired_stores ex_templates_stores ex_wired_heap js_defs
      object_prototype_keys_def to_key_def)

section \<open>Names that \<^verbatim>\<open>Object.prototype\<close> defines\<close>

lemma wire_prototype_name:
  assumes wf: "engine_wf eng" and d: "d < length (element_heap eng)"
    and t: "t < length (element_heap eng)"
    and name: "sn \<in> set object_prototype_keys \<or> mn \<in> set object_prototype_keys"
  shows "thrown (subscribe_values (Element_getModifier t mn eng) (Element_getState d sn eng) eng)
         \<noteq> None"
  using name getState_prototype_key [OF wf d, of sn] getModifier_prototype_key [OF wf t, of mn]
  by (metis subscribe_values_Inherited)

lemma dependent_side_prototype_name:
  assumes wf: "engine_wf eng" and d: "d < length (element_heap eng)"
    and name: "sn \<in> set object_prototype_keys \<or> mn \<in> set object_prototype_keys"
  shows "thrown
    (bind_result (elementsContainer_resolve th eng) (\<lambda>t eng.
     bind_completion (lazy_attachModifier t mn eng) (\<lambda>eng.
     let pubState = Element_getState d sn eng; subModifier = Element_getModifier t mn eng
     in bind_completion (subscribe_values subModifier pubState eng) (\<lambda>eng.
          if inh then inherit_states d mn subModifier eng else Normal eng)))) \<noteq> None"
proof (intro thrown_bind_resultI thrown_bind_completion_thenI)
  fix t eng1 eng2
  assume r: "elementsContainer_resolve th eng = Inr (t, eng1)"
    and a: "lazy_attachModifier t mn eng1 = Normal eng2"
  from engine_wf_resolve [OF wf r] have wf1: "engine_wf eng1" and t: "t < length (element_heap eng1)"
    by simp_all
  from d resolve_frame(1) [OF r] have d1: "d < length (element_heap eng1)" by simp
  have "engine_wf eng2" "d < length (element_heap eng2)" "t < length (element_heap eng2)"
    using engine_wf_lazy_attachModifier [OF wf1 t, of mn]
      lazy_attachModifier_frame(1) [OF wf1 t, of mn] a d1 t by simp_all
  from wire_prototype_name [OF this name]
  show "thrown
     (let pubState = Element_getState d sn eng2; subModifier = Element_getModifier t mn eng2
      in bind_completion (subscribe_values subModifier pubState eng2) (\<lambda>eng.
           if inh then inherit_states d mn subModifier eng else Normal eng)) \<noteq> None"
    unfolding Let_def by (rule thrown_bind_completionI)
qed

text \<open>
  C34. A template can be registered under a name that every object inherits from
  \<^verbatim>\<open>Object.prototype\<close> (\<^verbatim>\<open>toString\<close>, \<^verbatim>\<open>constructor\<close>, \<^verbatim>\<open>valueOf\<close>, ...), but it cannot
  be used: the Element answers the lookup of such a name with the inherited method, the
  attach step is skipped, and the call throws.
\<close>

theorem createRelationship_prototype_name:
  assumes wf: "engine_wf eng"
    and name: "sn \<in> set object_prototype_keys \<or> mn \<in> set object_prototype_keys"
  shows "thrown (createRelationship dh sn th mn inh eng) \<noteq> None"
  unfolding createRelationship_def
proof (rule thrown_bind_resultI, rule thrown_bind_completion_thenI)
  fix d eng1 eng2
  assume r: "elementsContainer_resolve dh eng = Inr (d, eng1)"
    and a: "lazy_attachState d sn eng1 = Normal eng2"
  from engine_wf_resolve [OF wf r] have wf1: "engine_wf eng1" and d1: "d < length (element_heap eng1)"
    by simp_all
  have "engine_wf eng2" "d < length (element_heap eng2)"
    using engine_wf_lazy_attachState [OF wf1 d1, of sn] lazy_attachState_frame(1) [OF wf1 d1, of sn]
      a d1 by simp_all
  then show "thrown
    (bind_result (elementsContainer_resolve th eng2) (\<lambda>t eng.
     bind_completion (lazy_attachModifier t mn eng) (\<lambda>eng.
     let pubState = Element_getState d sn eng; subModifier = Element_getModifier t mn eng
     in bind_completion (subscribe_values subModifier pubState eng) (\<lambda>eng.
          if inh then inherit_states d mn subModifier eng else Normal eng)))) \<noteq> None"
    using name by (rule dependent_side_prototype_name)
qed

theorem createRelationship_prototype_name_witness:
  "thrown (createRelationship ''a'' ''toString'' ''b'' ''show'' False
      (addState ''toString'' (\<lambda>h w. True) ex_templates)) \<noteq> None"
  using createRelationship_prototype_name [OF engine_wf_addState [OF ex_templates_wf],
      where sn = "''toString''" and mn = "''show''" and dh = "''a''" and th = "''b''"
        and inh = False and name1 = "''toString''" and callback1 = "\<lambda>h w. True"]
  by (simp add: object_prototype_keys_def)

section \<open>The flag of the exported function\<close>

text \<open>Two relationships with the same Modifier name, \<open>a \<rightarrow> b\<close> and \<open>b \<rightarrow> c\<close>.\<close>

definition ex_two :: "(string, string \<Rightarrow> bool) engine" where
  "ex_two = state_of (createRelationship ''b'' ''checked'' ''c'' ''show'' False ex_wired)"

lemma ex_two_wf: "engine_wf ex_two"
  unfolding ex_two_def by (intro engine_wf_createRelationship ex_wired_wf)

lemma ex_two_heap:
  "elements ex_two = [(''a'', 0), (''b'', 1), (''c'', 2)]" "getElementKey ex_two = Some"
  "element_heap ex_two =
     [\<lparr>elem_host = ''a'', elem_states = [(''checked'', 0)], elem_modifiers = []\<rparr>,
      \<lparr>elem_host = ''b'', elem_states = [(''checked'', 1)], elem_modifiers = [(''show'', 0)]\<rparr>,
      \<lparr>elem_host = ''c'', elem_states = [], elem_modifiers = [(''show'', 1)]\<rparr>]"
  "mod_states (modifier_heap ex_two ! 0) = [0]"
  "mod_states (modifier_heap ex_two ! Suc 0) = [1]"
  by (simp_all add: ex_two_def ex_wired_heap ex_wired_stores ex_templates_stores
      createRelationship_def lazy_attachState_def lazy_attachModifier_def subscribe_values_def
      fd_defs to_key_def Let_def object_prototype_keys_def modify_def
      falsy_def key_before_def array_index_def is_digit_def nth_append)

lemma ex_two_prepared: "prepared ex_two ''b'' ''checked'' ''c'' ''show'' 1 1 2 1"
  by (simp add: prepared_def resolve_fixpoint_iff ex_two_heap js_defs to_key_def
      Element_getState_def Element_getModifier_def object_prototype_keys_def)

text \<open>
  C30. The flag of the exported createRelationship. The exported function names its last
  parameter doNotInherit, and a true value switches inheritance on: on prepared Elements,
  where the dependency Element holds another Modifier under the same name, the call with
  the flag set subscribes the dependent's Modifier to all that the call without the flag
  subscribes it to, and then to the States of that other Modifier.
\<close>

theorem doNotInherit_inherits:
  assumes "engine_wf eng" and "prepared eng dh sn th mn d s t m"
    and "Element_getModifier d mn eng = Own dm" and "dm \<noteq> m"
  shows "\<exists>eng0 eng1.
           api_createRelationship dh sn th mn False eng = Normal eng0 \<and>
           api_createRelationship dh sn th mn True eng = Normal eng1 \<and>
           mod_states (modifier_heap eng0 ! m) = mod_states (modifier_heap eng ! m) @ [s] \<and>
           mod_states (modifier_heap eng1 ! m) =
             mod_states (modifier_heap eng0 ! m) @ mod_states (modifier_heap eng ! dm)"
  using inherited_mod_states [OF prepared_bounds(4) [OF assms(1,2)], where d = d and mn = mn and s = s]
    prepared_bounds(4) [OF assms(1,2)] assms(3,4)
  by (simp add: api_createRelationship_def createRelationship_prepared [OF assms(2)]
      inherit_states_Own split: lookup.splits)

theorem doNotInherit_inherits_witness:
  "\<exists>eng0 eng1.
      api_createRelationship ''b'' ''checked'' ''c'' ''show'' False ex_two = Normal eng0 \<and>
      api_createRelationship ''b'' ''checked'' ''c'' ''show'' True ex_two = Normal eng1 \<and>
      mod_states (modifier_heap eng0 ! 1) = [1, 1] \<and>
      mod_states (modifier_heap eng1 ! 1) = [1, 1, 0]"
  using doNotInherit_inherits [OF ex_two_wf ex_two_prepared, of 0]
  by (auto simp: ex_two_heap Element_getModifier_def js_defs object_prototype_keys_def)

end
