(* ===== verification/Cascade.thy ===== *)
theory Cascade
  imports Nodes
begin

text \<open>
  What happens when a field changes: the change handler of \<^verbatim>\<open>Element\<close>
  (\<^verbatim>\<open>modifyDependents\<close>), \<^verbatim>\<open>State.publish\<close> and \<^verbatim>\<open>Modifier.execute\<close> of
  \<^verbatim>\<open>src/field-dependencies.js\<close>. The three call each other: the handler publishes the
  active States, a State executes its Modifiers, a Modifier runs its callback and then
  calls the handler of its own Element. Nothing bounds that recursion in the source, so the
  model carries \<^emph>\<open>fuel\<close>: the number of nested calls of \<^verbatim>\<open>modifyDependents\<close> that are
  allowed. The result \<open>None\<close> says that the fuel did not suffice; \<open>Some (Normal w)\<close>
  that the cascade returned with page \<open>w\<close>; \<open>Some (Throw e w)\<close> that it threw after
  the writes that led to \<open>w\<close>.

  The cascade reads the heap and writes the page only: a callback that calls back into the
  module is outside the model.
\<close>

section \<open>execute, publish and the change handler\<close>

text \<open>
  \<^verbatim>\<open>this.callback(this.element.$element); this.element.modifyDependents();\<close> The
  argument is evaluated before the call, so an unattached Modifier fails on
  \<^verbatim>\<open>null.$element\<close> whatever its callback is. The first parameter is the handler to call
  for the cascade step.
\<close>

definition Modifier_execute ::
  "(eref \<Rightarrow> 'w \<Rightarrow> 'w completion option) \<Rightarrow> mref \<Rightarrow> ('h, 'w, 'z) heap_scheme \<Rightarrow> 'w \<Rightarrow>
   'w completion option" where
  "Modifier_execute modifyDependents m h w =
     (case mod_element (modifier_heap h ! m) of
        None \<Rightarrow> Some (Throw (TypeError ReadOfNull) w)
      | Some element \<Rightarrow>
          (case mod_callback (modifier_heap h ! m) of
             None \<Rightarrow> Some (Throw (TypeError NotCallable) w)
           | Some callback \<Rightarrow>
               modifyDependents element (callback (elem_host (element_heap h ! element)) w)))"

text \<open>\<^verbatim>\<open>for (var i in this.modifiers) this.modifiers[i].execute();\<close>\<close>

definition State_publish ::
  "(eref \<Rightarrow> 'w \<Rightarrow> 'w completion option) \<Rightarrow> sref \<Rightarrow> ('h, 'w, 'z) heap_scheme \<Rightarrow> 'w \<Rightarrow>
   'w completion option" where
  "State_publish modifyDependents s h w =
     for_each (\<lambda>m. Modifier_execute modifyDependents m h) (state_modifiers (state_heap h ! s)) w"

text \<open>
  The body of the handler. The active States are computed once, before the first of them
  publishes; every instance has its own \<^verbatim>\<open>publish\<close>, so the test
  \<^verbatim>\<open>hasOwnProperty('publish')\<close> holds for each of them.
\<close>

definition fan_out ::
  "(eref \<Rightarrow> 'w \<Rightarrow> 'w completion option) \<Rightarrow> eref \<Rightarrow> ('h, 'w, 'z) heap_scheme \<Rightarrow> 'w \<Rightarrow>
   'w completion option" where
  "fan_out modifyDependents e h w =
     (case Element_getActiveStates e h w of
        Inl err \<Rightarrow> Some (Throw err w)
      | Inr activeStates \<Rightarrow>
          for_each (\<lambda>s. State_publish modifyDependents s h) (js_values activeStates) w)"

primrec Element_modifyDependents ::
  "nat \<Rightarrow> ('h, 'w, 'z) heap_scheme \<Rightarrow> eref \<Rightarrow> 'w \<Rightarrow> 'w completion option" where
  "Element_modifyDependents 0 h e w = None"
| "Element_modifyDependents (Suc fuel) h e w = fan_out (Element_modifyDependents fuel h) e h w"

text \<open>
  \<^verbatim>\<open>this.$element.change(modifyDependents)\<close>: every Element registers its handler on its
  host when it is constructed, so a change of a host runs the handlers of the Elements
  built on it, oldest first.
\<close>

definition change_handlers :: "'h \<Rightarrow> ('h, 'w, 'z) heap_scheme \<Rightarrow> eref list" where
  "change_handlers host h =
     filter (\<lambda>e. elem_host (element_heap h ! e) = host) [0..<length (element_heap h)]"

definition trigger_change ::
  "nat \<Rightarrow> 'h \<Rightarrow> ('h, 'w, 'z) heap_scheme \<Rightarrow> 'w \<Rightarrow> 'w completion option" where
  "trigger_change fuel host h w =
     for_each (Element_modifyDependents fuel h) (change_handlers host h) w"

lemmas cascade_defs [fd_defs] =
  Modifier_execute_def State_publish_def fan_out_def change_handlers_def trigger_change_def

section \<open>The dependency graph\<close>

text \<open>
  The Elements that a change of \<open>e\<close> can reach in one step: the owners of the Modifiers
  subscribed to a State of \<open>e\<close>.
\<close>

definition dependents :: "('h, 'w, 'z) heap_scheme \<Rightarrow> eref \<Rightarrow> eref list" where
  "dependents h e =
     concat (map (\<lambda>s. concat (map (\<lambda>m. case mod_element (modifier_heap h ! m) of
                                            None \<Rightarrow> [] | Some t \<Rightarrow> [t])
                                (state_modifiers (state_heap h ! s))))
               (js_values (elem_states (element_heap h ! e))))"

text \<open>
  A ranking witnesses that the graph has no cycle: every step leads to a smaller rank.
\<close>

definition ranked :: "('h, 'w, 'z) heap_scheme \<Rightarrow> (eref \<Rightarrow> nat) \<Rightarrow> bool" where
  "ranked h rank \<longleftrightarrow>
     list_all (\<lambda>e. list_all (\<lambda>t. rank t < rank e) (dependents h e)) [0..<length (element_heap h)]"

section \<open>Vocabulary of the theorems\<close>

text \<open>A State is active on a page when its \<^verbatim>\<open>isActive\<close> returns \<^verbatim>\<open>true\<close>.\<close>

definition is_active :: "sref \<Rightarrow> ('h, 'w, 'z) heap_scheme \<Rightarrow> 'w \<Rightarrow> bool" where
  "is_active s h w \<longleftrightarrow> State_isActive s h w = Inr True"

text \<open>A property of the page that every Modifier callback of the heap keeps.\<close>

definition callbacks_keep :: "('h, 'w, 'z) heap_scheme \<Rightarrow> ('w \<Rightarrow> bool) \<Rightarrow> bool" where
  "callbacks_keep h P \<longleftrightarrow>
     (\<forall>m < length (modifier_heap h). \<forall>callback host w.
        mod_callback (modifier_heap h ! m) = Some callback \<longrightarrow> P w \<longrightarrow> P (callback host w))"

text \<open>
  \<open>fires_into h P C e\<close>: on every page that satisfies \<open>P\<close>, the Element \<open>e\<close> has an
  active State with a subscriber that belongs to an Element of \<open>C\<close>.
\<close>

definition fires_into ::
  "('h, 'w, 'z) heap_scheme \<Rightarrow> ('w \<Rightarrow> bool) \<Rightarrow> eref set \<Rightarrow> eref \<Rightarrow> bool" where
  "fires_into h P C e \<longleftrightarrow>
     e < length (element_heap h) \<and>
     (\<exists>s \<in> set (js_values (elem_states (element_heap h ! e))).
        (\<forall>w. P w \<longrightarrow> is_active s h w) \<and>
        (\<exists>m \<in> set (state_modifiers (state_heap h ! s)).
           \<exists>t \<in> C. mod_element (modifier_heap h ! m) = Some t))"

section \<open>Active States of a well-formed heap\<close>

lemma isActive_attached:
  assumes "heap_wf h" and "attached_state h s"
  shows "\<exists>b. State_isActive s h w = Inr b"
  using assms heap_wf_stateD [of h s]
  by (auto simp: attached_state_def state_ok_iff State_isActive_def)

lemma active_of_filter:
  assumes "\<And>i s. (i, s) \<in> set states \<Longrightarrow> \<exists>b. State_isActive s h w = Inr b"
  shows "active_of h w states = Inr (filter (\<lambda>p. is_active (snd p) h w) states)"
  using assms
proof (induction states)
  case Nil
  then show ?case by simp
next
  case (Cons p states)
  obtain i s where p: "p = (i, s)" by (cases p)
  from Cons.prems [of i s] p obtain b where b: "State_isActive s h w = Inr b" by auto
  have "active_of h w states = Inr (filter (\<lambda>p. is_active (snd p) h w) states)"
    using Cons.prems by (intro Cons.IH) auto
  with p b show ?case by (simp add: is_active_def)
qed

lemma getActiveStates_wf:
  assumes wf: "heap_wf h" and e: "e < length (element_heap h)"
  shows "Element_getActiveStates e h w =
         Inr (filter (\<lambda>p. is_active (snd p) h w) (elem_states (element_heap h ! e)))"
  unfolding Element_getActiveStates_def
proof (rule active_of_filter)
  fix i s assume "(i, s) \<in> set (elem_states (element_heap h ! e))"
  then have "s \<in> set (js_values (elem_states (element_heap h ! e)))"
    by (force simp: js_values_def)
  with heap_wf_elementD [OF wf e] have "attached_state h s"
    by (auto simp: element_ok_iff attached_state_def)
  with wf show "\<exists>b. State_isActive s h w = Inr b" by (rule isActive_attached)
qed

lemma active_values_stored:
  "set (js_values (filter P states)) \<subseteq> set (js_values states)"
  by (auto simp: js_values_def)

section \<open>A well-formed module never throws in a cascade\<close>

lemma execute_no_throw:
  assumes wf: "heap_wf h" and m: "attached_modifier h m"
    and handler: "\<And>t u. t < length (element_heap h) \<Longrightarrow> \<not> throws (handler t u)"
  shows "\<not> throws (Modifier_execute handler m h w)"
  using m heap_wf_modifierD [OF wf, of m] handler
  by (auto simp: attached_modifier_def modifier_ok_iff Modifier_execute_def)

lemma publish_no_throw:
  assumes wf: "heap_wf h" and s: "s < length (state_heap h)"
    and handler: "\<And>t u. t < length (element_heap h) \<Longrightarrow> \<not> throws (handler t u)"
  shows "\<not> throws (State_publish handler s h w)"
  unfolding State_publish_def
  by (intro for_each_no_throw execute_no_throw wf handler subscribed_modifier_attached [OF wf s])

lemma fan_out_no_throw:
  assumes wf: "heap_wf h" and e: "e < length (element_heap h)"
    and handler: "\<And>t u. t < length (element_heap h) \<Longrightarrow> \<not> throws (handler t u)"
  shows "\<not> throws (fan_out handler e h w)"
proof -
  have "s < length (state_heap h)"
    if "s \<in> set (js_values (filter (\<lambda>p. is_active (snd p) h w) (elem_states (element_heap h ! e))))" for s
    using that active_values_stored heap_wf_elementD [OF wf e] by (fastforce simp: element_ok_iff)
  then show ?thesis
    by (simp add: fan_out_def getActiveStates_wf [OF wf e])
      (intro for_each_no_throw publish_no_throw wf handler)
qed

lemma modifyDependents_no_throw:
  assumes "heap_wf h" and "e < length (element_heap h)"
  shows "\<not> throws (Element_modifyDependents fuel h e w)"
  using assms(2)
  by (induction fuel arbitrary: e w) (simp_all add: fan_out_no_throw [OF assms(1)])


section \<open>Fuel\<close>

lemma execute_mono:
  assumes "Modifier_execute f m h w = Some r" and "\<And>t u r. f t u = Some r \<Longrightarrow> g t u = Some r"
  shows "Modifier_execute g m h w = Some r"
  using assms by (auto simp: Modifier_execute_def split: option.splits)

lemma publish_mono:
  assumes "State_publish f s h w = Some r" and "\<And>t u r. f t u = Some r \<Longrightarrow> g t u = Some r"
  shows "State_publish g s h w = Some r"
  using assms unfolding State_publish_def
  by (elim for_each_Some_mono) (rule execute_mono)

lemma fan_out_mono:
  assumes "fan_out f e h w = Some r" and "\<And>t u r. f t u = Some r \<Longrightarrow> g t u = Some r"
  shows "fan_out g e h w = Some r"
proof (cases "Element_getActiveStates e h w")
  case (Inl err)
  with assms(1) show ?thesis by (simp add: fan_out_def)
next
  case (Inr activeStates)
  with assms(1) have "for_each (\<lambda>s. State_publish f s h) (js_values activeStates) w = Some r"
    by (simp add: fan_out_def)
  then have "for_each (\<lambda>s. State_publish g s h) (js_values activeStates) w = Some r"
    by (rule for_each_Some_mono) (rule publish_mono [OF _ assms(2)])
  with Inr show ?thesis by (simp add: fan_out_def)
qed

lemma modifyDependents_Suc:
  "Element_modifyDependents fuel h e w = Some r \<Longrightarrow>
   Element_modifyDependents (Suc fuel) h e w = Some r"
proof (induction fuel arbitrary: e w r)
  case 0
  then show ?case by simp
next
  case (Suc fuel)
  from Suc.prems have "fan_out (Element_modifyDependents fuel h) e h w = Some r"
    by simp
  then have "fan_out (Element_modifyDependents (Suc fuel) h) e h w = Some r"
    by (rule fan_out_mono) (rule Suc.IH)
  then show ?case by simp
qed

lemma modifyDependents_mono:
  assumes "Element_modifyDependents fuel h e w = Some r" and "fuel \<le> fuel'"
  shows "Element_modifyDependents fuel' h e w = Some r"
  using assms(2,1) by (induction rule: dec_induct) (blast intro: modifyDependents_Suc)+

section \<open>Termination on a graph without cycles\<close>

lemma dependents_iff:
  "t \<in> set (dependents h e) \<longleftrightarrow>
     (\<exists>s \<in> set (js_values (elem_states (element_heap h ! e))).
        \<exists>m \<in> set (state_modifiers (state_heap h ! s)).
          mod_element (modifier_heap h ! m) = Some t)"
  unfolding dependents_def by (simp add: set_option_list) (simp only: eq_commute [of "Some t"])

lemma rankedD:
  "ranked h rank \<Longrightarrow> e < length (element_heap h) \<Longrightarrow> t \<in> set (dependents h e) \<Longrightarrow>
   rank t < rank e"
  by (auto simp: ranked_def list_all_iff)

lemma execute_terminates:
  assumes wf: "heap_wf h" and m: "attached_modifier h m"
    and handler: "\<And>t u. mod_element (modifier_heap h ! m) = Some t \<Longrightarrow>
        t < length (element_heap h) \<Longrightarrow> handler t u \<noteq> None"
  shows "Modifier_execute handler m h w \<noteq> None"
  using m heap_wf_modifierD [OF wf, of m] handler
  by (auto simp: attached_modifier_def modifier_ok_iff Modifier_execute_def)

lemma fan_out_terminates:
  assumes wf: "heap_wf h" and e: "e < length (element_heap h)"
    and handler: "\<And>t u. t \<in> set (dependents h e) \<Longrightarrow> t < length (element_heap h) \<Longrightarrow>
        handler t u \<noteq> None"
  shows "fan_out handler e h w \<noteq> None"
proof -
  have stored: "s \<in> set (js_values (elem_states (element_heap h ! e))) \<and> s < length (state_heap h)"
    if "s \<in> set (js_values (filter (\<lambda>p. is_active (snd p) h w) (elem_states (element_heap h ! e))))" for s
    using that active_values_stored heap_wf_elementD [OF wf e] by (fastforce simp: element_ok_iff)
  have "State_publish handler s h u \<noteq> None"
    if "s \<in> set (js_values (filter (\<lambda>p. is_active (snd p) h w) (elem_states (element_heap h ! e))))"
    for s u
    unfolding State_publish_def
  proof (intro for_each_terminates execute_terminates wf)
    fix m assume m: "m \<in> set (state_modifiers (state_heap h ! s))"
    from stored [OF that] m show "attached_modifier h m"
      by (intro subscribed_modifier_attached [OF wf]) simp_all
    fix t u' assume "mod_element (modifier_heap h ! m) = Some t" "t < length (element_heap h)"
    with stored [OF that] m show "handler t u' \<noteq> None"
      by (intro handler) (auto simp: dependents_iff)
  qed
  then show ?thesis
    by (simp add: fan_out_def getActiveStates_wf [OF wf e] for_each_terminates)
qed

lemma modifyDependents_terminates:
  assumes wf: "heap_wf h" and r: "ranked h rank"
  shows "e < length (element_heap h) \<Longrightarrow> rank e < fuel \<Longrightarrow>
         Element_modifyDependents fuel h e w \<noteq> None"
proof (induction fuel arbitrary: e w)
  case 0
  then show ?case by simp
next
  case (Suc fuel)
  have "Element_modifyDependents fuel h t u \<noteq> None"
    if "t \<in> set (dependents h e)" "t < length (element_heap h)" for t u
    using rankedD [OF r Suc.prems(1) that(1)] Suc.prems(2) that(2) by (intro Suc.IH) simp_all
  with Suc.prems(1) show ?case
    by (simp add: fan_out_terminates [OF wf])
qed


section \<open>What the callbacks keep, the cascade keeps\<close>

lemma execute_inv:
  assumes run: "Modifier_execute handler m h w = Some (Normal w')" and P: "P w"
    and keep: "callbacks_keep h P" and wf: "heap_wf h" and m: "m < length (modifier_heap h)"
    and handler: "\<And>t u u'. t < length (element_heap h) \<Longrightarrow> P u \<Longrightarrow>
        handler t u = Some (Normal u') \<Longrightarrow> P u'"
  shows "P w'"
proof -
  from run obtain t callback where t: "mod_element (modifier_heap h ! m) = Some t"
    and callback: "mod_callback (modifier_heap h ! m) = Some callback"
    and r: "handler t (callback (elem_host (element_heap h ! t)) w) = Some (Normal w')"
    by (auto simp: Modifier_execute_def split: option.splits)
  from heap_wf_modifierD [OF wf m] t have "t < length (element_heap h)"
    by (simp add: modifier_ok_iff)
  moreover from keep m callback P have "P (callback (elem_host (element_heap h ! t)) w)"
    by (simp add: callbacks_keep_def)
  ultimately show ?thesis using r by (rule handler)
qed

lemma publish_inv:
  assumes run: "State_publish handler s h w = Some (Normal w')" and P: "P w"
    and keep: "callbacks_keep h P" and wf: "heap_wf h" and s: "s < length (state_heap h)"
    and handler: "\<And>t u u'. t < length (element_heap h) \<Longrightarrow> P u \<Longrightarrow>
        handler t u = Some (Normal u') \<Longrightarrow> P u'"
  shows "P w'"
  using run P unfolding State_publish_def
proof (rule for_each_inv)
  fix m v v'
  assume "m \<in> set (state_modifiers (state_heap h ! s))" "P v"
    "Modifier_execute handler m h v = Some (Normal v')"
  with heap_wf_stateD [OF wf s] show "P v'"
    by (intro execute_inv [OF _ _ keep wf _ handler, of handler m v v']) (auto simp: state_ok_iff)
qed

lemma active_stored:
  assumes "heap_wf h" and "e < length (element_heap h)"
    and "s \<in> set (js_values (filter Q (elem_states (element_heap h ! e))))"
  shows "s < length (state_heap h)"
  using assms(3) active_values_stored heap_wf_elementD [OF assms(1,2)]
  by (fastforce simp: element_ok_iff)

lemma fan_out_inv:
  assumes wf: "heap_wf h" and e: "e < length (element_heap h)"
    and run: "fan_out handler e h w = Some (Normal w')" and P: "P w"
    and keep: "callbacks_keep h P"
    and handler: "\<And>t u u'. t < length (element_heap h) \<Longrightarrow> P u \<Longrightarrow>
        handler t u = Some (Normal u') \<Longrightarrow> P u'"
  shows "P w'"
proof -
  let ?active = "js_values (filter (\<lambda>p. is_active (snd p) h w) (elem_states (element_heap h ! e)))"
  from run have "for_each (\<lambda>s. State_publish handler s h) ?active w = Some (Normal w')"
    by (simp add: fan_out_def getActiveStates_wf [OF wf e])
  then show ?thesis using P
  proof (rule for_each_inv)
    fix s u u'
    assume s: "s \<in> set ?active" and u: "P u" "State_publish handler s h u = Some (Normal u')"
    show "P u'"
      using u(2,1) keep wf active_stored [OF wf e s] handler by (rule publish_inv)
  qed
qed

lemma modifyDependents_inv:
  assumes wf: "heap_wf h" and keep: "callbacks_keep h P"
  shows "e < length (element_heap h) \<Longrightarrow> P w \<Longrightarrow>
         Element_modifyDependents fuel h e w = Some (Normal w') \<Longrightarrow> P w'"
proof (induction fuel arbitrary: e w w')
  case 0
  then show ?case by simp
next
  case (Suc fuel)
  from Suc.prems(3) have run: "fan_out (Element_modifyDependents fuel h) e h w = Some (Normal w')"
    by simp
  show ?case
  proof (rule fan_out_inv [OF wf Suc.prems(1) run Suc.prems(2) keep])
    fix t u u'
    assume "t < length (element_heap h)" "P u" "Element_modifyDependents fuel h t u = Some (Normal u')"
    then show "P u'" by (rule Suc.IH)
  qed
qed

section \<open>A cycle that keeps firing\<close>

lemma execute_starves:
  assumes wf: "heap_wf h" and m: "m < length (modifier_heap h)"
    and t: "mod_element (modifier_heap h ! m) = Some t"
    and keep: "callbacks_keep h P" and P: "P w"
    and handler: "\<And>u. P u \<Longrightarrow> handler t u = None"
  shows "Modifier_execute handler m h w = None"
proof -
  from heap_wf_modifierD [OF wf m] t obtain callback
    where callback: "mod_callback (modifier_heap h ! m) = Some callback"
    by (auto simp: modifier_ok_iff)
  with keep m P have "P (callback (elem_host (element_heap h ! t)) w)"
    by (simp add: callbacks_keep_def)
  with t callback show ?thesis
    by (simp add: Modifier_execute_def handler)
qed

lemma publish_starves:
  assumes wf: "heap_wf h" and s: "s < length (state_heap h)"
    and m: "m \<in> set (state_modifiers (state_heap h ! s))"
    and t: "mod_element (modifier_heap h ! m) = Some t"
    and keep: "callbacks_keep h P" and P: "P w"
    and starve: "\<And>u. P u \<Longrightarrow> handler t u = None"
    and safe: "\<And>t u. t < length (element_heap h) \<Longrightarrow> \<not> throws (handler t u)"
    and inv: "\<And>t u u'. t < length (element_heap h) \<Longrightarrow> P u \<Longrightarrow>
        handler t u = Some (Normal u') \<Longrightarrow> P u'"
  shows "State_publish handler s h w = None"
  unfolding State_publish_def using m P
proof (rule for_each_None_inv)
  have ms: "m' < length (modifier_heap h)" if "m' \<in> set (state_modifiers (state_heap h ! s))" for m'
    using heap_wf_stateD [OF wf s] that by (simp add: state_ok_iff)
  show "Modifier_execute handler m h u = None" if "P u" for u
    using wf ms [OF m] t keep that starve by (rule execute_starves)
  show "\<not> throws (Modifier_execute handler m' h u)"
    if "m' \<in> set (state_modifiers (state_heap h ! s))" for m' u
    using that by (intro execute_no_throw wf safe subscribed_modifier_attached [OF wf s])
  show "P u'" if "m' \<in> set (state_modifiers (state_heap h ! s))" "P u"
    "Modifier_execute handler m' h u = Some (Normal u')" for m' u u'
    using that(3,2) keep wf ms [OF that(1)] inv by (rule execute_inv)
qed

lemma fan_out_starves:
  assumes wf: "heap_wf h" and e: "e < length (element_heap h)"
    and s: "s \<in> set (js_values (elem_states (element_heap h ! e)))"
    and active: "is_active s h w"
    and m: "m \<in> set (state_modifiers (state_heap h ! s))"
    and t: "mod_element (modifier_heap h ! m) = Some t"
    and keep: "callbacks_keep h P" and P: "P w"
    and starve: "\<And>u. P u \<Longrightarrow> handler t u = None"
    and safe: "\<And>t u. t < length (element_heap h) \<Longrightarrow> \<not> throws (handler t u)"
    and inv: "\<And>t u u'. t < length (element_heap h) \<Longrightarrow> P u \<Longrightarrow>
        handler t u = Some (Normal u') \<Longrightarrow> P u'"
  shows "fan_out handler e h w = None"
proof -
  let ?active = "js_values (filter (\<lambda>p. is_active (snd p) h w) (elem_states (element_heap h ! e)))"
  from s active have "s \<in> set ?active"
    by (auto simp: js_values_def)
  then have "for_each (\<lambda>s. State_publish handler s h) ?active w = None"
    using P
  proof (rule for_each_None_inv)
    show "State_publish handler s h u = None" if "P u" for u
      using wf active_stored [OF wf e \<open>s \<in> set ?active\<close>] m t keep that starve safe inv
      by (rule publish_starves)
    show "\<not> throws (State_publish handler s' h u)" if "s' \<in> set ?active" for s' u
      using active_stored [OF wf e that] by (intro publish_no_throw wf safe)
    show "P u'" if "s' \<in> set ?active" "P u" "State_publish handler s' h u = Some (Normal u')"
      for s' u u'
      using that(3,2) keep wf active_stored [OF wf e that(1)] inv by (rule publish_inv)
  qed
  then show ?thesis
    by (simp add: fan_out_def getActiveStates_wf [OF wf e])
qed

lemma modifyDependents_starves:
  assumes wf: "heap_wf h" and keep: "callbacks_keep h P"
    and closed: "\<And>e. e \<in> C \<Longrightarrow> fires_into h P C e"
  shows "e \<in> C \<Longrightarrow> P w \<Longrightarrow> Element_modifyDependents fuel h e w = None"
proof (induction fuel arbitrary: e w)
  case 0
  then show ?case by simp
next
  case (Suc fuel)
  from closed [OF Suc.prems(1)] Suc.prems(2) obtain s m t
    where e: "e < length (element_heap h)"
      and s: "s \<in> set (js_values (elem_states (element_heap h ! e)))" and a: "is_active s h w"
      and m: "m \<in> set (state_modifiers (state_heap h ! s))"
      and t: "mod_element (modifier_heap h ! m) = Some t" "t \<in> C"
    by (auto simp: fires_into_def)
  have "fan_out (Element_modifyDependents fuel h) e h w = None"
    using wf e s a m t(1) keep Suc.prems(2)
  proof (rule fan_out_starves)
    show "Element_modifyDependents fuel h t u = None" if "P u" for u
      using t(2) that by (rule Suc.IH)
    show "\<not> throws (Element_modifyDependents fuel h t' u)" if "t' < length (element_heap h)" for t' u
      using wf that by (rule modifyDependents_no_throw)
    show "P u'" if "t' < length (element_heap h)" "P u"
      "Element_modifyDependents fuel h t' u = Some (Normal u')" for t' u u'
      using that by (rule modifyDependents_inv [OF wf keep])
  qed
  then show ?case by simp
qed

section \<open>A change reads the three arenas only\<close>

lemma isActive_arenas:
  assumes "element_heap h' = element_heap h" and "state_heap h' = state_heap h"
  shows "State_isActive s h' w = State_isActive s h w"
  using assms by (simp add: State_isActive_def split: option.splits)

lemma active_of_arenas:
  assumes "element_heap h' = element_heap h" and "state_heap h' = state_heap h"
  shows "active_of h' w states = active_of h w states"
  by (induction states) (auto simp: isActive_arenas [OF assms] split: sum.splits)

lemma execute_arenas:
  assumes "element_heap h' = element_heap h" and "modifier_heap h' = modifier_heap h"
  shows "Modifier_execute handler m h' = Modifier_execute handler m h"
  using assms by (intro ext) (simp add: Modifier_execute_def split: option.splits)

lemma publish_arenas:
  assumes "element_heap h' = element_heap h" and "state_heap h' = state_heap h"
    and "modifier_heap h' = modifier_heap h"
  shows "State_publish handler s h' = State_publish handler s h"
  by (intro ext) (simp add: State_publish_def assms(2) execute_arenas [OF assms(1,3)])

lemma fan_out_arenas:
  assumes "element_heap h' = element_heap h" and "state_heap h' = state_heap h"
    and "modifier_heap h' = modifier_heap h"
  shows "fan_out handler e h' w = fan_out handler e h w"
  by (simp add: fan_out_def Element_getActiveStates_def assms(1) active_of_arenas [OF assms(1,2)]
      publish_arenas [OF assms] split: sum.splits)

lemma modifyDependents_arenas:
  assumes "element_heap h' = element_heap h" and "state_heap h' = state_heap h"
    and "modifier_heap h' = modifier_heap h"
  shows "Element_modifyDependents fuel h' e w = Element_modifyDependents fuel h e w"
proof (induction fuel arbitrary: e w)
  case 0
  then show ?case by simp
next
  case (Suc fuel)
  then have "Element_modifyDependents fuel h' = Element_modifyDependents fuel h"
    by (intro ext)
  then show ?case
    by (simp add: fan_out_arenas [OF assms])
qed

lemma trigger_change_arenas:
  assumes "element_heap h' = element_heap h" and "state_heap h' = state_heap h"
    and "modifier_heap h' = modifier_heap h"
  shows "trigger_change fuel host h' w = trigger_change fuel host h w"
proof -
  have "Element_modifyDependents fuel h' = Element_modifyDependents fuel h"
    by (intro ext modifyDependents_arenas assms)
  with assms(1) show ?thesis
    by (simp add: trigger_change_def change_handlers_def)
qed

lemma trigger_change_truncate:
  "trigger_change fuel host (heap.truncate h) w = trigger_change fuel host h w"
  by (rule trigger_change_arenas) (simp_all add: heap.truncate_def)

section \<open>Two heaps for the witnesses\<close>

text \<open>
  The page of the examples is the list of the fields that are switched on, in the order
  in which they were switched on.
\<close>

definition ex_on :: "string \<Rightarrow> string list \<Rightarrow> bool" where
  "ex_on host w \<longleftrightarrow> host \<in> set w"

definition ex_turn_on :: "string \<Rightarrow> string list \<Rightarrow> string list" where
  "ex_turn_on host w = w @ [host]"

text \<open>
  A chain: field \<open>b\<close> is switched on when \<open>a\<close> is on, field \<open>c\<close> when \<open>b\<close> is on.
\<close>

definition ex_chain :: "(string, string list) heap" where
  "ex_chain =
     \<lparr>element_heap =
        [\<lparr>elem_host = ''a'', elem_states = [(''on'', 0)], elem_modifiers = []\<rparr>,
         \<lparr>elem_host = ''b'', elem_states = [(''on'', 1)], elem_modifiers = [(''turn_on'', 0)]\<rparr>,
         \<lparr>elem_host = ''c'', elem_states = [], elem_modifiers = [(''turn_on'', 1)]\<rparr>],
      state_heap =
        [\<lparr>state_element = Some 0, state_callback = Some ex_on, state_modifiers = [0]\<rparr>,
         \<lparr>state_element = Some 1, state_callback = Some ex_on, state_modifiers = [1]\<rparr>],
      modifier_heap =
        [\<lparr>mod_element = Some 1, mod_callback = Some ex_turn_on, mod_states = [0]\<rparr>,
         \<lparr>mod_element = Some 2, mod_callback = Some ex_turn_on, mod_states = [1]\<rparr>]\<rparr>"

text \<open>A loop: field \<open>a\<close> is switched on when \<open>a\<close> is on.\<close>

definition ex_loop :: "(string, string list) heap" where
  "ex_loop =
     \<lparr>element_heap =
        [\<lparr>elem_host = ''a'', elem_states = [(''on'', 0)], elem_modifiers = [(''turn_on'', 0)]\<rparr>],
      state_heap =
        [\<lparr>state_element = Some 0, state_callback = Some ex_on, state_modifiers = [0]\<rparr>],
      modifier_heap =
        [\<lparr>mod_element = Some 0, mod_callback = Some ex_turn_on, mod_states = [0]\<rparr>]\<rparr>"

lemma ex_chain_wf: "heap_wf ex_chain"
  by code_simp

lemma ex_loop_wf: "heap_wf ex_loop"
  by code_simp

lemma ex_chain_ranked: "ranked ex_chain (\<lambda>e. 2 - e)"
  by code_simp


lemma ex_chain_run:
  "trigger_change 3 ''a'' ex_chain [''a''] = Some (Normal [''a'', ''b'', ''c''])"
  by code_simp

lemma ex_chain_keeps: "callbacks_keep ex_chain (\<lambda>w. ''a'' \<in> set w)"
  by (auto simp: callbacks_keep_def ex_chain_def ex_turn_on_def less_Suc_eq numeral_2_eq_2)

lemma change_handlers_bound: "e \<in> set (change_handlers host h) \<Longrightarrow> e < length (element_heap h)"
  by (simp add: change_handlers_def)

section \<open>The theorems\<close>

text \<open>
  In a well-formed heap a change never ends in a TypeError of the module: every State an
  Element lists has an Element and a callback, every Modifier a State lists has an Element
  and a callback. Whatever the fuel, the run starves or returns.
\<close>

lemma trigger_change_no_throw:
  assumes "heap_wf h"
  shows "\<not> throws (trigger_change fuel host h w)"
  unfolding trigger_change_def
  by (intro for_each_no_throw modifyDependents_no_throw assms change_handlers_bound)

text \<open>
  C3. Termination. When the dependency graph has no cycle, witnessed by a rank that
  decreases along every edge, the handler of an Element returns, and a fuel of one more
  than the rank of the Element is enough.
\<close>

theorem cascade_terminates:
  assumes "heap_wf h" and "ranked h rank" and "e < length (element_heap h)"
  shows "\<exists>w'. Element_modifyDependents (Suc (rank e)) h e w = Some (Normal w')"
  using modifyDependents_terminates [OF assms, of "Suc (rank e)" w]
    modifyDependents_no_throw [OF assms(1,3), of "Suc (rank e)" w]
  by (cases "Element_modifyDependents (Suc (rank e)) h e w" rule: outcome_cases) auto

theorem cascade_terminates_witness:
  "\<exists>w'. Element_modifyDependents 3 ex_chain 0 [''a''] = Some (Normal w')"
  using cascade_terminates [OF ex_chain_wf ex_chain_ranked, of 0 "[''a'']"]
  by (simp add: ex_chain_def numeral_3_eq_3)

text \<open>
  C4. Divergence. Let \<open>C\<close> be a set of Elements each of which, on every page satisfying
  \<open>P\<close>, has an active State with a subscriber on an Element of \<open>C\<close>, and let every
  Modifier callback keep \<open>P\<close>. Then a change of an Element of \<open>C\<close> on such a page does
  not return, whatever the fuel: the source recurses until the engine's stack is exhausted.
\<close>

theorem cascade_diverges:
  assumes "heap_wf h" and "callbacks_keep h P" and "\<forall>e \<in> C. fires_into h P C e"
    and "e \<in> C" and "P w"
  shows "\<forall>fuel. Element_modifyDependents fuel h e w = None"
  using assms by (auto intro: modifyDependents_starves [where C = C and P = P])

theorem cascade_diverges_witness:
  "\<forall>fuel. Element_modifyDependents fuel ex_loop 0 [''a''] = None"
  using cascade_diverges [OF ex_loop_wf, of "\<lambda>w. ''a'' \<in> set w" "{0}" 0 "[''a'']"]
  by (simp add: callbacks_keep_def fires_into_def is_active_def State_isActive_def ex_loop_def
      ex_on_def ex_turn_on_def js_values_def)





text \<open>
  C33. When no State of the Element is active, a change returns at once and leaves the page
  as it is: there is no effect for a State that stopped being active.
\<close>

theorem cascade_inactive:
  assumes "heap_wf h" and "e < length (element_heap h)"
    and "\<forall>s \<in> set (js_values (elem_states (element_heap h ! e))). \<not> is_active s h w"
  shows "Element_modifyDependents (Suc fuel) h e w = Some (Normal w)"
proof -
  have "filter (\<lambda>p. is_active (snd p) h w) (elem_states (element_heap h ! e)) = []"
    using assms(3) by (auto simp: js_values_def filter_empty_conv)
  then show ?thesis
    by (simp add: fan_out_def getActiveStates_wf [OF assms(1,2)] js_values_def)
qed

theorem cascade_inactive_witness:
  "Element_modifyDependents 3 ex_chain 0 [] = Some (Normal [])"
  using cascade_inactive [OF ex_chain_wf, of 0 "[]" 2]
  by (simp add: ex_chain_def is_active_def State_isActive_def ex_on_def js_values_def
      numeral_3_eq_3)

end
