(* ===== verification/Legacy.thy ===== *)
theory Legacy
  imports Relationship Cascade
begin

text \<open>
  The earlier revision of the module, \<^verbatim>\<open>src/unnamed/part_000\<close>. Its stores, its
  \<^verbatim>\<open>Element\<close> with \<^verbatim>\<open>attachState\<close>, \<^verbatim>\<open>getState\<close>, \<^verbatim>\<open>attachModifier\<close>, \<^verbatim>\<open>getModifier\<close>
  and \<^verbatim>\<open>getActiveStates\<close>, and the constructors of \<^verbatim>\<open>State\<close> and \<^verbatim>\<open>Modifier\<close> with
  \<^verbatim>\<open>setElement\<close>, \<^verbatim>\<open>addModifier\<close> and \<^verbatim>\<open>isActive\<close> are, statement for statement, those of
  the current revision, and the definitions of the theories \<open>Nodes\<close> and \<open>Registry\<close>
  stand for both; the first section names them. The rest of the theory holds what differs: \<^verbatim>\<open>Modifier.listen\<close> (later
  \<^verbatim>\<open>subscribe\<close>), an \<^verbatim>\<open>execute\<close> that runs the callback and does not cascade,
  \<^verbatim>\<open>State.notify\<close> (later \<^verbatim>\<open>publish\<close>), the change handler, \<^verbatim>\<open>createDependency\<close> (later
  \<^verbatim>\<open>createRelationship\<close>, without the inheritance flag) and the exported object, which
  also hands out its stores (\<^verbatim>\<open>getThat\<close>).

  Since \<^verbatim>\<open>execute\<close> does not call back into an Element, a change is a loop over two
  lists and needs no fuel. Two statements of the handler are not modelled:
  \<^verbatim>\<open>console.log(activeStates)\<close>, which writes to the console only, and the call
  \<^verbatim>\<open>.bind(self)\<close> on the jQuery object that \<^verbatim>\<open>change\<close> returns, which is a call into
  jQuery.
\<close>

section \<open>The parts shared with the current revision\<close>

text \<open>
  The names under which this theory refers to the code of \<^verbatim>\<open>src/unnamed/part_000\<close> that
  the current revision kept unchanged. Each stands for the definition of \<open>Nodes\<close> or
  \<open>Registry\<close> that models the same statements in \<^verbatim>\<open>src/field-dependencies.js\<close>.
\<close>

type_synonym ('h, 'w) Legacy_State = "('h, 'w) State"
type_synonym ('h, 'w) Legacy_Modifier = "('h, 'w) Modifier"
type_synonym 'h Legacy_Element = "'h Element"
type_synonym ('h, 'w) legacy_engine = "('h, 'w) engine"

text \<open>The stores and the key callback.\<close>

abbreviation (input) Legacy_init :: "('h \<Rightarrow> name option) \<Rightarrow> ('h, 'w) legacy_engine" where
  "Legacy_init \<equiv> FieldDependencies_init"

abbreviation (input) Legacy_statesContainer_add ::
  "name \<Rightarrow> ('h, 'w) Legacy_State \<Rightarrow> ('h, 'w) legacy_engine \<Rightarrow> ('h, 'w) legacy_engine" where
  "Legacy_statesContainer_add \<equiv> statesContainer_add"

abbreviation (input) Legacy_statesContainer_get ::
  "name \<Rightarrow> ('h, 'w) legacy_engine \<Rightarrow> (sref, ('h, 'w) legacy_engine) result" where
  "Legacy_statesContainer_get \<equiv> statesContainer_get"

abbreviation (input) Legacy_modifiersContainer_add ::
  "name \<Rightarrow> ('h, 'w) Legacy_Modifier \<Rightarrow> ('h, 'w) legacy_engine \<Rightarrow> ('h, 'w) legacy_engine" where
  "Legacy_modifiersContainer_add \<equiv> modifiersContainer_add"

abbreviation (input) Legacy_modifiersContainer_get ::
  "name \<Rightarrow> ('h, 'w) legacy_engine \<Rightarrow> (mref, ('h, 'w) legacy_engine) result" where
  "Legacy_modifiersContainer_get \<equiv> modifiersContainer_get"

abbreviation (input) Legacy_elementsContainer_get ::
  "'h \<Rightarrow> ('h, 'w) legacy_engine \<Rightarrow> error + eref option" where
  "Legacy_elementsContainer_get \<equiv> elementsContainer_get"

abbreviation (input) Legacy_elementsContainer_resolve ::
  "'h \<Rightarrow> ('h, 'w) legacy_engine \<Rightarrow> (eref, ('h, 'w) legacy_engine) result" where
  "Legacy_elementsContainer_resolve \<equiv> elementsContainer_resolve"

text \<open>The constructors and the methods of \<^verbatim>\<open>Element\<close>, \<^verbatim>\<open>State\<close> and \<^verbatim>\<open>Modifier\<close>.\<close>

abbreviation (input) Legacy_new_Element :: "'h \<Rightarrow> 'h Legacy_Element" where
  "Legacy_new_Element \<equiv> new_Element"

abbreviation (input) Legacy_getActiveStates ::
  "eref \<Rightarrow> ('h, 'w, 'z) heap_scheme \<Rightarrow> 'w \<Rightarrow> error + sref jsobj" where
  "Legacy_getActiveStates \<equiv> Element_getActiveStates"

abbreviation (input) Legacy_attachState ::
  "eref \<Rightarrow> name \<Rightarrow> sref \<Rightarrow> ('h, 'w, 'z) heap_scheme \<Rightarrow> ('h, 'w, 'z) heap_scheme" where
  "Legacy_attachState \<equiv> Element_attachState"

abbreviation (input) Legacy_getState :: "eref \<Rightarrow> name \<Rightarrow> ('h, 'w, 'z) heap_scheme \<Rightarrow> sref lookup" where
  "Legacy_getState \<equiv> Element_getState"

abbreviation (input) Legacy_attachModifier ::
  "eref \<Rightarrow> name \<Rightarrow> mref \<Rightarrow> ('h, 'w, 'z) heap_scheme \<Rightarrow> ('h, 'w, 'z) heap_scheme" where
  "Legacy_attachModifier \<equiv> Element_attachModifier"

abbreviation (input) Legacy_getModifier :: "eref \<Rightarrow> name \<Rightarrow> ('h, 'w, 'z) heap_scheme \<Rightarrow> mref lookup" where
  "Legacy_getModifier \<equiv> Element_getModifier"

abbreviation (input) Legacy_new_State :: "('h \<Rightarrow> 'w \<Rightarrow> bool) option \<Rightarrow> ('h, 'w) Legacy_State" where
  "Legacy_new_State \<equiv> new_State"

abbreviation (input) Legacy_isActive :: "sref \<Rightarrow> ('h, 'w, 'z) heap_scheme \<Rightarrow> 'w \<Rightarrow> error + bool" where
  "Legacy_isActive \<equiv> State_isActive"

abbreviation (input) Legacy_State_setElement ::
  "sref \<Rightarrow> eref \<Rightarrow> ('h, 'w, 'z) heap_scheme \<Rightarrow> ('h, 'w, 'z) heap_scheme" where
  "Legacy_State_setElement \<equiv> State_setElement"

abbreviation (input) Legacy_State_addModifier ::
  "sref \<Rightarrow> mref \<Rightarrow> ('h, 'w, 'z) heap_scheme \<Rightarrow> ('h, 'w, 'z) heap_scheme" where
  "Legacy_State_addModifier \<equiv> State_addModifier"

abbreviation (input) Legacy_new_Modifier :: "('h \<Rightarrow> 'w \<Rightarrow> 'w) option \<Rightarrow> ('h, 'w) Legacy_Modifier" where
  "Legacy_new_Modifier \<equiv> new_Modifier"

abbreviation (input) Legacy_Modifier_setElement ::
  "mref \<Rightarrow> eref \<Rightarrow> ('h, 'w, 'z) heap_scheme \<Rightarrow> ('h, 'w, 'z) heap_scheme" where
  "Legacy_Modifier_setElement \<equiv> Modifier_setElement"

text \<open>The exported functions that the current revision kept.\<close>

abbreviation (input) Legacy_addState ::
  "name \<Rightarrow> ('h \<Rightarrow> 'w \<Rightarrow> bool) \<Rightarrow> ('h, 'w) legacy_engine \<Rightarrow> ('h, 'w) legacy_engine" where
  "Legacy_addState \<equiv> addState"

abbreviation (input) Legacy_addModifier ::
  "name \<Rightarrow> ('h \<Rightarrow> 'w \<Rightarrow> 'w) \<Rightarrow> ('h, 'w) legacy_engine \<Rightarrow> ('h, 'w) legacy_engine" where
  "Legacy_addModifier \<equiv> addModifier"

abbreviation (input) Legacy_setElementKeyCallback ::
  "('h \<Rightarrow> name option) \<Rightarrow> ('h, 'w) legacy_engine \<Rightarrow> ('h, 'w) legacy_engine" where
  "Legacy_setElementKeyCallback \<equiv> setElementKeyCallback"

section \<open>listen, execute, notify and the change handler\<close>

text \<open>\<^verbatim>\<open>state.addModifier(this); this.states.push(state);\<close>\<close>

definition Modifier_listen ::
  "mref \<Rightarrow> sref \<Rightarrow> ('h, 'w, 'z) heap_scheme \<Rightarrow> ('h, 'w, 'z) heap_scheme" where
  "Modifier_listen m state h =
     (let h1 = Legacy_State_addModifier state m h
      in h1\<lparr>modifier_heap :=
              modify m (\<lambda>md. md\<lparr>mod_states := mod_states md @ [state]\<rparr>) (modifier_heap h1)\<rparr>)"

text \<open>\<^verbatim>\<open>return this.callback(this.element.$element);\<close>\<close>

definition Legacy_execute :: "mref \<Rightarrow> ('h, 'w, 'z) heap_scheme \<Rightarrow> 'w \<Rightarrow> 'w completion" where
  "Legacy_execute m h w =
     (case mod_element (modifier_heap h ! m) of
        None \<Rightarrow> Throw (TypeError ReadOfNull) w
      | Some element \<Rightarrow>
          (case mod_callback (modifier_heap h ! m) of
             None \<Rightarrow> Throw (TypeError NotCallable) w
           | Some callback \<Rightarrow> Normal (callback (elem_host (element_heap h ! element)) w)))"

text \<open>\<^verbatim>\<open>for (var i in this.modifiers) this.modifiers[i].execute();\<close>\<close>

definition State_notify :: "sref \<Rightarrow> ('h, 'w, 'z) heap_scheme \<Rightarrow> 'w \<Rightarrow> 'w completion" where
  "State_notify s h w =
     for_loop (\<lambda>m. Legacy_execute m h) (state_modifiers (state_heap h ! s)) w"

text \<open>
  The handler that the constructor of \<^verbatim>\<open>Element\<close> registers: every active State
  notifies (each instance has its own \<^verbatim>\<open>notify\<close>, so the test \<^verbatim>\<open>hasOwnProperty('notify')\<close>
  holds).
\<close>

definition Legacy_change :: "eref \<Rightarrow> ('h, 'w, 'z) heap_scheme \<Rightarrow> 'w \<Rightarrow> 'w completion" where
  "Legacy_change e h w =
     (case Legacy_getActiveStates e h w of
        Inl err \<Rightarrow> Throw err w
      | Inr activeStates \<Rightarrow> for_loop (\<lambda>s. State_notify s h) (js_values activeStates) w)"

text \<open>The change event of a host runs the handlers registered on it, oldest first.\<close>

definition legacy_trigger_change :: "'h \<Rightarrow> ('h, 'w, 'z) heap_scheme \<Rightarrow> 'w \<Rightarrow> 'w completion" where
  "legacy_trigger_change host h w = for_loop (\<lambda>e. Legacy_change e h) (change_handlers host h) w"

section \<open>createDependency\<close>

text \<open>\<^verbatim>\<open>subModifier.listen(pubState)\<close> on the two values that the lookups returned.\<close>

definition listen_values ::
  "mref lookup \<Rightarrow> sref lookup \<Rightarrow> ('h, 'w) engine \<Rightarrow> ('h, 'w) engine completion" where
  "listen_values subModifier pubState eng =
     (case subModifier of
        Undefined \<Rightarrow> Throw (TypeError ReadOfUndefined) eng
      | Inherited \<Rightarrow> Throw (TypeError NotCallable) eng
      | Own m \<Rightarrow>
          (case pubState of
             Undefined \<Rightarrow> Throw (TypeError ReadOfUndefined) eng
           | Inherited \<Rightarrow> Throw (TypeError NotCallable) eng
           | Own s \<Rightarrow> Normal (Modifier_listen m s eng)))"

definition createDependency ::
  "'h \<Rightarrow> name \<Rightarrow> 'h \<Rightarrow> name \<Rightarrow> ('h, 'w) engine \<Rightarrow> ('h, 'w) engine completion" where
  "createDependency pubHost pubStateName subHost subModifierName eng =
     bind_result (Legacy_elementsContainer_resolve pubHost eng) (\<lambda>pubElem eng.
     bind_completion (lazy_attachState pubElem pubStateName eng) (\<lambda>eng.
     bind_result (Legacy_elementsContainer_resolve subHost eng) (\<lambda>subElem eng.
     bind_completion (lazy_attachModifier subElem subModifierName eng) (\<lambda>eng.
     let pubState = Legacy_getState pubElem pubStateName eng;
         subModifier = Legacy_getModifier subElem subModifierName eng
     in listen_values subModifier pubState eng))))"

section \<open>The exported object\<close>

text \<open>
  \<^verbatim>\<open>getThat\<close> returns the Element store and the State store themselves, not copies.
\<close>

definition getThat :: "('h, 'w) engine \<Rightarrow> eref jsobj \<times> ('h, 'w) State jsobj" where
  "getThat eng = (elements eng, statesContainer eng)"

datatype ('h, 'w) legacy_call =
    LegacyAddState name "'h \<Rightarrow> 'w \<Rightarrow> bool"
  | LegacyAddModifier name "'h \<Rightarrow> 'w \<Rightarrow> 'w"
  | CreateDependency 'h name 'h name
  | LegacySetElementKeyCallback "'h \<Rightarrow> name option"
  | GetThat

fun legacy_step :: "('h, 'w) legacy_call \<Rightarrow> ('h, 'w) engine \<Rightarrow> ('h, 'w) engine completion" where
  "legacy_step (LegacyAddState name callback) eng = Normal (Legacy_addState name callback eng)"
| "legacy_step (LegacyAddModifier name callback) eng =
     Normal (Legacy_addModifier name callback eng)"
| "legacy_step (CreateDependency pubHost pubStateName subHost subModifierName) eng =
     createDependency pubHost pubStateName subHost subModifierName eng"
| "legacy_step (LegacySetElementKeyCallback callback) eng =
     Normal (Legacy_setElementKeyCallback callback eng)"
| "legacy_step GetThat eng = Normal eng"

inductive legacy_reachable :: "('h, 'w) engine \<Rightarrow> bool" where
  init: "legacy_reachable (Legacy_init attr_id)"
| step: "legacy_reachable eng \<Longrightarrow> legacy_reachable (state_of (legacy_step c eng))"

lemmas legacy_defs [fd_defs] =
  Modifier_listen_def Legacy_execute_def State_notify_def Legacy_change_def
  legacy_trigger_change_def listen_values_def

section \<open>The two revisions build the same module\<close>

lemma listen_subscribe: "Modifier_listen = Modifier_subscribe"
  by (intro ext) (simp add: Modifier_listen_def Modifier_subscribe_def)

lemma listen_values_subscribe_values: "listen_values = subscribe_values"
  by (intro ext) (simp add: listen_values_def subscribe_values_def listen_subscribe split: lookup.splits)


lemma engine_wf_legacy_step: "engine_wf eng \<Longrightarrow> engine_wf (state_of (legacy_step c eng))"
proof (cases c)
  case (CreateDependency dh sn th mn)
  assume "engine_wf eng"
  then have "engine_wf (state_of (createRelationship dh sn th mn False eng))"
    by (rule engine_wf_createRelationship)
  with CreateDependency show ?thesis
    by (simp add: createDependency_def createRelationship_def listen_values_subscribe_values)
qed (simp_all add: engine_wf_addState engine_wf_addModifier engine_wf_setElementKeyCallback)


lemma legacy_reachable_wf: "legacy_reachable eng \<Longrightarrow> engine_wf eng"
  by (induction rule: legacy_reachable.induct) (simp_all add: engine_wf_init engine_wf_legacy_step)

section \<open>A change without cascade\<close>

text \<open>
  The earlier \<^verbatim>\<open>execute\<close> is the current one with a cascade step that returns at once.
\<close>

lemma execute_cut:
  "Modifier_execute (\<lambda>t u. Some (Normal u)) m h = (\<lambda>w. Some (Legacy_execute m h w))"
  by (intro ext) (simp add: Modifier_execute_def Legacy_execute_def split: option.splits)

lemma publish_cut:
  "State_publish (\<lambda>t u. Some (Normal u)) s h = (\<lambda>w. Some (State_notify s h w))"
  by (intro ext) (simp add: State_publish_def State_notify_def execute_cut for_each_Some)

lemma fan_out_cut: "fan_out (\<lambda>t u. Some (Normal u)) e h w = Some (Legacy_change e h w)"
  by (simp add: fan_out_def Legacy_change_def publish_cut for_each_Some split: sum.splits)

text \<open>The handler calls back only into Elements that depend on its own.\<close>

lemma active_of_subset:
  "active_of h w states = Inr activeStates \<Longrightarrow> set activeStates \<subseteq> set states"
proof (induction states arbitrary: activeStates)
  case Nil
  then show ?case by simp
next
  case (Cons p states)
  obtain i s where p: "p = (i, s)" by (cases p)
  from Cons.prems p obtain b rest where "active_of h w states = Inr rest"
    and "activeStates = (if b then (i, s) # rest else rest)"
    by (auto split: sum.splits)
  with Cons.IH [of rest] p show ?case by auto
qed

lemma fan_out_dependents_cong:
  assumes "\<And>t u. t \<in> set (dependents h e) \<Longrightarrow> f t u = g t u"
  shows "fan_out f e h w = fan_out g e h w"
proof (cases "Element_getActiveStates e h w")
  case (Inl err)
  then show ?thesis by (simp add: fan_out_def)
next
  case (Inr activeStates)
  have "State_publish f s h u = State_publish g s h u" if "s \<in> set (js_values activeStates)" for s u
    unfolding State_publish_def
  proof (rule for_each_cong [OF refl refl])
    fix m v assume m: "m \<in> set (state_modifiers (state_heap h ! s))"
    from that active_of_subset [OF Inr [unfolded Element_getActiveStates_def]]
    have "s \<in> set (js_values (elem_states (element_heap h ! e)))"
      by (auto simp: js_values_def)
    with m have "t \<in> set (dependents h e)" if "mod_element (modifier_heap h ! m) = Some t" for t
      using that by (auto simp: dependents_iff)
    then show "Modifier_execute f m h v = Modifier_execute g m h v"
      by (simp add: Modifier_execute_def assms split: option.splits)
  qed
  with Inr show ?thesis
    by (simp add: fan_out_def cong: for_each_cong)
qed

lemma fan_out_no_states:
  "elem_states (element_heap h ! e) = [] \<Longrightarrow> fan_out f e h w = Some (Normal w)"
  by (simp add: fan_out_def Element_getActiveStates_def js_values_def)

text \<open>
  C12. Where no dependent of an Element is itself a dependency, the two revisions agree: the
  change handler of the current revision, with fuel for two nested calls or more, returns
  what the handler of the earlier revision returns.
\<close>

theorem revisions_agree_one_level:
  assumes "\<forall>t \<in> set (dependents h e). elem_states (element_heap h ! t) = []"
  shows "Element_modifyDependents (Suc (Suc fuel)) h e w = Some (Legacy_change e h w)"
proof -
  have "fan_out (Element_modifyDependents (Suc fuel) h) e h w =
        fan_out (\<lambda>t u. Some (Normal u)) e h w"
    using assms by (intro fan_out_dependents_cong) (simp add: fan_out_no_states)
  then show ?thesis by (simp add: fan_out_cut)
qed

theorem revisions_agree_one_level_witness:
  "Element_modifyDependents 2 ex_chain 1 [''b''] = Some (Legacy_change 1 ex_chain [''b'']) \<and>
   Legacy_change 1 ex_chain [''b''] = Normal [''b'', ''c'']"
  using revisions_agree_one_level [of ex_chain 1 0 "[''b'']"]
  by (simp add: dependents_def ex_chain_def js_values_def numeral_2_eq_2 Legacy_change_def
      Element_getActiveStates_def State_isActive_def State_notify_def Legacy_execute_def ex_on_def
      ex_turn_on_def)

section \<open>A change of the earlier revision always returns\<close>

lemma legacy_execute_returns:
  assumes "heap_wf h" and "attached_modifier h m"
  shows "thrown (Legacy_execute m h w) = None"
  using assms heap_wf_modifierD [of h m]
  by (auto simp: attached_modifier_def modifier_ok_iff Legacy_execute_def)

lemma legacy_notify_returns:
  assumes "heap_wf h" and "s < length (state_heap h)"
  shows "thrown (State_notify s h w) = None"
  unfolding State_notify_def
  by (intro for_loop_Normal legacy_execute_returns assms subscribed_modifier_attached [OF assms])

lemma legacy_change_returns:
  assumes wf: "heap_wf h" and e: "e < length (element_heap h)"
  shows "thrown (Legacy_change e h w) = None"
proof -
  have "thrown (State_notify s h u) = None"
    if "s \<in> set (js_values (filter (\<lambda>p. is_active (snd p) h w) (elem_states (element_heap h ! e))))"
    for s u
    using wf active_stored [OF wf e that] by (rule legacy_notify_returns)
  then show ?thesis
    by (simp add: Legacy_change_def getActiveStates_wf [OF wf e] for_loop_Normal)
qed



text \<open>A field that depends on itself, built with the earlier interface.\<close>

definition legacy_run :: "('h, 'w) legacy_call list \<Rightarrow> ('h, 'w) engine \<Rightarrow> ('h, 'w) engine" where
  "legacy_run calls eng = fold (\<lambda>c eng. state_of (legacy_step c eng)) calls eng"

lemma legacy_reachable_run: "legacy_reachable eng \<Longrightarrow> legacy_reachable (legacy_run calls eng)"
  unfolding legacy_run_def
  by (induction calls arbitrary: eng) (auto intro: legacy_reachable.step)

definition ex_legacy_loop :: "(string, string list) legacy_call list" where
  "ex_legacy_loop =
     [LegacyAddState ''on'' ex_on, LegacyAddModifier ''turn_on'' ex_turn_on,
      CreateDependency ''a'' ''on'' ''a'' ''turn_on'', GetThat]"


text \<open>On the loop of theory \<open>Cascade\<close>, where the current handler does not return:\<close>

lemma legacy_loop_returns: "Legacy_change 0 ex_loop [''a''] = Normal [''a'', ''a'']"
  by (simp add: Legacy_change_def Element_getActiveStates_def State_isActive_def State_notify_def
      Legacy_execute_def ex_loop_def ex_on_def ex_turn_on_def js_values_def)

end
