(* ===== verification/RuleGraph.thy ===== *)
theory RuleGraph
  imports Cascade
begin

text \<open>
  What the module promises, without its objects. A \<^emph>\<open>rule\<close> of a field is a predicate
  on the page together with the actions to take when the predicate holds; an action
  changes the page and names the field it was taken on, whose rules are considered next.
  \<open>propagate\<close> is the change of a field in these terms. The theory then reads the rules of
  a field off a heap (\<open>rules_of\<close>) and shows that the change handler of theory \<open>Cascade\<close>
  computes \<open>propagate\<close> on them: the States, Modifiers and Elements with their back
  pointers and optional fields implement the rule graph, and none of the run-time errors
  of the implementation can occur.
\<close>

section \<open>Rules and their propagation\<close>

type_synonym 'w action = "('w \<Rightarrow> 'w) \<times> nat"
type_synonym 'w rule = "('w \<Rightarrow> bool) \<times> 'w action list"
type_synonym 'w rules = "nat \<Rightarrow> 'w rule list"

text \<open>A loop that may fail to return: it stops at the first body that does not return.\<close>

fun fold_option :: "('a \<Rightarrow> 's \<Rightarrow> 's option) \<Rightarrow> 'a list \<Rightarrow> 's \<Rightarrow> 's option" where
  "fold_option body [] s = Some s"
| "fold_option body (x # xs) s = (case body x s of None \<Rightarrow> None | Some s' \<Rightarrow> fold_option body xs s')"

text \<open>
  The rules that hold are chosen on the page as it is when the field changes; their
  actions are taken in order, and each action is followed at once by the change of its own
  field. The first argument bounds the nesting, as the fuel of the implementation does.
\<close>

primrec propagate :: "nat \<Rightarrow> 'w rules \<Rightarrow> nat \<Rightarrow> 'w \<Rightarrow> 'w option" where
  "propagate 0 rules e w = None"
| "propagate (Suc fuel) rules e w =
     fold_option
       (\<lambda>rule. fold_option (\<lambda>action u. propagate fuel rules (snd action) (fst action u)) (snd rule))
       (filter (\<lambda>rule. fst rule w) (rules e)) w"

section \<open>The rules of a heap\<close>

definition action_of :: "('h, 'w, 'z) heap_scheme \<Rightarrow> mref \<Rightarrow> 'w action" where
  "action_of h m =
     (let t = the (mod_element (modifier_heap h ! m))
      in (the (mod_callback (modifier_heap h ! m)) (elem_host (element_heap h ! t)), t))"

definition rule_of :: "('h, 'w, 'z) heap_scheme \<Rightarrow> sref \<Rightarrow> 'w rule" where
  "rule_of h s = (is_active s h, map (action_of h) (state_modifiers (state_heap h ! s)))"

definition rules_of :: "('h, 'w, 'z) heap_scheme \<Rightarrow> 'w rules" where
  "rules_of h e = map (rule_of h) (js_values (elem_states (element_heap h ! e)))"

section \<open>Refinement\<close>

lemma fold_option_cong [fundef_cong]:
  "xs = ys \<Longrightarrow> s = t \<Longrightarrow> (\<And>x u. x \<in> set ys \<Longrightarrow> f x u = g x u) \<Longrightarrow>
   fold_option f xs s = fold_option g ys t"
  by (induction ys arbitrary: xs s t) (auto split: option.splits)

text \<open>A loop of the implementation that never throws is a loop of the specification.\<close>

lemma for_each_fold_option:
  assumes "\<And>x u. x \<in> set xs \<Longrightarrow> body x u = map_option Normal (abody (\<alpha> x) u)"
  shows "for_each body xs s = map_option Normal (fold_option abody (map \<alpha> xs) s)"
  using assms
proof (induction xs arbitrary: s)
  case Nil
  then show ?case by simp
next
  case (Cons x xs)
  then show ?case by (cases "abody (\<alpha> x) s") simp_all
qed

lemma execute_refines:
  assumes wf: "heap_wf h" and m: "attached_modifier h m"
    and handler: "\<And>t u. t < length (element_heap h) \<Longrightarrow> handler t u = map_option Normal (spec t u)"
  shows "Modifier_execute handler m h w =
         map_option Normal (spec (snd (action_of h m)) (fst (action_of h m) w))"
  using m heap_wf_modifierD [OF wf, of m] handler
  by (auto simp: attached_modifier_def modifier_ok_iff Modifier_execute_def action_of_def)

lemma publish_refines:
  assumes wf: "heap_wf h" and s: "s < length (state_heap h)"
    and handler: "\<And>t u. t < length (element_heap h) \<Longrightarrow> handler t u = map_option Normal (spec t u)"
  shows "State_publish handler s h w =
         map_option Normal
           (fold_option (\<lambda>action u. spec (snd action) (fst action u)) (snd (rule_of h s)) w)"
  unfolding State_publish_def rule_of_def snd_conv
  by (intro for_each_fold_option execute_refines wf handler subscribed_modifier_attached [OF wf s])

lemma active_rules:
  "filter (\<lambda>rule. fst rule w) (rules_of h e) =
   map (rule_of h) (js_values (filter (\<lambda>p. is_active (snd p) h w) (elem_states (element_heap h ! e))))"
  by (simp add: rules_of_def js_values_def filter_map comp_def rule_of_def)

lemma fan_out_refines:
  assumes wf: "heap_wf h" and e: "e < length (element_heap h)"
    and handler: "\<And>t u. t < length (element_heap h) \<Longrightarrow> handler t u = map_option Normal (spec t u)"
  shows "fan_out handler e h w =
         map_option Normal
           (fold_option (\<lambda>rule. fold_option (\<lambda>action u. spec (snd action) (fst action u)) (snd rule))
              (filter (\<lambda>rule. fst rule w) (rules_of h e)) w)"
  unfolding active_rules fan_out_def getActiveStates_wf [OF wf e] sum.case
  by (intro for_each_fold_option publish_refines wf handler active_stored [OF wf e])

lemma modifyDependents_refines:
  assumes wf: "heap_wf h"
  shows "e < length (element_heap h) \<Longrightarrow>
         Element_modifyDependents fuel h e w = map_option Normal (propagate fuel (rules_of h) e w)"
proof (induction fuel arbitrary: e w)
  case 0
  then show ?case by simp
next
  case (Suc fuel)
  show ?case
    unfolding Element_modifyDependents.simps propagate.simps
    by (intro fan_out_refines wf Suc.prems Suc.IH)
qed

text \<open>
  C7. Refinement. On a well-formed heap the change of a host is the propagation of the
  rules read off the heap, started at the Elements built on that host: the same page when
  it returns, and no return with the same fuel when it does not. In particular the
  implementation never throws.
\<close>

theorem change_refines_propagate:
  assumes "heap_wf h"
  shows "trigger_change fuel host h w =
         map_option Normal
           (fold_option (propagate fuel (rules_of h)) (change_handlers host h) w)"
  unfolding trigger_change_def
  using for_each_fold_option [where \<alpha> = "\<lambda>e. e" and xs = "change_handlers host h"
      and body = "Element_modifyDependents fuel h" and abody = "propagate fuel (rules_of h)"]
    modifyDependents_refines [OF assms] change_handlers_bound [of _ host h]
  by simp

theorem change_refines_propagate_witness:
  "trigger_change 3 ''a'' ex_chain [''a''] =
   map_option Normal
     (fold_option (propagate 3 (rules_of ex_chain)) (change_handlers ''a'' ex_chain) [''a''])"
  using change_refines_propagate [OF ex_chain_wf] by simp

section \<open>Subscribing adds one action\<close>

definition add_action :: "nat \<Rightarrow> nat \<Rightarrow> 'w action \<Rightarrow> 'w rules \<Rightarrow> 'w rules" where
  "add_action e i a rules =
     rules(e := (rules e)[i := (fst (rules e ! i), snd (rules e ! i) @ [a])])"

lemma isActive_subscribe [simp]:
  "State_isActive s' (Modifier_subscribe m s h) = State_isActive s' h"
  by (intro ext) (simp add: State_isActive_def nth_modify modify_proj split: option.splits)

lemma action_of_subscribe [simp]: "action_of (Modifier_subscribe m s h) m' = action_of h m'"
  by (simp add: action_of_def modify_proj)

lemma rule_of_subscribe:
  assumes "s < length (state_heap h)"
  shows "rule_of (Modifier_subscribe m s h) s' =
         (if s' = s then (fst (rule_of h s), snd (rule_of h s) @ [action_of h m]) else rule_of h s')"
  using assms by (auto simp: rule_of_def is_active_def fun_eq_iff)

lemma map_update_distinct:
  assumes "distinct xs" and "i < length xs"
  shows "map (\<lambda>x. if x = xs ! i then g x else f x) xs = (map f xs)[i := g (xs ! i)]"
  using assms by (auto simp: list_eq_iff_nth_eq nth_eq_iff_index_eq)

lemma map_if_absent: "s \<notin> set xs \<Longrightarrow> map (\<lambda>x. if x = s then g x else f x) xs = map f xs"
  by (induction xs) auto


lemma rules_of_subscribe:
  assumes "s < length (state_heap h)"
  shows "rules_of (Modifier_subscribe m s h) e =
         map (\<lambda>s'. if s' = s then (fst (rule_of h s'), snd (rule_of h s') @ [action_of h m])
                   else rule_of h s')
           (js_values (elem_states (element_heap h ! e)))"
  by (auto simp: rules_of_def rule_of_subscribe [OF assms])

lemma rules_of_subscribe_same:
  assumes wf: "heap_wf h" and s: "s < length (state_heap h)"
    and d: "d < length (element_heap h)"
    and i: "i < length (js_values (elem_states (element_heap h ! d)))"
      "js_values (elem_states (element_heap h ! d)) ! i = s"
  shows "rules_of (Modifier_subscribe m s h) d =
         (rules_of h d)[i := (fst (rule_of h s), snd (rule_of h s) @ [action_of h m])]"
proof -
  let ?vs = "js_values (elem_states (element_heap h ! d))"
  let ?g = "\<lambda>x. (fst (rule_of h x), snd (rule_of h x) @ [action_of h m])"
  have "distinct ?vs"
    using heap_wf_elementD [OF wf d] by (simp add: element_ok_iff)
  then have "map (\<lambda>x. if x = ?vs ! i then ?g x else rule_of h x) ?vs =
      (map (rule_of h) ?vs)[i := ?g (?vs ! i)]"
    using i(1) by (rule map_update_distinct)
  then show ?thesis
    unfolding rules_of_subscribe [OF s] by (simp add: i(2) rules_of_def)
qed

lemma rules_of_subscribe_other:
  assumes wf: "heap_wf h" and s: "s < length (state_heap h)"
    and d: "state_element (state_heap h ! s) = Some d"
    and e: "e < length (element_heap h)" "e \<noteq> d"
  shows "rules_of (Modifier_subscribe m s h) e = rules_of h e"
proof -
  have "s \<notin> set (js_values (elem_states (element_heap h ! e)))"
    using heap_wf_elementD [OF wf e(1)] d e(2) by (auto simp: element_ok_iff)
  then show ?thesis
    unfolding rules_of_subscribe [OF s] by (simp add: map_if_absent rules_of_def)
qed

text \<open>
  C21. Refinement of \<^verbatim>\<open>subscribe\<close>. Subscribing a Modifier to a State that an Element holds
  adds one action, that of the Modifier, at the end of the rule of that State, and changes
  no other rule of any Element.
\<close>

theorem subscribe_refines_add_action:
  assumes wf: "heap_wf h" and s: "s < length (state_heap h)"
    and d: "state_element (state_heap h ! s) = Some d"
    and i: "i < length (js_values (elem_states (element_heap h ! d)))"
      "js_values (elem_states (element_heap h ! d)) ! i = s"
    and e: "e < length (element_heap h)"
  shows "rules_of (Modifier_subscribe m s h) e = add_action d i (action_of h m) (rules_of h) e"
proof (cases "e = d")
  case True
  with rules_of_subscribe_same [OF wf s _ i, of m] e i show ?thesis
    by (simp add: add_action_def rules_of_def)
next
  case False
  with rules_of_subscribe_other [OF wf s d e] show ?thesis
    by (simp add: add_action_def)
qed

theorem subscribe_refines_add_action_witness:
  "rules_of (Modifier_subscribe 1 0 ex_chain) 0 =
   add_action 0 0 (action_of ex_chain 1) (rules_of ex_chain) 0"
  using subscribe_refines_add_action [OF ex_chain_wf, of 0 0 0 0 1]
  by (simp add: ex_chain_def js_values_def)

end
