(* ===== verification/Growth.thy ===== *)
theory Growth
  imports Relationship "HOL-Library.Sublist"
begin

text \<open>
  The module has no operation that removes anything: there is no \<^verbatim>\<open>delete\<close>, no
  \<^verbatim>\<open>splice\<close> and no reset in \<^verbatim>\<open>src/field-dependencies.js\<close>. This theory says what that
  means for the state (\<open>engine_le\<close>: instances stay where they are, an Element keeps
  every State and Modifier it holds, a subscription list is only appended to, callbacks
  and back pointers once set do not change) and shows that every statement of
  \<^verbatim>\<open>createRelationship\<close>, in both outcomes, takes the module to a larger one.
\<close>

section \<open>The order on modules\<close>

text \<open>An object keeps its own properties and their values.\<close>

definition keeps_own :: "'v jsobj \<Rightarrow> 'v jsobj \<Rightarrow> bool" where
  "keeps_own obj obj' \<longleftrightarrow> list_all (\<lambda>k. js_own obj' k = js_own obj k) (js_keys obj)"

definition State_le :: "('h, 'w) State \<Rightarrow> ('h, 'w) State \<Rightarrow> bool" where
  "State_le st st' \<longleftrightarrow>
     prefix (state_modifiers st) (state_modifiers st') \<and>
     state_callback st' = state_callback st \<and>
     (state_element st = None \<or> state_element st' = state_element st)"

definition Modifier_le :: "('h, 'w) Modifier \<Rightarrow> ('h, 'w) Modifier \<Rightarrow> bool" where
  "Modifier_le md md' \<longleftrightarrow>
     prefix (mod_states md) (mod_states md') \<and>
     mod_callback md' = mod_callback md \<and>
     (mod_element md = None \<or> mod_element md' = mod_element md)"

definition Element_le :: "'h Element \<Rightarrow> 'h Element \<Rightarrow> bool" where
  "Element_le el el' \<longleftrightarrow>
     elem_host el' = elem_host el \<and>
     keeps_own (elem_states el) (elem_states el') \<and>
     keeps_own (elem_modifiers el) (elem_modifiers el')"

text \<open>An arena keeps its addresses; the instance at each address may grow.\<close>

definition arena_le :: "('a \<Rightarrow> 'a \<Rightarrow> bool) \<Rightarrow> 'a list \<Rightarrow> 'a list \<Rightarrow> bool" where
  "arena_le R xs xs' \<longleftrightarrow> length xs \<le> length xs' \<and> list_all2 R xs (take (length xs) xs')"

definition heap_le :: "('h, 'w, 'z) heap_scheme \<Rightarrow> ('h, 'w, 'y) heap_scheme \<Rightarrow> bool" where
  "heap_le h h' \<longleftrightarrow>
     arena_le Element_le (element_heap h) (element_heap h') \<and>
     arena_le State_le (state_heap h) (state_heap h') \<and>
     arena_le Modifier_le (modifier_heap h) (modifier_heap h')"

definition engine_le :: "('h, 'w) engine \<Rightarrow> ('h, 'w) engine \<Rightarrow> bool" where
  "engine_le eng eng' \<longleftrightarrow> heap_le eng eng' \<and> keeps_own (elements eng) (elements eng')"

lemmas growth_defs [fd_defs] = State_le_def Modifier_le_def Element_le_def

section \<open>Reflexivity, transitivity, and the steps of an arena\<close>

lemma keeps_own_iff: "keeps_own obj obj' \<longleftrightarrow> (\<forall>k v. js_own obj k = Some v \<longrightarrow> js_own obj' k = Some v)"
  unfolding keeps_own_def list_all_iff
  by (metis hasOwnProperty_iff hasOwnProperty_own_iff not_Some_eq)

lemma keeps_own_refl [simp, intro]: "keeps_own obj obj"
  by (simp add: keeps_own_iff)

lemma keeps_own_trans [trans]: "keeps_own a b \<Longrightarrow> keeps_own b c \<Longrightarrow> keeps_own a c"
  by (simp add: keeps_own_iff)

lemma keeps_own_put: "\<not> hasOwnProperty obj k \<Longrightarrow> keeps_own obj (js_put k v obj)"
  by (auto simp: keeps_own_iff hasOwnProperty_own_iff)

lemma arena_le_iff:
  "arena_le R xs xs' \<longleftrightarrow> length xs \<le> length xs' \<and> (\<forall>i < length xs. R (xs ! i) (xs' ! i))"
  by (auto simp: arena_le_def list_all2_conv_all_nth)

lemma arena_le_refl: "reflp R \<Longrightarrow> arena_le R xs xs"
  by (simp add: arena_le_iff reflpD)

lemma arena_le_trans: "transp R \<Longrightarrow> arena_le R xs ys \<Longrightarrow> arena_le R ys zs \<Longrightarrow> arena_le R xs zs"
  unfolding arena_le_iff by (metis le_trans less_le_trans transpD)

lemma arena_le_snoc: "reflp R \<Longrightarrow> arena_le R xs (xs @ [x])"
  by (simp add: arena_le_iff nth_append reflpD)

lemma arena_le_modify:
  assumes "reflp R" and "a < length xs \<Longrightarrow> R (xs ! a) (f (xs ! a))"
  shows "arena_le R xs (modify a f xs)"
  using assms by (auto simp: arena_le_iff nth_modify reflpD)

lemma le_reflp [simp, intro]: "reflp State_le" "reflp Modifier_le" "reflp Element_le"
  by (auto intro!: reflpI simp: growth_defs)

lemma le_transp [simp, intro]: "transp State_le" "transp Modifier_le" "transp Element_le"
  by (auto intro!: transpI simp: growth_defs intro: keeps_own_trans)

lemma heap_le_refl [simp, intro]: "heap_le h h"
  by (simp add: heap_le_def arena_le_refl)

lemma heap_le_trans [trans]: "heap_le a b \<Longrightarrow> heap_le b c \<Longrightarrow> heap_le a c"
  unfolding heap_le_def by (blast intro: arena_le_trans le_transp)

lemma engine_le_refl [simp, intro]: "engine_le eng eng"
  by (simp add: engine_le_def)

lemma engine_le_trans [trans]: "engine_le a b \<Longrightarrow> engine_le b c \<Longrightarrow> engine_le a c"
  unfolding engine_le_def by (blast intro: heap_le_trans keeps_own_trans)

section \<open>The methods\<close>

lemma heap_le_alloc [simp, intro]:
  "heap_le h (snd (alloc_State st h))" "heap_le h (snd (alloc_Modifier md h))"
  "heap_le h (snd (alloc_Element el h))"
  by (simp_all add: heap_le_def arena_le_refl arena_le_snoc)

lemma arena_le_modify_new: "reflp R \<Longrightarrow> arena_le R xs (modify (length xs) f (xs @ [x]))"
  by (simp add: arena_le_iff nth_modify nth_append reflpD)

text \<open>
  Attaching an instance that has just been made, under a name that the Element does not
  hold: this is the only way in which the module calls \<^verbatim>\<open>attachState\<close> and
  \<^verbatim>\<open>attachModifier\<close>.
\<close>

lemma heap_le_attach_new_State:
  assumes "\<not> hasOwnProperty (elem_states (element_heap h ! e)) key"
  shows "heap_le h (Element_attachState e key (length (state_heap h)) (snd (alloc_State st h)))"
  using assms
  by (simp add: heap_le_def arena_le_refl arena_le_modify_new arena_le_modify Element_le_def
      keeps_own_put)

lemma heap_le_attach_new_Modifier:
  assumes "\<not> hasOwnProperty (elem_modifiers (element_heap h ! e)) key"
  shows "heap_le h
    (Element_attachModifier e key (length (modifier_heap h)) (snd (alloc_Modifier md h)))"
  using assms
  by (simp add: heap_le_def arena_le_refl arena_le_modify_new arena_le_modify Element_le_def
      keeps_own_put)

lemma heap_le_subscribe [simp, intro]: "heap_le h (Modifier_subscribe m s h)"
  by (simp add: heap_le_def arena_le_refl arena_le_modify State_le_def Modifier_le_def)

section \<open>The statements of createRelationship\<close>

lemma engine_le_bind_result:
  assumes "\<And>x. r = Inl x \<Longrightarrow> engine_le eng (snd x)"
    and "\<And>a s. r = Inr (a, s) \<Longrightarrow> engine_le eng s"
    and "\<And>a s. engine_le s (state_of (f a s))"
  shows "engine_le eng (state_of (bind_result r f))"
  using assms by (cases r) (auto intro: engine_le_trans)

lemma engine_le_bind_completion:
  assumes "engine_le eng (state_of c)" and "\<And>s. engine_le s (state_of (f s))"
  shows "engine_le eng (state_of (bind_completion c f))"
  using assms by (cases c) (auto intro: engine_le_trans)

lemma engine_le_resolve:
  "elementsContainer_resolve host eng = Inl x \<Longrightarrow> engine_le eng (snd x)"
  "elementsContainer_resolve host eng = Inr (e, eng') \<Longrightarrow> engine_le eng eng'"
  by (cases host eng rule: resolve_cases;
      auto simp: engine_le_def heap_le_def arena_le_refl arena_le_snoc keeps_own_put
        hasOwnProperty_own_iff)+

lemma engine_le_lazy_attachState: "engine_le eng (state_of (lazy_attachState e key eng))"
  by (auto simp: lazy_attachState_def statesContainer_get_def engine_le_def alloc_State_def
      Element_getState_def falsy_js_get heap_le_attach_new_State [unfolded alloc_State_def, simplified]
      split: lookup.splits)

lemma engine_le_lazy_attachModifier: "engine_le eng (state_of (lazy_attachModifier e key eng))"
  by (auto simp: lazy_attachModifier_def modifiersContainer_get_def engine_le_def alloc_Modifier_def
      Element_getModifier_def falsy_js_get
      heap_le_attach_new_Modifier [unfolded alloc_Modifier_def, simplified]
      split: lookup.splits)

lemma engine_le_subscribe_values:
  "engine_le eng (state_of (subscribe_values subModifier pubState eng))"
  by (simp add: subscribe_values_def engine_le_def split: lookup.splits)

lemma engine_le_subscribe_each:
  "engine_le eng (state_of (subscribe_each subModifier cascadingStates eng))"
  by (induction cascadingStates arbitrary: eng)
    (auto intro: engine_le_bind_completion engine_le_subscribe_values)

lemma engine_le_inherit_states: "engine_le eng (state_of (inherit_states d mn subModifier eng))"
  by (simp add: inherit_states_def engine_le_subscribe_each split: lookup.splits)

lemma engine_le_createRelationship:
  "engine_le eng (state_of (createRelationship dh sn th mn inh eng))"
  unfolding createRelationship_def Let_def
  by (intro engine_le_bind_result engine_le_bind_completion engine_le_lazy_attachState
      engine_le_lazy_attachModifier engine_le_subscribe_values)
    (auto intro: engine_le_resolve engine_le_inherit_states)

lemma engine_le_stores [simp, intro]:
  "engine_le eng (addState name f eng)" "engine_le eng (addModifier name g eng)"
  "engine_le eng (setElementKeyCallback cb eng)"
  by (simp_all add: engine_le_def heap_le_def arena_le_refl registry_defs)

section \<open>What a larger module still has\<close>

lemma engine_le_elements:
  "engine_le eng eng' \<Longrightarrow> js_own (elements eng) key = Some e \<Longrightarrow>
   js_own (elements eng') key = Some e"
  by (simp add: engine_le_def keeps_own_iff)

lemma engine_le_element:
  assumes "engine_le eng eng'" and "e < length (element_heap eng)"
  shows "e < length (element_heap eng')"
    and "elem_host (element_heap eng' ! e) = elem_host (element_heap eng ! e)"
    and "Element_getState e key eng = Own s \<Longrightarrow> Element_getState e key eng' = Own s"
    and "Element_getModifier e key eng = Own m \<Longrightarrow> Element_getModifier e key eng' = Own m"
  using assms
  by (auto simp: engine_le_def heap_le_def arena_le_iff Element_le_def keeps_own_iff
      Element_getState_def Element_getModifier_def js_get_Own_iff)

lemma engine_le_state:
  assumes "engine_le eng eng'" and "s < length (state_heap eng)"
  shows "s < length (state_heap eng')"
    and "prefix (state_modifiers (state_heap eng ! s)) (state_modifiers (state_heap eng' ! s))"
    and "state_callback (state_heap eng' ! s) = state_callback (state_heap eng ! s)"
    and "state_element (state_heap eng ! s) = Some e \<Longrightarrow> state_element (state_heap eng' ! s) = Some e"
  using assms by (auto simp: engine_le_def heap_le_def arena_le_iff State_le_def)

lemma engine_le_modifier:
  assumes "engine_le eng eng'" and "m < length (modifier_heap eng)"
  shows "m < length (modifier_heap eng')"
    and "prefix (mod_states (modifier_heap eng ! m)) (mod_states (modifier_heap eng' ! m))"
    and "mod_callback (modifier_heap eng' ! m) = mod_callback (modifier_heap eng ! m)"
    and "mod_element (modifier_heap eng ! m) = Some e \<Longrightarrow> mod_element (modifier_heap eng' ! m) = Some e"
  using assms by (auto simp: engine_le_def heap_le_def arena_le_iff Modifier_le_def)

end
