(* ===== verification/Spec2Isabelle.thy ===== *)
theory Spec2Isabelle
  imports Wiring Cascade Legacy RuleGraph Growth
begin

text \<open>
  \<^bold>\<open>A verification development for the field-dependencies engine.\<close>

  The program (\<^verbatim>\<open>src/field-dependencies.js\<close>, with an earlier revision of the same
  module in \<^verbatim>\<open>src/unnamed/part_000\<close> and a page of documentation in
  \<^verbatim>\<open>src/unnamed/part_001\<close>) links named \<^emph>\<open>States\<close> of form fields to named
  \<^emph>\<open>Modifiers\<close> of other fields: when a field changes, each of its States whose
  predicate holds notifies the Modifiers subscribed to it, each Modifier runs its
  callback on its own field and then lets that field notify in turn (the cascade).

  \<^bold>\<open>Parts of the program and where they are modelled.\<close>
  \<^item> \<^emph>\<open>Exceptions, completions, arenas, loops\<close>: theory \<open>FD_Prelude\<close>. \<open>completion\<close> is
    the outcome of a statement that may throw, \<open>bind_result\<close> and \<open>bind_completion\<close>
    sequence statements, \<open>modify\<close> is a field write on an instance, \<open>for_each\<close> a loop
    whose body may throw or run out of fuel.
  \<^item> \<^emph>\<open>Plain objects used as dictionaries\<close> (\<^verbatim>\<open>states: {}\<close>, \<^verbatim>\<open>this.elements = {}\<close>, ...):
    theory \<open>JsObject\<close>. \<open>jsobj\<close> is the list of own properties in enumeration order;
    \<open>js_put\<close>, \<open>js_get\<close>, \<open>js_own\<close>, \<open>hasOwnProperty\<close>, \<open>js_keys\<close> are the
    accesses the sources make; \<open>js_wf\<close> is the invariant. \<open>own_property_keys\<close> is the
    enumeration order as the language defines it, a reference for \<open>js_put\<close>.
  \<^item> \<^emph>\<open>The constructors\<close> \<^verbatim>\<open>Element\<close>, \<^verbatim>\<open>State\<close>, \<^verbatim>\<open>Modifier\<close> and their methods
    \<^verbatim>\<open>setElement\<close>, \<^verbatim>\<open>addModifier\<close>, \<^verbatim>\<open>subscribe\<close>, \<^verbatim>\<open>attachState\<close>, \<^verbatim>\<open>getState\<close>,
    \<^verbatim>\<open>attachModifier\<close>, \<^verbatim>\<open>getModifier\<close>, \<^verbatim>\<open>isActive\<close>, \<^verbatim>\<open>getActiveStates\<close>: theory
    \<open>Nodes\<close>. Instances are addresses into three arenas (record \<open>heap\<close>); \<open>heap_wf\<close>
    is the shape of the object graph.
  \<^item> \<^emph>\<open>The stores\<close> \<^verbatim>\<open>statesContainer\<close>, \<^verbatim>\<open>modifiersContainer\<close>, \<^verbatim>\<open>elementsContainer\<close>,
    the key callback \<^verbatim>\<open>getElementKey\<close> and the exported \<^verbatim>\<open>addState\<close>, \<^verbatim>\<open>addModifier\<close>,
    \<^verbatim>\<open>setElementKeyCallback\<close>: theory \<open>Registry\<close>. The record \<open>engine\<close> extends
    \<open>heap\<close> by the stores; \<open>engine_wf\<close> is its invariant: \<open>heap_wf\<close>, one Element
    per stored key, templates with callbacks, and every name under which an Element holds
    an instance is the name of a template and not a name of \<^verbatim>\<open>Object.prototype\<close>.
  \<^item> \<^emph>\<open>createRelationship\<close>: theory \<open>Relationship\<close>, one definition per statement that
    can throw (\<open>lazy_attachState\<close>, \<open>lazy_attachModifier\<close>, \<open>subscribe_values\<close>,
    \<open>inherit_states\<close>), sequenced as the source sequences them. Theory \<open>Wiring\<close> holds
    what a call establishes; its vocabulary is \<open>prepared\<close>, the module in which both
    hosts are registered and hold the named State and Modifier.
  \<^item> \<^emph>\<open>The change handler and the cascade\<close> (\<^verbatim>\<open>modifyDependents\<close>, \<^verbatim>\<open>State.publish\<close>,
    \<^verbatim>\<open>Modifier.execute\<close>): theory \<open>Cascade\<close>. \<open>fan_out\<close> is the body of the handler,
    \<open>State_publish\<close> and \<open>Modifier_execute\<close> take the handler to call as a parameter, and
    \<open>Element_modifyDependents\<close> ties the knot by recursion on fuel. \<open>trigger_change\<close>
    is the change event of a host: it runs the handlers registered on that host.
  \<^item> \<^emph>\<open>The earlier revision\<close> \<^verbatim>\<open>src/unnamed/part_000\<close>: theory \<open>Legacy\<close>. Its stores,
    constructors and attach methods are those of the current revision, word for word, and
    are modelled by the definitions of \<open>Nodes\<close> and \<open>Registry\<close>; what differs has its
    own definitions: \<open>Modifier_listen\<close>, \<open>Legacy_execute\<close> (no cascade step),
    \<open>State_notify\<close>, \<open>Legacy_change\<close>, \<open>createDependency\<close>, \<open>getThat\<close>, and the
    exported object as \<open>legacy_call\<close> and \<open>legacy_step\<close>.
  \<^item> \<^emph>\<open>What the module promises\<close>, without its objects: theory \<open>RuleGraph\<close>. A rule is a
    predicate with a list of actions, \<open>propagate\<close> is the change of a field in these
    terms, and \<open>rules_of\<close> reads the rules of a field off a heap.
  \<^item> \<^emph>\<open>What the module never does\<close>: theory \<open>Growth\<close>. The sources have no statement
    that removes or overwrites an instance, a property of an Element or an entry of a
    subscription list; \<open>engine_le\<close> is the order on modules that says so.
  \<^item> \<^emph>\<open>The exported object\<close> (the \<^verbatim>\<open>return { ... }\<close> of the module): this theory. A
    \<open>call\<close> is one use of the exported interface, \<open>api_step\<close> performs it, and
    \<open>reachable\<close> are the states of the module a page can produce.

  \<^bold>\<open>How state and effects are modelled.\<close> The module keeps its state in variables that
  live as long as the page; an operation of the model takes the \<open>engine\<close> and returns
  the new one. An operation that can throw returns a \<open>completion\<close>, which carries the
  state in both outcomes, because JavaScript does not undo the writes made before a throw.
  The type variable \<open>'h\<close> is the host reference (the jQuery object of a field) and
  \<open>'w\<close> the state of the page that the user's callbacks read and write. Callbacks are
  total functions of the host and the page; a callback that throws or that calls back
  into the module is outside the model. A change therefore reads the heap and writes the
  page only.

  \<^bold>\<open>What the lemmas show.\<close>
  \<^item> \<open>JsObject\<close>: reading after writing (\<open>js_put_get\<close>); an object is a finite map
    (\<open>jsobj_refines_map\<close>); \<open>js_wf\<close> is kept and a write adds at most one property
    (\<open>js_put_wf\<close>); the array indices are the numerals of the numbers below
    \<open>2\<^sup>3\<^sup>2 - 1\<close> (\<open>array_index_roundtrip\<close>); the sorted insertion of \<open>js_put\<close> gives the
    enumeration order of the language (\<open>js_keys_own_property_keys\<close>).
  \<^item> \<open>Nodes\<close>: \<open>heap_wf\<close> is kept by allocation, by attaching a fresh instance under a
    name that reads as undefined, and by \<^verbatim>\<open>subscribe\<close> between attached instances; both
    ends of an edge are attached; the States of an Element are visited in enumeration
    order, not in the order of attachment (\<open>active_states_order\<close>).
  \<^item> \<open>Registry\<close>: the outcomes of \<^verbatim>\<open>get\<close> and \<^verbatim>\<open>resolve\<close>, \<open>engine_wf\<close> kept; one key,
    one Element (\<open>resolve_singleton\<close>), and the two ways in which the own-property test
    and the key coercion of the source break that (\<open>resolve_hasOwnProperty_breaks\<close>,
    \<open>resolve_missing_key_shared\<close>); a template read back is a new instance with the
    callback registered last (\<open>template_roundtrip\<close>).
  \<^item> \<open>Relationship\<close>: every statement of \<^verbatim>\<open>createRelationship\<close>, and the whole call in
    both outcomes, keep \<open>engine_wf\<close>, and what each statement leaves alone.
  \<^item> \<open>Wiring\<close>: what a call with an unknown template leaves behind
    (\<open>createRelationship_unknown_state\<close>, \<open>createRelationship_unknown_modifier\<close>); with
    known templates the call returns and both ends list each other
    (\<open>createRelationship_wires\<close>); a repeated call duplicates the subscription
    (\<open>createRelationship_twice\<close>); inheritance copies the list of the Modifier of the
    same name on the dependency Element (\<open>createRelationship_inherits\<close>,
    \<open>createRelationship_inherits_all\<close>); a name of \<^verbatim>\<open>Object.prototype\<close> cannot be used
    (\<open>createRelationship_prototype_name\<close>); the exported flag \<^verbatim>\<open>doNotInherit\<close> switches
    inheritance on (\<open>doNotInherit_inherits\<close>).
  \<^item> \<open>Cascade\<close>: on a well-formed heap a change never throws; it returns when the
    dependency graph is ranked (\<open>cascade_terminates\<close>) and starves with every fuel on a set
    of Elements that keep firing into each other (\<open>cascade_diverges\<close>); more fuel never
    changes an outcome; what every callback keeps, the change keeps; no active State, no
    effect.
  \<^item> \<open>Legacy\<close>: \<^verbatim>\<open>createDependency\<close> is \<^verbatim>\<open>createRelationship\<close> without inheritance
    (\<open>createDependency_createRelationship\<close>), so the invariant holds in every reachable
    state of the earlier revision too; its change handler always returns
    (\<open>legacy_change_total\<close>), and where no dependent is itself a dependency the two
    revisions compute the same page (\<open>revisions_agree_one_level\<close>).
  \<^item> \<open>RuleGraph\<close>: the change handler is a functional refinement of \<open>propagate\<close>
    (\<open>change_refines_propagate\<close>: the implementation equals the specification applied to
    the abstraction of the heap, fuel for fuel), and \<^verbatim>\<open>subscribe\<close> adds one action to one
    rule (\<open>subscribe_refines_add_action\<close>).
  \<^item> \<open>Growth\<close>: \<open>engine_le\<close> is a preorder, and every method and every statement of
    \<^verbatim>\<open>createRelationship\<close> takes a module to a larger one, whether it returns or throws
    and without any assumption on the module (\<open>engine_le_createRelationship\<close>).
  \<^item> This theory: every reachable state is well-formed (\<open>reachable_engine_wf\<close>), so a
    change on a reachable module never throws (\<open>reachable_change_safe\<close>); the page after
    a change in a module with one relationship (\<open>single_relationship\<close>) and with a chain
    of two (\<open>chain_cascade\<close>); a call of \<^verbatim>\<open>createRelationship\<close> on prepared Elements is
    one step \<open>add_action\<close> of the rule graph (\<open>createRelationship_refines_add_action\<close>);
    whatever calls follow, what an Element holds and what is subscribed stays as it is
    (\<open>relationship_permanent\<close>, \<open>registry_permanent\<close>); a field whose key changes
    when the key callback is replaced gets a second Element
    (\<open>rekeyed_host_second_element\<close>).

  \<^bold>\<open>Fuel.\<close> The source bounds the recursion of the cascade by nothing; the model bounds
  it by the number of nested calls of \<^verbatim>\<open>modifyDependents\<close>. An outcome \<open>None\<close> says
  that this number was not enough. For a ranked graph \<open>Suc (rank e)\<close> is enough and any
  larger number gives the same outcome, so there the fuel is no restriction. An outcome
  \<open>None\<close> for every fuel is a run that nests calls without bound, which a JavaScript
  engine ends with a \<^verbatim>\<open>RangeError\<close> when its stack is exhausted. The loops of the
  earlier revision are total (\<open>for_loop\<close>) and need no fuel.

  \<^bold>\<open>Bounds.\<close> Property names are arbitrary strings. Reads of the eleven method names of
  \<^verbatim>\<open>Object.prototype\<close> and of \<^verbatim>\<open>__proto__\<close> are modelled (\<open>Inherited\<close>). A write to the
  name \<^verbatim>\<open>__proto__\<close> creates no own property, and the model says so; it also replaces
  the prototype of the object written to, which the model does not follow. This matters
  for one call only, \<^verbatim>\<open>addState("__proto__", f)\<close> or \<^verbatim>\<open>addModifier("__proto__", f)\<close>,
  after which the model is not valid for the seven property names of a State or
  Modifier instance. Array indices are the canonical numerals below \<open>2\<^sup>3\<^sup>2 - 1\<close>, as in
  the language; natural numbers are evaluated as target-language integers
  (\<open>Code_Target_Nat\<close>), so that the bound is a numeral and not a unary term. Addresses are
  indices into lists that only grow; an address that no allocation returned is outside
  the invariants and the theorems assume none.

  \<^bold>\<open>Not modelled.\<close> jQuery and the DOM (the host reference and the page are type
  variables, the dispatch of the change event is taken from the specification);
  \<^verbatim>\<open>console.log\<close> and the call \<^verbatim>\<open>.bind(self)\<close> on the jQuery object in the change
  handler of the earlier revision; \<^verbatim>\<open>src/unnamed/part_001\<close>, which is documentation.

  \<^bold>\<open>Plan.\<close> Still to come: the refinement of \<^verbatim>\<open>attachState\<close> and of a call of
  \<^verbatim>\<open>createRelationship\<close> with inheritance in the rule graph; the order of the page
  updates within one change of a ranked graph, as a list of callbacks.
\<close>

section \<open>The exported interface\<close>

datatype ('h, 'w) call =
    AddState name "'h \<Rightarrow> 'w \<Rightarrow> bool"
  | AddModifier name "'h \<Rightarrow> 'w \<Rightarrow> 'w"
  | CreateRelationship 'h name 'h name bool
  | SetElementKeyCallback "'h \<Rightarrow> name option"

fun api_step :: "('h, 'w) call \<Rightarrow> ('h, 'w) engine \<Rightarrow> ('h, 'w) engine completion" where
  "api_step (AddState name callback) eng = Normal (addState name callback eng)"
| "api_step (AddModifier name callback) eng = Normal (addModifier name callback eng)"
| "api_step (CreateRelationship dependencyHost stateName dependentHost modifierName doNotInherit) eng =
     api_createRelationship dependencyHost stateName dependentHost modifierName doNotInherit eng"
| "api_step (SetElementKeyCallback callback) eng = Normal (setElementKeyCallback callback eng)"

text \<open>
  A page may catch an exception and go on using the module, so the state after a throw is
  reachable too.
\<close>

inductive reachable :: "('h, 'w) engine \<Rightarrow> bool" where
  init: "reachable (FieldDependencies_init attr_id)"
| step: "reachable eng \<Longrightarrow> reachable (state_of (api_step c eng))"

definition run :: "('h, 'w) call list \<Rightarrow> ('h, 'w) engine \<Rightarrow> ('h, 'w) engine" where
  "run calls eng = fold (\<lambda>c eng. state_of (api_step c eng)) calls eng"

section \<open>Every reachable state is well-formed\<close>

lemma engine_wf_api_step: "engine_wf eng \<Longrightarrow> engine_wf (state_of (api_step c eng))"
  by (cases c)
    (simp_all add: engine_wf_addState engine_wf_addModifier engine_wf_setElementKeyCallback
      engine_wf_createRelationship api_createRelationship_def)

lemma reachable_run: "reachable eng \<Longrightarrow> reachable (run calls eng)"
  unfolding run_def by (induction calls arbitrary: eng) (auto intro: reachable.step)



section \<open>A change on a reachable module\<close>


text \<open>A field that depends on itself, for the witness.\<close>

definition ex_loop_calls :: "(string, string list) call list" where
  "ex_loop_calls =
     [AddState ''on'' ex_on, AddModifier ''turn_on'' ex_turn_on,
      CreateRelationship ''a'' ''on'' ''a'' ''turn_on'' True]"


section \<open>One relationship\<close>

text \<open>
  The page of the example: the fields that are checked and the fields that are visible.
\<close>

definition ex_is_checked :: "string \<Rightarrow> string list \<times> string list \<Rightarrow> bool" where
  "ex_is_checked host w \<longleftrightarrow> host \<in> set (fst w)"

definition ex_show :: "string \<Rightarrow> string list \<times> string list \<Rightarrow> string list \<times> string list" where
  "ex_show host w = (fst w, List.insert host (snd w))"

lemma single_relationship_heap:
  assumes "to_key (k d) \<noteq> to_key (k t)"
    and "to_key (k d) \<notin> {''hasOwnProperty'', ''__proto__''}"
    and "sn \<notin> set object_prototype_keys" and "mn \<notin> set object_prototype_keys"
  shows "\<exists>eng. createRelationship d sn t mn False
            (addModifier mn g (addState sn p (FieldDependencies_init k))) = Normal eng \<and>
          element_heap eng =
            [\<lparr>elem_host = d, elem_states = [(sn, 0)], elem_modifiers = []\<rparr>,
             \<lparr>elem_host = t, elem_states = [], elem_modifiers = [(mn, 0)]\<rparr>] \<and>
          state_heap eng =
            [\<lparr>state_element = Some 0, state_callback = Some p, state_modifiers = [0]\<rparr>] \<and>
          modifier_heap eng =
            [\<lparr>mod_element = Some 1, mod_callback = Some g, mod_states = [0]\<rparr>]"
  using assms proto_is_prototype_key
  by (auto simp: createRelationship_def lazy_attachState_def lazy_attachModifier_def
      subscribe_values_def FieldDependencies_init_def fd_defs Let_def modify_def falsy_def)

text \<open>
  C6. Activation. In a module with one relationship, from State \<open>sn\<close> of field \<open>d\<close> to
  Modifier \<open>mn\<close> of another field \<open>t\<close>, a change of \<open>d\<close> runs the Modifier callback on
  \<open>t\<close> exactly once when the State predicate holds of \<open>d\<close>, and does nothing when it does
  not. Two nested calls of the handler are enough.
\<close>

theorem single_relationship:
  assumes "to_key (k d) \<noteq> to_key (k t)"
    and "to_key (k d) \<notin> {''hasOwnProperty'', ''__proto__''}"
    and "sn \<notin> set object_prototype_keys" and "mn \<notin> set object_prototype_keys"
  shows "trigger_change (Suc (Suc fuel)) d
           (state_of (createRelationship d sn t mn False
              (addModifier mn g (addState sn p (FieldDependencies_init k))))) w =
         Some (Normal (if p d w then g t w else w))"
proof -
  from assms(1) have "d \<noteq> t" by auto
  with single_relationship_heap [of k d t sn mn g p] assms show ?thesis
    by (auto simp: trigger_change_def change_handlers_def fan_out_def Element_getActiveStates_def
        State_isActive_def State_publish_def Modifier_execute_def js_values_def upt_rec [of 0]
        upt_rec [of 1] upt_rec [of "Suc 0"])
qed

theorem single_relationship_witness:
  "trigger_change 2 ''checkbox''
     (state_of (createRelationship ''checkbox'' ''checked'' ''panel'' ''show'' False
        (addModifier ''show'' ex_show (addState ''checked'' ex_is_checked
           (FieldDependencies_init Some)))))
     ([''checkbox''], []) = Some (Normal ([''checkbox''], [''panel''])) \<and>
   trigger_change 2 ''checkbox''
     (state_of (createRelationship ''checkbox'' ''checked'' ''panel'' ''show'' False
        (addModifier ''show'' ex_show (addState ''checked'' ex_is_checked
           (FieldDependencies_init Some)))))
     ([], [''panel'']) = Some (Normal ([], [''panel'']))"
  using single_relationship [of Some "''checkbox''" "''panel''" "''checked''" "''show''" 0 ex_show
      ex_is_checked "([''checkbox''], [])"]
    single_relationship [of Some "''checkbox''" "''panel''" "''checked''" "''show''" 0 ex_show
      ex_is_checked "([], [''panel''])"]
  by (simp add: to_key_def object_prototype_keys_def ex_is_checked_def ex_show_def numeral_2_eq_2)

section \<open>A chain of relationships\<close>

definition ex_chain_calls :: "(string, string list) call list" where
  "ex_chain_calls =
     [AddState ''on'' ex_on, AddModifier ''turn_on'' ex_turn_on,
      CreateRelationship ''a'' ''on'' ''b'' ''turn_on'' False,
      CreateRelationship ''b'' ''on'' ''c'' ''turn_on'' False]"

lemma ex_chain_built:
  "heap.truncate (run ex_chain_calls (FieldDependencies_init Some)) = ex_chain"
  by (simp add: ex_chain_calls_def run_def heap.truncate_def ex_chain_def api_createRelationship_def
      createRelationship_def lazy_attachState_def lazy_attachModifier_def subscribe_values_def
      FieldDependencies_init_def fd_defs to_key_def Let_def object_prototype_keys_def modify_def
      falsy_def)


section \<open>A relationship is one action of the rule graph\<close>

text \<open>
  C15. Refinement of \<^verbatim>\<open>createRelationship\<close>. On prepared Elements a call without
  inheritance is one step of the rule graph: it returns, and the rules read off the new
  module are those of the old one with one action added, the callback of the dependent's
  Modifier on the dependent's host, at the end of the rule of the named State of the
  dependency. The rules of every other Element and the predicates of all rules are as
  before.
\<close>

theorem createRelationship_refines_add_action:
  assumes wf: "engine_wf eng" and p: "prepared eng dh sn th mn d s t m"
    and e: "e < length (element_heap eng)"
  shows "\<exists>eng' i. createRelationship dh sn th mn False eng = Normal eng' \<and>
           i < length (rules_of eng d) \<and>
           js_values (elem_states (element_heap eng ! d)) ! i = s \<and>
           snd (action_of eng m) = t \<and>
           rules_of eng' e = add_action d i (action_of eng m) (rules_of eng) e"
proof -
  from wf have hwf: "heap_wf eng" by (simp add: engine_wf_def)
  from p have gs: "Element_getState d sn eng = Own s" and gm: "Element_getModifier t mn eng = Own m"
    by (simp_all add: prepared_def)
  note b = prepared_bounds [OF wf p]
  from stored_state_attached [OF hwf b(1) gs] have sd: "state_element (state_heap eng ! s) = Some d"
    by simp
  from stored_modifier_attached [OF hwf b(2) gm] have mt: "mod_element (modifier_heap eng ! m) = Some t"
    by simp
  from gs have "s \<in> set (js_values (elem_states (element_heap eng ! d)))"
    by (simp add: Element_getState_def js_get_Own_iff js_own_Some_value)
  then obtain i where i: "i < length (js_values (elem_states (element_heap eng ! d)))"
      "js_values (elem_states (element_heap eng ! d)) ! i = s"
    by (auto simp: in_set_conv_nth)
  have "rules_of (Modifier_subscribe m s eng) e = add_action d i (action_of eng m) (rules_of eng) e"
    using rules_of_subscribe_same [OF hwf b(3,1) i, of m] rules_of_subscribe_other [OF hwf b(3) sd e, of m] i
    by (cases "e = d") (simp_all add: add_action_def rules_of_def)
  with i mt show ?thesis
    by (auto simp: createRelationship_prepared [OF p] rules_of_def action_of_def)
qed

theorem createRelationship_refines_add_action_witness:
  "\<exists>eng' i. createRelationship ''a'' ''checked'' ''b'' ''show'' False ex_wired = Normal eng' \<and>
      i < length (rules_of ex_wired 0) \<and>
      snd (action_of ex_wired 0) = 1 \<and>
      rules_of eng' 0 = add_action 0 i (action_of ex_wired 0) (rules_of ex_wired) 0"
  using createRelationship_refines_add_action [OF ex_wired_wf ex_wired_prepared, of 0]
  by (auto simp: ex_wired_heap)

section \<open>Nothing is ever removed\<close>

lemma engine_le_api_step: "engine_le eng (state_of (api_step c eng))"
  by (cases c) (simp_all add: api_createRelationship_def engine_le_createRelationship)

lemma engine_le_run: "engine_le eng (run calls eng)"
  unfolding run_def
  by (induction calls arbitrary: eng) (auto intro: engine_le_trans engine_le_api_step)

text \<open>
  C16. A relationship is permanent. Whatever calls follow, including calls that throw, an
  Element keeps the State it holds under a name, the State keeps its callback and its
  Element, and its list of subscribed Modifiers is only appended to: a Modifier that is
  subscribed stays subscribed, at the same position.
\<close>

theorem relationship_permanent:
  assumes "e < length (element_heap eng)" and "Element_getState e key eng = Own s"
    and "s < length (state_heap eng)" and "state_element (state_heap eng ! s) = Some e"
  shows "Element_getState e key (run calls eng) = Own s \<and>
         state_element (state_heap (run calls eng) ! s) = Some e \<and>
         state_callback (state_heap (run calls eng) ! s) = state_callback (state_heap eng ! s) \<and>
         prefix (state_modifiers (state_heap eng ! s))
           (state_modifiers (state_heap (run calls eng) ! s))"
  using engine_le_element(3) [OF engine_le_run assms(1,2)]
    engine_le_state(2,3,4) [OF engine_le_run assms(3)] assms(4)
  by simp

lemma ex_wired_state: "state_element (state_heap ex_wired ! 0) = Some 0"
  using stored_state_attached [of ex_wired 0 "''checked''" 0] ex_wired_wf
  by (simp add: engine_wf_def ex_wired_heap Element_getState_def js_defs)

theorem relationship_permanent_witness:
  "Element_getState 0 ''checked''
     (run [CreateRelationship ''b'' ''checked'' ''c'' ''show'' True, AddState ''checked'' (\<lambda>h w. False)]
        ex_wired) = Own 0 \<and>
   prefix [0] (state_modifiers (state_heap
     (run [CreateRelationship ''b'' ''checked'' ''c'' ''show'' True, AddState ''checked'' (\<lambda>h w. False)]
        ex_wired) ! 0))"
  using relationship_permanent [of 0 ex_wired "''checked''" 0
      "[CreateRelationship ''b'' ''checked'' ''c'' ''show'' True, AddState ''checked'' (\<lambda>h w. False)]"]
  by (simp add: ex_wired_heap Element_getState_def js_defs ex_wired_state)

text \<open>
  C17. The registry is permanent. Whatever calls follow, a key that names an Element
  names the same Element, on the same host, and a Modifier keeps its callback, its Element
  and the States it subscribes to, in their order.
\<close>

theorem registry_permanent:
  assumes "js_own (elements eng) key = Some e" and "e < length (element_heap eng)"
    and "Element_getModifier e name eng = Own m" and "m < length (modifier_heap eng)"
  shows "js_own (elements (run calls eng)) key = Some e \<and>
         elem_host (element_heap (run calls eng) ! e) = elem_host (element_heap eng ! e) \<and>
         Element_getModifier e name (run calls eng) = Own m \<and>
         mod_callback (modifier_heap (run calls eng) ! m) = mod_callback (modifier_heap eng ! m) \<and>
         prefix (mod_states (modifier_heap eng ! m)) (mod_states (modifier_heap (run calls eng) ! m))"
  using engine_le_elements [OF engine_le_run assms(1)]
    engine_le_element(2,4) [OF engine_le_run assms(2)] assms(3)
    engine_le_modifier(2,3) [OF engine_le_run assms(4)]
  by simp

theorem registry_permanent_witness:
  "js_own (elements (run [CreateRelationship ''b'' ''checked'' ''a'' ''show'' True] ex_wired)) ''b'' =
     Some 1 \<and>
   Element_getModifier 1 ''show'' (run [CreateRelationship ''b'' ''checked'' ''a'' ''show'' True] ex_wired) =
     Own 0 \<and>
   prefix [0] (mod_states (modifier_heap
     (run [CreateRelationship ''b'' ''checked'' ''a'' ''show'' True] ex_wired) ! 0))"
  using registry_permanent [of ex_wired "''b''" 1 "''show''" 0
      "[CreateRelationship ''b'' ''checked'' ''a'' ''show'' True]"]
  by (simp add: ex_wired_heap Element_getModifier_def js_defs)

section \<open>Replacing the key callback\<close>

text \<open>
  C28. One Element per key, not per field. After \<^verbatim>\<open>setElementKeyCallback\<close> a host whose
  new key is not in use is given a new Element, whether or not it has one under its old
  key: the old Element stays registered under the old key, and a change of the host runs
  the handlers of both, the old one first.
\<close>

theorem rekeyed_host_second_element:
  assumes "\<not> hasOwnProperty (elements eng) ''hasOwnProperty''"
    and "js_own (elements eng) (to_key (callback host)) = None"
  shows "\<exists>eng'. elementsContainer_resolve host (setElementKeyCallback callback eng) =
             Inr (length (element_heap eng), eng') \<and>
           elements eng' =
             js_put (to_key (callback host)) (length (element_heap eng)) (elements eng) \<and>
           change_handlers host eng' = change_handlers host eng @ [length (element_heap eng)]"
proof (cases rule: resolve_cases [of "setElementKeyCallback callback eng" host])
  case broken
  with assms(1) show ?thesis by (simp add: setElementKeyCallback_def)
next
  case (known e)
  with assms(2) show ?thesis by (simp add: setElementKeyCallback_def)
next
  case new
  then show ?thesis
    by (auto simp: setElementKeyCallback_def new_Element_def change_handlers_def nth_append
        intro!: filter_cong)
qed

lemma ex_wired_handlers: "change_handlers ''a'' ex_wired = [0]"
  by (simp add: change_handlers_def ex_wired_heap)

theorem rekeyed_host_second_element_witness:
  "\<exists>eng'. elementsContainer_resolve ''a'' (setElementKeyCallback (\<lambda>h. Some (''field-'' @ h)) ex_wired) =
      Inr (2, eng') \<and>
    elements eng' = [(''a'', 0), (''b'', 1), (''field-a'', 2)] \<and>
    change_handlers ''a'' eng' = [0, 2]"
  using rekeyed_host_second_element [of ex_wired "\<lambda>h. Some (''field-'' @ h)" "''a''"]
  by (simp add: ex_wired_heap ex_wired_handlers js_defs to_key_def key_before_def
      array_index_def is_digit_def numeral_2_eq_2)

end
